theory Spec2Isabelle
  imports Complex_Main "HOL-Library.AList" "HOL-Library.Multiset" "HOL-Library.Product_Lexorder"
begin

section \<open>Values\<close>

subsection \<open>Floating-point cells\<close>

text \<open>
  The numeric columns of the data frame hold Python floats. They are modelled as reals
  extended with the three special values a cell can hold: \<open>NaN\<close> (which pandas also
  uses for a missing cell) and the two infinities. The sums, products and quotients below
  are the exact ones, and the sign of zero is not modelled: a zero divisor is taken as
  \<open>+0.0\<close>. The rounding of a double is modelled where the course of the program depends
  on it: in the conversion of the amount columns and in the two subtractions of the
  matching loop, which decide the branch the loop takes and the amounts that stay open
  (\<open>round64\<close> and \<open>dsub\<close> below).
  Comparisons with \<open>NaN\<close> are false, arithmetic with \<open>NaN\<close> is \<open>NaN\<close>.
\<close>

datatype pyfloat = Fin real | NaN | PInf | NInf

fun is_fin :: "pyfloat \<Rightarrow> bool" where
  "is_fin (Fin a) = True"
| "is_fin _ = False"

fun fin_val :: "pyfloat \<Rightarrow> real" where
  "fin_val (Fin a) = a"
| "fin_val _ = 0"

fun fneg :: "pyfloat \<Rightarrow> pyfloat" where
  "fneg (Fin a) = Fin (- a)"
| "fneg NaN = NaN"
| "fneg PInf = NInf"
| "fneg NInf = PInf"

fun fadd :: "pyfloat \<Rightarrow> pyfloat \<Rightarrow> pyfloat" where
  "fadd (Fin a) (Fin b) = Fin (a + b)"
| "fadd NaN _ = NaN"
| "fadd _ NaN = NaN"
| "fadd PInf NInf = NaN"
| "fadd NInf PInf = NaN"
| "fadd PInf _ = PInf"
| "fadd _ PInf = PInf"
| "fadd NInf _ = NInf"
| "fadd _ NInf = NInf"

definition fsub :: "pyfloat \<Rightarrow> pyfloat \<Rightarrow> pyfloat" where
  "fsub a b = fadd a (fneg b)"

fun fmul :: "pyfloat \<Rightarrow> pyfloat \<Rightarrow> pyfloat" where
  "fmul (Fin a) (Fin b) = Fin (a * b)"
| "fmul NaN _ = NaN"
| "fmul _ NaN = NaN"
| "fmul PInf (Fin b) = (if b = 0 then NaN else if 0 < b then PInf else NInf)"
| "fmul NInf (Fin b) = (if b = 0 then NaN else if 0 < b then NInf else PInf)"
| "fmul (Fin a) PInf = (if a = 0 then NaN else if 0 < a then PInf else NInf)"
| "fmul (Fin a) NInf = (if a = 0 then NaN else if 0 < a then NInf else PInf)"
| "fmul PInf PInf = PInf"
| "fmul PInf NInf = NInf"
| "fmul NInf PInf = NInf"
| "fmul NInf NInf = PInf"

text \<open>Element-wise division of a pandas column (IEEE: no exception on a zero divisor).\<close>

fun fdiv :: "pyfloat \<Rightarrow> pyfloat \<Rightarrow> pyfloat" where
  "fdiv (Fin a) (Fin b) =
     (if b = 0 then (if a = 0 then NaN else if 0 < a then PInf else NInf) else Fin (a / b))"
| "fdiv NaN _ = NaN"
| "fdiv _ NaN = NaN"
| "fdiv (Fin a) PInf = Fin 0"
| "fdiv (Fin a) NInf = Fin 0"
| "fdiv PInf (Fin b) = (if 0 \<le> b then PInf else NInf)"
| "fdiv NInf (Fin b) = (if 0 \<le> b then NInf else PInf)"
| "fdiv PInf PInf = NaN"
| "fdiv PInf NInf = NaN"
| "fdiv NInf PInf = NaN"
| "fdiv NInf NInf = NaN"

fun flt :: "pyfloat \<Rightarrow> pyfloat \<Rightarrow> bool" where
  "flt (Fin a) (Fin b) = (a < b)"
| "flt NaN _ = False"
| "flt _ NaN = False"
| "flt NInf NInf = False"
| "flt NInf _ = True"
| "flt _ NInf = False"
| "flt PInf _ = False"
| "flt _ PInf = True"

fun fle :: "pyfloat \<Rightarrow> pyfloat \<Rightarrow> bool" where
  "fle (Fin a) (Fin b) = (a \<le> b)"
| "fle NaN _ = False"
| "fle _ NaN = False"
| "fle NInf _ = True"
| "fle _ PInf = True"
| "fle PInf _ = False"
| "fle _ NInf = False"

definition fgt :: "pyfloat \<Rightarrow> pyfloat \<Rightarrow> bool" where
  "fgt a b = flt b a"

subsection \<open>Doubles\<close>

text \<open>
  A Python float is an IEEE 754 double: 53 significant bits, the exponent of the last bit
  between \<open>-1074\<close> and \<open>971\<close>. \<open>round64 x\<close> is the double nearest to the real \<open>x\<close>,
  the one with the even last bit when two doubles are equally near, and an infinity when
  the magnitude is beyond the largest double. This is what \<open>float\<close> returns for a
  decimal text, and what an arithmetic operation returns for the exact result on two
  doubles. \<open>ulp_exponent x\<close> is the exponent of the last bit at the magnitude of \<open>x\<close>.
\<close>

definition round_half_even :: "real \<Rightarrow> int" where
  "round_half_even y =
     (let f = \<lfloor>y\<rfloor>; d = y - of_int f
      in if d < 1 / 2 then f else if 1 / 2 < d then f + 1 else if even f then f else f + 1)"

definition ulp_exponent :: "real \<Rightarrow> int" where
  "ulp_exponent x = max (\<lfloor>log 2 \<bar>x\<bar>\<rfloor> - 52) (- 1074)"

definition round64 :: "real \<Rightarrow> pyfloat" where
  "round64 x =
     (if x = 0 then Fin 0
      else (let e = ulp_exponent x;
                r = of_int (round_half_even (x / 2 powr of_int e)) * 2 powr of_int e
            in if 2 ^ 1024 \<le> \<bar>r\<bar> then (if 0 < x then PInf else NInf) else Fin r))"

text \<open>The subtraction of two floats, \<open>a - b\<close> and \<open>a -= b\<close>, rounded.\<close>

fun dsub :: "pyfloat \<Rightarrow> pyfloat \<Rightarrow> pyfloat" where
  "dsub (Fin a) (Fin b) = round64 (a - b)"
| "dsub a b = fsub a b"

subsection \<open>Timestamps\<close>

text \<open>
  A parsed \<open>pandas.Timestamp\<close>, by its calendar fields; \<open>ts_time\<close> is the time of day.
  Chronological order is the lexicographic order of \<open>ts_key\<close>. \<open>NaT\<close> is not modelled.
\<close>

record timestamp =
  ts_year :: int
  ts_month :: nat
  ts_day :: nat
  ts_time :: nat

definition ts_key :: "timestamp \<Rightarrow> int \<times> nat \<times> nat \<times> nat" where
  "ts_key t = (ts_year t, ts_month t, ts_day t, ts_time t)"

subsection \<open>Strings\<close>

definition endswith :: "string \<Rightarrow> string \<Rightarrow> bool" where
  "endswith s suf = (length suf \<le> length s \<and> drop (length s - length suf) s = suf)"

text \<open>
  \<open>s.replace(old, '')\<close>: every non-overlapping occurrence of \<open>old\<close>, scanning from the
  left, is removed; with an empty \<open>old\<close> the string is returned as it is.
\<close>

fun str_remove :: "string \<Rightarrow> string \<Rightarrow> string" where
  "str_remove old [] = []"
| "str_remove old (c # cs) =
     (if old \<noteq> [] \<and> take (length old) (c # cs) = old
      then str_remove old (drop (length old) (c # cs))
      else c # str_remove old cs)"

section \<open>Pair decomposition (app.py)\<close>

definition quote_currencies :: "string list" where
  "quote_currencies = [''EUR'', ''USDT'', ''FDUSD'']"

definition get_quote_currency :: "string \<Rightarrow> string" where
  "get_quote_currency pair =
     (case find (endswith pair) quote_currencies of
        Some quote \<Rightarrow> quote
      | None \<Rightarrow> ''UNKNOWN'')"

definition get_base_currency :: "string \<Rightarrow> string" where
  "get_base_currency pair =
     (let quote = get_quote_currency pair
      in if quote \<noteq> ''UNKNOWN'' then str_remove quote pair else pair)"

section \<open>Trade normalization\<close>

text \<open>
  A row as \<open>read_csv\<close> hands it over. For \<open>Price\<close> and \<open>Date(UTC)\<close> the conversion
  itself is pandas' (\<open>astype(float)\<close>, \<open>to_datetime\<close>): a cell is given by the value it
  converts to, and \<open>None\<close> stands for a text that pandas cannot convert, on which the
  conversion raises \<open>ValueError\<close>.

  \<open>Executed\<close> and \<open>Amount\<close> are meant to hold texts, a number followed by the asset as
  in \<open>0.125BTC\<close> (in ASCII). \<open>read_csv\<close> decides the type of a column from all its cells.
  A column in which every cell is a number or empty, or every cell a truth value, is
  converted: it becomes a numeric or Boolean column, and none of its cells is a text. Any
  other column, and every column of a file that has no rows, keeps the type \<open>object\<close>,
  in which a cell is the text of the file, also when the text is a number, and an empty
  cell (or one of the texts that \<open>read_csv\<close> takes for empty, such as \<open>n/a\<close>) is
  \<open>NaN\<close>, which is not a text. So a cell is a text or it is not, and the column has the
  accessor \<open>.str\<close> when the frame is empty or one of its cells is a text.
\<close>

datatype cell = Text string | Not_text

definition is_text :: "cell \<Rightarrow> bool" where
  "is_text c = (case c of Text _ \<Rightarrow> True | Not_text \<Rightarrow> False)"

definition str_accessible :: "cell list \<Rightarrow> bool" where
  "str_accessible column = (column = [] \<or> list_ex is_text column)"

record csv_row =
  csv_Pair :: string
  csv_Side :: string
  csv_Price :: "pyfloat option"
  csv_Executed :: cell
  csv_Amount :: cell
  csv_Date :: "timestamp option"

record row =
  row_Pair :: string
  row_Side :: string
  row_Price :: pyfloat
  row_Executed :: pyfloat
  row_Amount :: pyfloat
  row_Date :: timestamp
  row_Quote_Currency :: string
  row_Base_Currency :: string

datatype error = ValueError string | ZeroDivisionError | AttributeError

definition is_digit :: "char \<Rightarrow> bool" where
  "is_digit c = (48 \<le> (of_char c :: nat) \<and> (of_char c :: nat) \<le> 57)"

text \<open>
  \<open>str.extract(r'(\d+\.\d+|\d+)')\<close>: the leftmost match of the pattern, \<open>None\<close> (a
  missing cell) when the text has no digit. The leftmost match starts at the first digit;
  there the first alternative matches when the run of digits is followed by a dot and a
  digit, and the second alternative (the run of digits alone) matches otherwise.
\<close>

definition str_extract :: "string \<Rightarrow> string option" where
  "str_extract s =
     (let t = dropWhile (\<lambda>c. \<not> is_digit c) s;
          ip = takeWhile is_digit t;
          rest = dropWhile is_digit t
      in if t = [] then None
         else (case rest of
                 d # c # _ \<Rightarrow>
                   if d = CHR ''.'' \<and> is_digit c
                   then Some (ip @ [d] @ takeWhile is_digit (tl rest))
                   else Some ip
               | _ \<Rightarrow> Some ip))"

text \<open>
  On a column that has the accessor, \<open>str.extract\<close> gives a missing cell for every cell
  that is not a text.
\<close>

definition extract_cell :: "cell \<Rightarrow> string option" where
  "extract_cell c = (case c of Text s \<Rightarrow> str_extract s | Not_text \<Rightarrow> None)"

definition digits_val :: "string \<Rightarrow> nat" where
  "digits_val ds = foldl (\<lambda>a c. 10 * a + ((of_char c :: nat) - 48)) 0 ds"

text \<open>
  \<open>astype(float)\<close> on the extracted column: a missing cell stays \<open>NaN\<close>, a token becomes
  the double nearest to the decimal number it writes.
\<close>

definition astype_float :: "string option \<Rightarrow> pyfloat" where
  "astype_float cell =
     (case cell of
        None \<Rightarrow> NaN
      | Some tok \<Rightarrow>
          (let ip = takeWhile is_digit tok;
               fp = drop (length ip + 1) tok
           in round64 (real (digits_val ip) + real (digits_val fp) / 10 ^ length fp)))"

text \<open>
  The column conversions at the head of \<open>process_orders\<close> (app.py), one column after the
  other over the whole frame: a bad \<open>Price\<close> cell anywhere raises first; then the accessor
  \<open>.str\<close> raises \<open>AttributeError\<close> on an \<open>Executed\<close> column, then on an \<open>Amount\<close>
  column, that does not have it; then a bad date raises.
\<close>

definition normalize_row :: "csv_row \<Rightarrow> row option" where
  "normalize_row r =
     (case (csv_Price r, csv_Date r) of
        (Some p, Some d) \<Rightarrow>
          Some \<lparr> row_Pair = csv_Pair r,
                 row_Side = csv_Side r,
                 row_Price = p,
                 row_Executed = astype_float (extract_cell (csv_Executed r)),
                 row_Amount = astype_float (extract_cell (csv_Amount r)),
                 row_Date = d,
                 row_Quote_Currency = get_quote_currency (csv_Pair r),
                 row_Base_Currency = get_base_currency (csv_Pair r) \<rparr>
      | _ \<Rightarrow> None)"

definition normalize :: "csv_row list \<Rightarrow> error + row list" where
  "normalize df =
     (if list_ex (\<lambda>r. csv_Price r = None) df
        then Inl (ValueError ''could not convert string to float'')
      else if \<not> str_accessible (map csv_Executed df)
        then Inl AttributeError
      else if \<not> str_accessible (map csv_Amount df)
        then Inl AttributeError
      else if list_ex (\<lambda>r. csv_Date r = None) df
        then Inl (ValueError ''Unknown datetime string format'')
      else Inr (List.map_filter normalize_row df))"

section \<open>FIFO matching (app.py)\<close>

record lot =
  price :: pyfloat
  amount :: pyfloat
  date :: timestamp

record closed_position =
  Base_Currency :: string
  Open_Price :: pyfloat
  Close_Price :: pyfloat
  Amount :: pyfloat
  Open_Date :: timestamp
  Close_Date :: timestamp
  Profit_Loss_USDT :: pyfloat

text \<open>
  The three collections the loop of \<open>process_orders\<close> updates. \<open>open_positions\<close> is a
  Python dict: an association list in insertion order, updated in place.
\<close>

record matching =
  open_positions :: "(string \<times> lot list) list"
  closed_positions :: "closed_position list"
  orphan_sell_orders :: "row list"

definition close_slice ::
  "string \<Rightarrow> pyfloat \<Rightarrow> timestamp \<Rightarrow> lot \<Rightarrow> pyfloat \<Rightarrow> closed_position" where
  "close_slice base_currency sell_price sell_date open_order closed_amount =
     \<lparr> Base_Currency = base_currency,
       Open_Price = price open_order,
       Close_Price = sell_price,
       Amount = closed_amount,
       Open_Date = date open_order,
       Close_Date = sell_date,
       Profit_Loss_USDT = fmul closed_amount (fsub sell_price (price open_order)) \<rparr>"

text \<open>
  The \<open>while remaining_to_sell > 0 and open_positions[base_currency]\<close> loop, on the queue
  of the sold asset and the list of closed positions. The two statements
  \<open>remaining_to_sell -= open_order['amount']\<close> and
  \<open>open_order['amount'] -= remaining_to_sell\<close> subtract doubles.
\<close>

function close_fifo ::
  "string \<Rightarrow> pyfloat \<Rightarrow> timestamp \<Rightarrow> pyfloat \<Rightarrow> lot list \<Rightarrow> closed_position list
     \<Rightarrow> lot list \<times> closed_position list" where
  "close_fifo base_currency sell_price sell_date remaining_to_sell queue emitted =
     (if fgt remaining_to_sell (Fin 0) \<and> queue \<noteq> [] then
        (let open_order = hd queue in
         if fle (amount open_order) remaining_to_sell then
           close_fifo base_currency sell_price sell_date
             (dsub remaining_to_sell (amount open_order))
             (tl queue)
             (emitted @ [close_slice base_currency sell_price sell_date open_order (amount open_order)])
         else
           close_fifo base_currency sell_price sell_date
             (Fin 0)
             (open_order\<lparr>amount := dsub (amount open_order) remaining_to_sell\<rparr> # tl queue)
             (emitted @ [close_slice base_currency sell_price sell_date open_order remaining_to_sell]))
      else (queue, emitted))"
  by pat_completeness auto
termination
  by (relation "measure (\<lambda>(b, p, d, r, q, c). 2 * length q + (if fgt r (Fin 0) then 1 else 0))")
     (auto simp: fgt_def)

definition process_row :: "matching \<Rightarrow> row \<Rightarrow> matching" where
  "process_row st r =
     (let base_currency = row_Base_Currency r;
          side = row_Side r
      in if side = ''BUY'' then
           (let queue = (case map_of (open_positions st) base_currency of
                           None \<Rightarrow> [] | Some q \<Rightarrow> q)
            in st\<lparr>open_positions :=
                   AList.update base_currency
                     (queue @ [\<lparr>price = row_Price r, amount = row_Executed r, date = row_Date r\<rparr>])
                     (open_positions st)\<rparr>)
         else if side = ''SELL'' then
           (case map_of (open_positions st) base_currency of
              None \<Rightarrow> st\<lparr>orphan_sell_orders := orphan_sell_orders st @ [r]\<rparr>
            | Some [] \<Rightarrow> st\<lparr>orphan_sell_orders := orphan_sell_orders st @ [r]\<rparr>
            | Some queue \<Rightarrow>
                (let (queue', closed') =
                       close_fifo base_currency (row_Price r) (row_Date r) (row_Executed r)
                         queue (closed_positions st)
                 in st\<lparr>open_positions := AList.update base_currency queue' (open_positions st),
                       closed_positions := closed'\<rparr>))
         else st)"

definition no_positions :: matching where
  "no_positions = \<lparr>open_positions = [], closed_positions = [], orphan_sell_orders = []\<rparr>"

definition match_rows :: "row list \<Rightarrow> matching" where
  "match_rows rows = foldl process_row no_positions rows"

text \<open>
  \<open>df.sort_values(by='Date(UTC)')\<close> is pandas' sort, called with its default algorithm;
  its code is not part of the repository, so the sort is a parameter \<open>sort_values\<close> of the
  model. What pandas documents for it: the result is a rearrangement of the rows, in
  ascending order of the key.
\<close>

definition sorts_by_date :: "(row list \<Rightarrow> row list) \<Rightarrow> bool" where
  "sorts_by_date sort_values =
     (\<forall>df. mset (sort_values df) = mset df \<and> sorted (map (\<lambda>r. ts_key (row_Date r)) (sort_values df)))"

definition process_orders ::
  "(row list \<Rightarrow> row list) \<Rightarrow> csv_row list
     \<Rightarrow> error + (closed_position list \<times> (string \<times> lot list) list \<times> row list)" where
  "process_orders sort_values df =
     (case normalize df of
        Inl e \<Rightarrow> Inl e
      | Inr rows \<Rightarrow>
          (let st = match_rows (sort_values rows)
           in Inr (closed_positions st, open_positions st, orphan_sell_orders st)))"

section \<open>The command-line script (visualizer.py)\<close>

text \<open>
  The older script has its own \<open>get_base_currency\<close> and \<open>process_orders\<close>. Its
  \<open>get_base_currency\<close> raises on a pair with no known quote; its loop keeps no list of
  unmatched sells, computes a percentage for every slice with Python's scalar division
  (which raises \<open>ZeroDivisionError\<close> on a zero divisor) and accumulates two totals.
\<close>

fun v_first_quote :: "string list \<Rightarrow> string \<Rightarrow> error + string" where
  "v_first_quote [] pair =
     Inl (ValueError (''Unable to determine base currency for pair: '' @ pair))"
| "v_first_quote (quote # quotes) pair =
     (if endswith pair quote then Inr (str_remove quote pair) else v_first_quote quotes pair)"

definition v_get_base_currency :: "string \<Rightarrow> error + string" where
  "v_get_base_currency pair = v_first_quote quote_currencies pair"

record v_row =
  v_row_Pair :: string
  v_row_Side :: string
  v_row_Price :: pyfloat
  v_row_Executed :: pyfloat
  v_row_Amount :: pyfloat
  v_row_Date :: timestamp
  v_row_Base_Currency :: string

definition v_normalize_row :: "csv_row \<Rightarrow> v_row option" where
  "v_normalize_row r =
     (case (csv_Price r, csv_Date r, v_get_base_currency (csv_Pair r)) of
        (Some p, Some d, Inr base) \<Rightarrow>
          Some \<lparr> v_row_Pair = csv_Pair r,
                 v_row_Side = csv_Side r,
                 v_row_Price = p,
                 v_row_Executed = astype_float (extract_cell (csv_Executed r)),
                 v_row_Amount = astype_float (extract_cell (csv_Amount r)),
                 v_row_Date = d,
                 v_row_Base_Currency = base \<rparr>
      | _ \<Rightarrow> None)"

fun v_first_error :: "csv_row list \<Rightarrow> error option" where
  "v_first_error [] = None"
| "v_first_error (r # rs) =
     (case v_get_base_currency (csv_Pair r) of Inl e \<Rightarrow> Some e | Inr _ \<Rightarrow> v_first_error rs)"

definition v_normalize :: "csv_row list \<Rightarrow> error + v_row list" where
  "v_normalize df =
     (if list_ex (\<lambda>r. csv_Price r = None) df
        then Inl (ValueError ''could not convert string to float'')
      else if \<not> str_accessible (map csv_Executed df)
        then Inl AttributeError
      else if \<not> str_accessible (map csv_Amount df)
        then Inl AttributeError
      else if list_ex (\<lambda>r. csv_Date r = None) df
        then Inl (ValueError ''Unknown datetime string format'')
      else (case v_first_error df of
              Some e \<Rightarrow> Inl e
            | None \<Rightarrow> Inr (List.map_filter v_normalize_row df)))"

record v_lot =
  v_price :: pyfloat
  v_amount :: pyfloat
  v_quote :: string
  v_date :: timestamp

record v_closed_position =
  v_Base_Currency :: string
  v_Open_Price :: pyfloat
  v_Close_Price :: pyfloat
  v_Amount :: pyfloat
  v_Open_Date :: timestamp
  v_Close_Date :: timestamp
  v_Quote_Currency_Open :: string
  v_Quote_Currency_Close :: string
  v_Profit_Loss_USDT :: pyfloat
  v_Profit_Loss_pct :: pyfloat

record v_matching =
  v_open_positions :: "(string \<times> v_lot list) list"
  v_closed_positions :: "v_closed_position list"
  total_profit_usdt :: pyfloat
  total_profit_percentage :: pyfloat

text \<open>Python's \<open>/\<close> on two floats.\<close>

definition py_truediv :: "pyfloat \<Rightarrow> pyfloat \<Rightarrow> error + pyfloat" where
  "py_truediv a b = (if b = Fin 0 then Inl ZeroDivisionError else Inr (fdiv a b))"

text \<open>\<open>pair.replace(get_base_currency(pair), '')\<close>.\<close>

definition v_quote_of :: "string \<Rightarrow> error + string" where
  "v_quote_of pair =
     (case v_get_base_currency pair of Inl e \<Rightarrow> Inl e | Inr base \<Rightarrow> Inr (str_remove base pair))"

text \<open>
  One closed slice and the two totals after it: the profit, then the percentage (whose
  division can raise), then the record with its close quote, as the source orders them.
\<close>

definition v_close_slice ::
  "string \<Rightarrow> pyfloat \<Rightarrow> timestamp \<Rightarrow> error + string \<Rightarrow> v_lot \<Rightarrow> pyfloat
     \<Rightarrow> v_closed_position list \<times> pyfloat \<times> pyfloat
     \<Rightarrow> error + v_closed_position list \<times> pyfloat \<times> pyfloat" where
  "v_close_slice base_currency sell_price sell_date close_quote open_order closed_amount acc =
     (let profit_loss_usdt = fmul closed_amount (fsub sell_price (v_price open_order))
      in case py_truediv (fsub sell_price (v_price open_order)) (v_price open_order) of
           Inl e \<Rightarrow> Inl e
         | Inr ratio \<Rightarrow>
             (let profit_loss_percentage = fmul ratio (Fin 100)
              in case close_quote of
                   Inl e \<Rightarrow> Inl e
                 | Inr q \<Rightarrow>
                     (case acc of (emitted, usdt, pct) \<Rightarrow>
                        Inr (emitted @
                               [\<lparr> v_Base_Currency = base_currency,
                                   v_Open_Price = v_price open_order,
                                   v_Close_Price = sell_price,
                                   v_Amount = closed_amount,
                                   v_Open_Date = v_date open_order,
                                   v_Close_Date = sell_date,
                                   v_Quote_Currency_Open = v_quote open_order,
                                   v_Quote_Currency_Close = q,
                                   v_Profit_Loss_USDT = profit_loss_usdt,
                                   v_Profit_Loss_pct = profit_loss_percentage \<rparr>],
                             fadd usdt profit_loss_usdt,
                             fadd pct profit_loss_percentage))))"

function v_close_fifo ::
  "string \<Rightarrow> string \<Rightarrow> pyfloat \<Rightarrow> timestamp \<Rightarrow> pyfloat \<Rightarrow> v_lot list
     \<Rightarrow> v_closed_position list \<times> pyfloat \<times> pyfloat
     \<Rightarrow> error + v_lot list \<times> v_closed_position list \<times> pyfloat \<times> pyfloat" where
  "v_close_fifo base_currency pair sell_price sell_date remaining_to_sell queue acc =
     (if fgt remaining_to_sell (Fin 0) \<and> queue \<noteq> [] then
        (let open_order = hd queue in
         if fle (v_amount open_order) remaining_to_sell then
           (case v_close_slice base_currency sell_price sell_date (v_quote_of pair)
                   open_order (v_amount open_order) acc of
              Inl e \<Rightarrow> Inl e
            | Inr acc' \<Rightarrow>
                v_close_fifo base_currency pair sell_price sell_date
                  (dsub remaining_to_sell (v_amount open_order)) (tl queue) acc')
         else
           (case v_close_slice base_currency sell_price sell_date
                   (Inr (drop (length pair - 4) pair)) open_order remaining_to_sell acc of
              Inl e \<Rightarrow> Inl e
            | Inr acc' \<Rightarrow>
                v_close_fifo base_currency pair sell_price sell_date
                  (Fin 0)
                  (open_order\<lparr>v_amount := dsub (v_amount open_order) remaining_to_sell\<rparr> # tl queue)
                  acc'))
      else Inr (queue, acc))"
  by pat_completeness auto
termination
  by (relation "measure (\<lambda>(b, pr, p, d, r, q, c). 2 * length q + (if fgt r (Fin 0) then 1 else 0))")
     (auto simp: fgt_def)

definition v_process_row :: "v_matching \<Rightarrow> v_row \<Rightarrow> error + v_matching" where
  "v_process_row st r =
     (let base_currency = v_row_Base_Currency r;
          pair = v_row_Pair r;
          side = v_row_Side r
      in if side = ''BUY'' then
           (let queue = (case map_of (v_open_positions st) base_currency of
                           None \<Rightarrow> [] | Some q \<Rightarrow> q)
            in case v_quote_of pair of
                 Inl e \<Rightarrow> Inl e
               | Inr quote \<Rightarrow>
                   Inr (st\<lparr>v_open_positions :=
                            AList.update base_currency
                              (queue @ [\<lparr>v_price = v_row_Price r, v_amount = v_row_Executed r,
                                         v_quote = quote, v_date = v_row_Date r\<rparr>])
                              (v_open_positions st)\<rparr>))
         else if side = ''SELL'' then
           (case map_of (v_open_positions st) base_currency of
              None \<Rightarrow> Inr st
            | Some [] \<Rightarrow> Inr st
            | Some queue \<Rightarrow>
                (case v_close_fifo base_currency pair (v_row_Price r) (v_row_Date r)
                        (v_row_Executed r) queue
                        (v_closed_positions st, total_profit_usdt st, total_profit_percentage st) of
                   Inl e \<Rightarrow> Inl e
                 | Inr (queue', emitted, usdt, pct) \<Rightarrow>
                     Inr (st\<lparr>v_open_positions := AList.update base_currency queue' (v_open_positions st),
                             v_closed_positions := emitted,
                             total_profit_usdt := usdt,
                             total_profit_percentage := pct\<rparr>)))
         else Inr st)"

fun v_match_rows :: "v_matching \<Rightarrow> v_row list \<Rightarrow> error + v_matching" where
  "v_match_rows st [] = Inr st"
| "v_match_rows st (r # rs) =
     (case v_process_row st r of Inl e \<Rightarrow> Inl e | Inr st' \<Rightarrow> v_match_rows st' rs)"

definition v_no_positions :: v_matching where
  "v_no_positions =
     \<lparr>v_open_positions = [], v_closed_positions = [],
      total_profit_usdt = Fin 0, total_profit_percentage = Fin 0\<rparr>"

record open_summary =
  s_Base_Currency :: string
  Mean_Price :: pyfloat
  Total_Amount :: pyfloat
  Total_Amount_USD :: pyfloat

text \<open>Python's built-in \<open>sum\<close>: a left fold from \<open>0\<close>, with no special case for \<open>NaN\<close>.\<close>

definition py_sum :: "pyfloat list \<Rightarrow> pyfloat" where
  "py_sum xs = foldl fadd (Fin 0) xs"

definition summarize :: "string \<times> v_lot list \<Rightarrow> open_summary" where
  "summarize item =
     (case item of (base_currency, positions) \<Rightarrow>
        (let total_amount = py_sum (map v_amount positions);
             mean_price =
               (if fgt total_amount (Fin 0)
                then fdiv (py_sum (map (\<lambda>position. fmul (v_price position) (v_amount position)) positions))
                       total_amount
                else Fin 0)
         in \<lparr> s_Base_Currency = base_currency,
              Mean_Price = mean_price,
              Total_Amount = total_amount,
              Total_Amount_USD = fmul total_amount mean_price \<rparr>))"

definition v_process_orders ::
  "(v_row list \<Rightarrow> v_row list) \<Rightarrow> csv_row list
     \<Rightarrow> error + (open_summary list \<times> v_closed_position list \<times> pyfloat \<times> pyfloat)" where
  "v_process_orders sort_values df =
     (case v_normalize df of
        Inl e \<Rightarrow> Inl e
      | Inr rows \<Rightarrow>
          (case v_match_rows v_no_positions (sort_values rows) of
             Inl e \<Rightarrow> Inl e
           | Inr st \<Rightarrow>
               Inr (map summarize (v_open_positions st), v_closed_positions st,
                    total_profit_usdt st, total_profit_percentage st)))"

section \<open>Statistics and the page (app.py)\<close>

subsection \<open>Column reductions of pandas\<close>

text \<open>
  \<open>Series.sum\<close>, \<open>Series.mean\<close>, \<open>std\<close> and \<open>cumsum\<close> skip \<open>NaN\<close> cells
  (\<open>skipna=True\<close>): the sum of no cell is \<open>0\<close>, the mean of no cell is \<open>NaN\<close>, the
  sample standard deviation of fewer than two cells is \<open>NaN\<close>.
\<close>

definition dropna :: "pyfloat list \<Rightarrow> pyfloat list" where
  "dropna xs = filter (\<lambda>x. x \<noteq> NaN) xs"

definition nansum :: "pyfloat list \<Rightarrow> pyfloat" where
  "nansum xs = foldl fadd (Fin 0) (dropna xs)"

definition nanmean :: "pyfloat list \<Rightarrow> pyfloat" where
  "nanmean xs =
     (if dropna xs = [] then NaN else fdiv (nansum xs) (Fin (real (length (dropna xs)))))"

fun fsqrt :: "pyfloat \<Rightarrow> pyfloat" where
  "fsqrt (Fin a) = (if a < 0 then NaN else Fin (sqrt a))"
| "fsqrt PInf = PInf"
| "fsqrt _ = NaN"

definition nanstd :: "pyfloat list \<Rightarrow> pyfloat" where
  "nanstd xs =
     (let ys = dropna xs; m = nanmean xs
      in if length ys \<le> 1 then NaN
         else fsqrt (fdiv (foldl fadd (Fin 0) (map (\<lambda>y. fmul (fsub y m) (fsub y m)) ys))
                       (Fin (real (length ys - 1)))))"

fun cumsum_from :: "pyfloat \<Rightarrow> pyfloat list \<Rightarrow> pyfloat list" where
  "cumsum_from acc [] = []"
| "cumsum_from acc (x # xs) =
     (if x = NaN then NaN # cumsum_from acc xs
      else fadd acc x # cumsum_from (fadd acc x) xs)"

definition cumsum :: "pyfloat list \<Rightarrow> pyfloat list" where
  "cumsum xs = cumsum_from (Fin 0) xs"

text \<open>\<open>groupby(key)\<close>: one group for each key that occurs, the keys in ascending order.\<close>

definition groupby :: "('a \<Rightarrow> 'k::linorder) \<Rightarrow> 'a list \<Rightarrow> ('k \<times> 'a list) list" where
  "groupby key df = map (\<lambda>k. (k, filter (\<lambda>r. key r = k) df)) (sort (remdups (map key df)))"

text \<open>
  Periods: a month is (year, month), a quarter is (year, quarter); the \<open>Year\<close> column is
  the year alone, written here as (year, 0) so that the three columns share a type.
\<close>

type_synonym period = "int \<times> nat"

datatype time_period = Month | Trimester | Year

datatype profit_type = Absolute | Percentage

definition to_period_M :: "timestamp \<Rightarrow> period" where
  "to_period_M t = (ts_year t, ts_month t)"

definition to_period_Q :: "timestamp \<Rightarrow> period" where
  "to_period_Q t = (ts_year t, (ts_month t - 1) div 3 + 1)"

definition dt_year :: "timestamp \<Rightarrow> period" where
  "dt_year t = (ts_year t, 0)"

subsection \<open>\<open>calculate_statistics\<close>\<close>

text \<open>
  The frame of closed positions once \<open>calculate_statistics\<close> has added its two columns.
\<close>

record stat_row =
  position :: closed_position
  Profit_Loss_pct :: pyfloat
  Month_col :: period

record stats =
  Total_Closed_Trades :: nat
  Total_PnL_USDT :: pyfloat
  Winning_Trades :: nat
  Losing_Trades :: nat
  Win_Rate :: pyfloat
  Average_PnL_USDT :: pyfloat
  Average_PnL_pct :: pyfloat
  Operations_per_Month :: "(period \<times> nat) list"

text \<open>
  What a call of \<open>calculate_statistics\<close> returns: on an empty frame the statement
  \<open>return stats\<close> hands back the dict alone, which is still \<open>{}\<close> there; otherwise
  \<open>return stats, closed_positions_df\<close> hands back a pair.
\<close>

datatype stats_return = Empty_dict | Stats_and_frame stats "stat_row list"

text \<open>\<open>cost_basis.replace(0, float('nan'))\<close>.\<close>

definition replace_zero :: "pyfloat \<Rightarrow> pyfloat" where
  "replace_zero c = (if c = Fin 0 then NaN else c)"

definition cost_basis :: "closed_position \<Rightarrow> pyfloat" where
  "cost_basis c = fmul (Open_Price c) (Amount c)"

definition profit_loss_pct :: "closed_position \<Rightarrow> pyfloat" where
  "profit_loss_pct c = fmul (fdiv (Profit_Loss_USDT c) (replace_zero (cost_basis c))) (Fin 100)"

definition calculate_statistics :: "closed_position list \<Rightarrow> stats_return" where
  "calculate_statistics closed_positions_df =
     (if closed_positions_df = [] then Empty_dict
      else
        (let total_pnl = nansum (map Profit_Loss_USDT closed_positions_df);
             winning_trades = filter (\<lambda>c. fgt (Profit_Loss_USDT c) (Fin 0)) closed_positions_df;
             losing_trades = filter (\<lambda>c. flt (Profit_Loss_USDT c) (Fin 0)) closed_positions_df;
             df = map (\<lambda>c. \<lparr> position = c,
                              Profit_Loss_pct = profit_loss_pct c,
                              Month_col = to_period_M (Close_Date c) \<rparr>) closed_positions_df
         in Stats_and_frame
              \<lparr> Total_Closed_Trades = length closed_positions_df,
                Total_PnL_USDT = total_pnl,
                Winning_Trades = length winning_trades,
                Losing_Trades = length losing_trades,
                Win_Rate =
                  (if length closed_positions_df > 0
                   then Fin (real (length winning_trades) / real (length closed_positions_df) * 100)
                   else Fin 0),
                Average_PnL_USDT = nanmean (map Profit_Loss_USDT closed_positions_df),
                Average_PnL_pct = nanmean (map Profit_Loss_pct df),
                Operations_per_Month = map (\<lambda>(m, g). (m, length g)) (groupby Month_col df) \<rparr>
              df))"

subsection \<open>\<open>plot_monthly_percentage_bar\<close>\<close>

text \<open>
  The bars of the chart, one for each month; \<open>None\<close> is the message
  \<open>No closed positions to plot.\<close>
\<close>

definition plot_monthly_percentage_bar :: "stat_row list \<Rightarrow> (period \<times> pyfloat) list option" where
  "plot_monthly_percentage_bar closed_positions_df =
     (if closed_positions_df = [] then None
      else Some
        (map (\<lambda>(m, g).
                (let pnl = nansum (map (\<lambda>r. Profit_Loss_USDT (position r)) g);
                     cost = nansum (map (\<lambda>r. cost_basis (position r)) g)
                 in (m, if cost \<noteq> Fin 0 then fmul (fdiv pnl cost) (Fin 100) else Fin 0)))
           (groupby (\<lambda>r. to_period_M (Close_Date (position r))) closed_positions_df)))"

subsection \<open>\<open>main\<close>\<close>

record open_record =
  o_Base_Currency :: string
  o_Open_Price :: pyfloat
  o_Amount :: pyfloat
  o_Open_Date :: timestamp

definition open_positions_to_df :: "(string \<times> lot list) list \<Rightarrow> open_record list" where
  "open_positions_to_df open_positions_dict =
     concat (map (\<lambda>(base_cur, positions_list).
                    map (\<lambda>pos. \<lparr> o_Base_Currency = base_cur, o_Open_Price = price pos,
                                  o_Amount = amount pos, o_Open_Date = date pos \<rparr>) positions_list)
               open_positions_dict)"

text \<open>
  \<open>st.session_state\<close>, as far as \<open>main\<close> uses it: the key
  \<open>manual_missing_operations\<close> is absent (\<open>None\<close>) or holds a list.
\<close>

record session_state =
  manual_missing_operations :: "closed_position list option"

definition manual_closed_op :: "row \<Rightarrow> pyfloat \<Rightarrow> timestamp \<Rightarrow> closed_position" where
  "manual_closed_op sell_order missing_buy_price missing_buy_date =
     \<lparr> Base_Currency = row_Base_Currency sell_order,
       Open_Price = missing_buy_price,
       Close_Price = row_Price sell_order,
       Amount = row_Executed sell_order,
       Open_Date = missing_buy_date,
       Close_Date = row_Date sell_order,
       Profit_Loss_USDT =
         fmul (row_Executed sell_order) (fsub (row_Price sell_order) missing_buy_price) \<rparr>"

text \<open>
  The loop over the forms, one for each unmatched sell. \<open>forms i\<close> is what the user
  submitted in the form of sell \<open>i\<close> during this run (\<open>None\<close>: not submitted).
\<close>

fun submit_forms ::
  "(nat \<Rightarrow> (pyfloat \<times> timestamp) option) \<Rightarrow> nat \<Rightarrow> row list \<Rightarrow> session_state \<Rightarrow> session_state" where
  "submit_forms forms i [] ss = ss"
| "submit_forms forms i (sell_order # rest) ss =
     (case forms i of
        None \<Rightarrow> submit_forms forms (Suc i) rest ss
      | Some (missing_buy_price, missing_buy_date) \<Rightarrow>
          submit_forms forms (Suc i) rest
            (ss\<lparr>manual_missing_operations :=
                  Some ((case manual_missing_operations ss of None \<Rightarrow> [] | Some ops \<Rightarrow> ops) @
                        [manual_closed_op sell_order missing_buy_price missing_buy_date])\<rparr>))"

text \<open>
  The table \<open>Manually Added Closed Operations\<close>: after the forms, \<open>main\<close> writes the
  list of the session state when the key is there and the list is not empty, and nothing
  otherwise. It does so before it computes the statistics.
\<close>

definition manual_operations_table :: "session_state \<Rightarrow> closed_position list option" where
  "manual_operations_table ss =
     (case manual_missing_operations ss of
        None \<Rightarrow> None
      | Some ops \<Rightarrow> if ops = [] then None else Some ops)"

text \<open>
  The assignment \<open>stats, closed_positions_df = calculate_statistics(...)\<close>: a pair is
  taken apart; a dict is iterated over its keys, and the empty dict has none.
\<close>

definition unpack_two :: "stats_return \<Rightarrow> error + stats \<times> stat_row list" where
  "unpack_two v =
     (case v of
        Empty_dict \<Rightarrow> Inl (ValueError ''not enough values to unpack (expected 2, got 0)'')
      | Stats_and_frame s df \<Rightarrow> Inr (s, df))"

definition time_column :: "time_period \<Rightarrow> stat_row \<Rightarrow> period" where
  "time_column tp r =
     (case tp of
        Month \<Rightarrow> to_period_M (Close_Date (position r))
      | Trimester \<Rightarrow> to_period_Q (Close_Date (position r))
      | Year \<Rightarrow> dt_year (Close_Date (position r)))"

definition profit_column :: "profit_type \<Rightarrow> stat_row \<Rightarrow> pyfloat" where
  "profit_column pt r =
     (case pt of Absolute \<Rightarrow> Profit_Loss_USDT (position r) | Percentage \<Rightarrow> Profit_Loss_pct r)"

record summary_row =
  Sum_col :: pyfloat
  Mean_col :: pyfloat
  Std_Dev :: pyfloat

text \<open>
  What one run of the page shows, table by table (the histogram draws the same column as
  the summary and is left out). \<open>shown_statistics\<close> is \<open>None\<close> for the message
  \<open>No statistics available.\<close>, which \<open>main\<close> writes when the dict \<open>stats\<close> is empty.
\<close>

record page =
  shown_open_positions :: "open_record list"
  shown_closed_positions :: "closed_position list"
  shown_manual_operations :: "closed_position list option"
  shown_statistics :: "stats option"
  profit_summary :: "(period \<times> summary_row) list"
  cumulative_profit :: "(timestamp \<times> pyfloat) list"
  monthly_profit_pct :: "(period \<times> pyfloat) list option"

text \<open>
  One run of \<open>main\<close>: the uploaded file (\<open>None\<close>: no file yet), the forms submitted in
  this run, the two select boxes and the session state; the result is the session state
  after the run and what the run ends with. The forms are handled, and their operations
  stored, before the statistics are computed, so the stored operations stay when the
  statistics raise. Where \<open>unpack_two\<close> returns, the dict of the pair has its keys, so
  \<open>if stats\<close> holds and the column \<open>Profit/Loss %\<close> exists: the two fallbacks of
  \<open>main\<close> for these cases are not taken.
\<close>

definition app_main ::
  "(row list \<Rightarrow> row list) \<Rightarrow> csv_row list option \<Rightarrow> (nat \<Rightarrow> (pyfloat \<times> timestamp) option)
     \<Rightarrow> time_period \<Rightarrow> profit_type \<Rightarrow> session_state
     \<Rightarrow> session_state \<times> (error + page option)" where
  "app_main sort_values uploaded_file forms tp pt ss =
     (case uploaded_file of
        None \<Rightarrow> (ss, Inr None)
      | Some df \<Rightarrow>
          (case process_orders sort_values df of
             Inl e \<Rightarrow> (ss, Inl e)
           | Inr (closed_positions_df, open_positions_dict, orphans) \<Rightarrow>
               (let ss' = submit_forms forms 0 orphans ss;
                    manual_closed_df = manual_operations_table ss'
                in case unpack_two (calculate_statistics closed_positions_df) of
                     Inl e \<Rightarrow> (ss', Inl e)
                   | Inr (stats, frame) \<Rightarrow>
                       (ss', Inr (Some
                          \<lparr> shown_open_positions = open_positions_to_df open_positions_dict,
                            shown_closed_positions = take 50 closed_positions_df,
                            shown_manual_operations = manual_closed_df,
                            shown_statistics = Some stats,
                            profit_summary =
                              map (\<lambda>(k, g).
                                     (k, \<lparr> Sum_col = nansum (map (profit_column pt) g),
                                           Mean_col = nanmean (map (profit_column pt) g),
                                           Std_Dev = nanstd (map (profit_column pt) g) \<rparr>))
                                (groupby (time_column tp) frame),
                            cumulative_profit =
                              zip (map (\<lambda>r. Close_Date (position r)) frame)
                                  (cumsum (map (profit_column pt) frame)),
                            monthly_profit_pct = plot_monthly_percentage_bar frame \<rparr>)))))"

text \<open>
  One sort that fits the description of \<open>sort_values\<close>: the insertion sort of the HOL
  library. It serves to run the model on concrete frames.
\<close>

definition sort_values_by_date :: "row list \<Rightarrow> row list" where
  "sort_values_by_date df = sort_key (\<lambda>r. ts_key (row_Date r)) df"

definition v_sort_values_by_date :: "v_row list \<Rightarrow> v_row list" where
  "v_sort_values_by_date df = sort_key (\<lambda>r. ts_key (v_row_Date r)) df"

section \<open>Notions used in the statements\<close>

subsection \<open>FIFO consumption, in the words of the specification\<close>

text \<open>
  A sell of amount \<open>A\<close> meets the lots of a queue one after the other. When lot \<open>i\<close> comes
  to the head, the lots before it have been closed in full, so what is left of the sell is
  \<open>A\<close> less their amounts, taken off one after the other as the loop does it, each
  difference a double. The sell takes \<open>min(head.amount, remaining)\<close> from the lot.
\<close>

definition remaining_before :: "pyfloat \<Rightarrow> pyfloat list \<Rightarrow> nat \<Rightarrow> pyfloat" where
  "remaining_before A amounts i = foldl dsub A (take i amounts)"

definition fifo_take :: "pyfloat \<Rightarrow> pyfloat list \<Rightarrow> nat \<Rightarrow> pyfloat" where
  "fifo_take A amounts i =
     (if fle (amounts ! i) (remaining_before A amounts i) then amounts ! i
      else remaining_before A amounts i)"

text \<open>
  The sell goes from lot to lot for as long as something is left of it and the queue has a
  lot: it takes a slice from each of the lots at the head of the queue that it reaches with
  a remaining amount above zero, and stops at the first lot it reaches with nothing left,
  or at the end of the queue. (When a lot holds more than what is left, nothing is left
  behind it: the difference \<open>remaining - amount\<close> is not above zero.)
\<close>

definition slices_taken :: "pyfloat \<Rightarrow> pyfloat list \<Rightarrow> nat" where
  "slices_taken A amounts =
     length (takeWhile (\<lambda>i. fgt (remaining_before A amounts i) (Fin 0)) [0..<length amounts])"

definition lot_amounts :: "lot list \<Rightarrow> pyfloat list" where
  "lot_amounts queue = map amount queue"

text \<open>
  The closed lot the specification describes for the slice taken from lot \<open>i\<close> of the
  queue, by a sell of \<open>A\<close> at price \<open>P\<close> and time \<open>T\<close>: \<open>take = min(head.amount, remaining)\<close>
  and \<open>profitLossAbsolute = take * (P - head.price)\<close>, with the open price and the open
  date of that lot.
\<close>

definition slice_at ::
  "string \<Rightarrow> pyfloat \<Rightarrow> timestamp \<Rightarrow> pyfloat \<Rightarrow> lot list \<Rightarrow> nat \<Rightarrow> closed_position" where
  "slice_at X P T A queue i =
     (let head = queue ! i;
          take = fifo_take A (lot_amounts queue) i
      in \<lparr> Base_Currency = X,
           Open_Price = price head,
           Close_Price = P,
           Amount = take,
           Open_Date = date head,
           Close_Date = T,
           Profit_Loss_USDT = fmul take (fsub P (price head)) \<rparr>)"

text \<open>
  The queue after a sell of \<open>A\<close> that took slices from its first \<open>n\<close> lots: these lots are
  gone, except that lot \<open>n - 1\<close> stays at the head when it held more than what was left of
  the sell, with its amount less what the sell took from it (a double). The lots behind
  are as they were.
\<close>

definition queue_after :: "pyfloat \<Rightarrow> lot list \<Rightarrow> nat \<Rightarrow> lot list" where
  "queue_after A queue n =
     (if 0 < n \<and> \<not> fle (amount (queue ! (n - 1))) (remaining_before A (lot_amounts queue) (n - 1))
      then (queue ! (n - 1))
             \<lparr>amount := dsub (amount (queue ! (n - 1)))
                          (remaining_before A (lot_amounts queue) (n - 1))\<rparr>
           # drop n queue
      else drop n queue)"

text \<open>The queue of a base asset in the dict of open positions; empty when the key is absent.\<close>

definition queue_of :: "(string \<times> lot list) list \<Rightarrow> string \<Rightarrow> lot list" where
  "queue_of open_pos base = (case map_of open_pos base of None \<Rightarrow> [] | Some q \<Rightarrow> q)"

text \<open>The same notions for the records of visualizer.py.\<close>

definition v_lot_amounts :: "v_lot list \<Rightarrow> pyfloat list" where
  "v_lot_amounts queue = map v_amount queue"

definition v_queue_after :: "pyfloat \<Rightarrow> v_lot list \<Rightarrow> nat \<Rightarrow> v_lot list" where
  "v_queue_after A queue n =
     (if 0 < n \<and> \<not> fle (v_amount (queue ! (n - 1))) (remaining_before A (v_lot_amounts queue) (n - 1))
      then (queue ! (n - 1))
             \<lparr>v_amount := dsub (v_amount (queue ! (n - 1)))
                            (remaining_before A (v_lot_amounts queue) (n - 1))\<rparr>
           # drop n queue
      else drop n queue)"

definition v_queue_of :: "(string \<times> v_lot list) list \<Rightarrow> string \<Rightarrow> v_lot list" where
  "v_queue_of open_pos base = (case map_of open_pos base of None \<Rightarrow> [] | Some q \<Rightarrow> q)"

text \<open>
  The record of visualizer.py for the slice taken from lot \<open>i\<close>: amount and profit as in
  the specification; the percentage and the two quote columns are what the script adds
  (the close quote is written in two ways, one for a lot closed in full and one for a lot
  closed in part).
\<close>

definition v_slice_at ::
  "string \<Rightarrow> string \<Rightarrow> pyfloat \<Rightarrow> timestamp \<Rightarrow> pyfloat \<Rightarrow> v_lot list \<Rightarrow> nat \<Rightarrow> v_closed_position" where
  "v_slice_at X pair P T A queue i =
     (let head = queue ! i;
          take = fifo_take A (v_lot_amounts queue) i
      in \<lparr> v_Base_Currency = X,
           v_Open_Price = v_price head,
           v_Close_Price = P,
           v_Amount = take,
           v_Open_Date = v_date head,
           v_Close_Date = T,
           v_Quote_Currency_Open = v_quote head,
           v_Quote_Currency_Close =
             (if fle (v_amount head) (remaining_before A (v_lot_amounts queue) i)
              then str_remove X pair else drop (length pair - 4) pair),
           v_Profit_Loss_USDT = fmul take (fsub P (v_price head)),
           v_Profit_Loss_pct = fmul (fdiv (fsub P (v_price head)) (v_price head)) (Fin 100) \<rparr>)"

text \<open>
  A normalized row on which visualizer.py does not raise: the price is not zero (it becomes
  a divisor once the row is a lot), and the base currency is the one \<open>get_base_currency\<close>
  finds for the pair.
\<close>

definition v_well_formed :: "v_row \<Rightarrow> bool" where
  "v_well_formed x =
     (v_row_Price x \<noteq> Fin 0 \<and>
      v_get_base_currency (v_row_Pair x) = Inr (v_row_Base_Currency x))"

definition v_priced_lots :: "v_matching \<Rightarrow> bool" where
  "v_priced_lots st =
     (\<forall>X. \<forall>l\<in>set (v_queue_of (v_open_positions st) X). v_price l \<noteq> Fin 0)"

subsection \<open>Conservation of amounts\<close>

text \<open>
  For a base asset \<open>X\<close>: the amounts of its closed positions, of its open lots, and of its
  BUY rows, each a sum of numbers.
\<close>

definition closed_amount :: "closed_position list \<Rightarrow> string \<Rightarrow> real" where
  "closed_amount cl X = sum_list (map (\<lambda>c. fin_val (Amount c)) (filter (\<lambda>c. Base_Currency c = X) cl))"

definition open_amount :: "(string \<times> lot list) list \<Rightarrow> string \<Rightarrow> real" where
  "open_amount open_pos X = sum_list (map (\<lambda>l. fin_val (amount l)) (queue_of open_pos X))"

definition bought :: "row list \<Rightarrow> string \<Rightarrow> real" where
  "bought rows X =
     sum_list (map (\<lambda>r. fin_val (row_Executed r))
                (filter (\<lambda>r. row_Side r = ''BUY'' \<and> row_Base_Currency r = X) rows))"

text \<open>
  An amount on the binary grid of step \<open>2^(-j)\<close>: a number that is not negative, a
  whole multiple of \<open>2^(-j)\<close>, and below \<open>2^53\<close> steps. For \<open>j = 0\<close> these are
  the whole numbers below \<open>2^53\<close>. Such an amount is a double, and the difference of two
  of them is again on the grid, so that the loop subtracts them without rounding.
\<close>

definition on_grid :: "nat \<Rightarrow> pyfloat \<Rightarrow> bool" where
  "on_grid j x =
     (j \<le> 1074 \<and> is_fin x \<and> 0 \<le> fin_val x \<and> fin_val x * 2 ^ j < 2 ^ 53 \<and> fin_val x * 2 ^ j \<in> \<int>)"

definition conserved :: "nat \<Rightarrow> matching \<Rightarrow> row list \<Rightarrow> bool" where
  "conserved j st rows =
     (list_all (\<lambda>c. is_fin (Amount c)) (closed_positions st) \<and>
      (\<forall>X. list_all (\<lambda>l. on_grid j (amount l)) (queue_of (open_positions st) X) \<and>
           closed_amount (closed_positions st) X + open_amount (open_positions st) X = bought rows X))"

subsection \<open>Manual operations and statistics\<close>

text \<open>
  The manual operations built from the forms submitted during one run, for the unmatched
  sells numbered from \<open>i\<close>.
\<close>

definition submitted_ops ::
  "(nat \<Rightarrow> (pyfloat \<times> timestamp) option) \<Rightarrow> nat \<Rightarrow> row list \<Rightarrow> closed_position list" where
  "submitted_ops forms i orphans =
     List.map_filter
       (\<lambda>(j, sell_order).
          case forms j of
            None \<Rightarrow> None
          | Some (missing_buy_price, missing_buy_date) \<Rightarrow>
              Some (manual_closed_op sell_order missing_buy_price missing_buy_date))
       (zip [i..<i + length orphans] orphans)"

definition fin_position :: "closed_position \<Rightarrow> bool" where
  "fin_position c = (is_fin (Profit_Loss_USDT c) \<and> is_fin (Open_Price c) \<and> is_fin (Amount c))"

text \<open>
  The percentage return of the specification for one closed lot:
  \<open>profitLossAbsolute / (openPrice \<times> amount) \<times> 100\<close>, undefined (\<open>NaN\<close>) when the cost
  basis is zero.
\<close>

definition percent_return :: "closed_position \<Rightarrow> pyfloat" where
  "percent_return c =
     (let cost = fin_val (Open_Price c) * fin_val (Amount c)
      in if cost = 0 then NaN else Fin (fin_val (Profit_Loss_USDT c) / cost * 100))"

text \<open>The mean of the defined entries of a column, undefined when there is none.\<close>

definition mean_of_defined :: "pyfloat list \<Rightarrow> pyfloat" where
  "mean_of_defined xs =
     (let defined = filter (\<lambda>v. v \<noteq> NaN) xs
      in if defined = [] then NaN
         else Fin (sum_list (map fin_val defined) / real (length defined)))"

text \<open>
  The monthly percentage of the specification for a bucket of closed lots:
  \<open>\<Sum> profitLossAbsolute / \<Sum> (openPrice \<times> amount) \<times> 100\<close>, and \<open>0\<close> when the cost basis
  of the bucket is zero.
\<close>

definition weighted_percent :: "stat_row list \<Rightarrow> pyfloat" where
  "weighted_percent bucket =
     (let pnl = (\<Sum>r\<leftarrow>bucket. fin_val (Profit_Loss_USDT (position r)));
          cost = (\<Sum>r\<leftarrow>bucket. fin_val (Open_Price (position r)) * fin_val (Amount (position r)))
      in if cost = 0 then Fin 0 else Fin (pnl / cost * 100))"

text \<open>The frame \<open>calculate_statistics\<close> builds from a list of closed positions.\<close>

definition frame_of :: "closed_position list \<Rightarrow> stat_row list" where
  "frame_of closed_df =
     map (\<lambda>c. \<lparr> position = c, Profit_Loss_pct = profit_loss_pct c,
                  Month_col = to_period_M (Close_Date c) \<rparr>) closed_df"

subsection \<open>Rows for the examples\<close>

text \<open>
  A normalized trade of \<open>base\<close> against USDT on 1 January 2024 at time \<open>t\<close>, for each of the
  two scripts, and the same trade as a row of the CSV file.
\<close>

definition trade :: "string \<Rightarrow> string \<Rightarrow> real \<Rightarrow> real \<Rightarrow> nat \<Rightarrow> row" where
  "trade base side p a t =
     \<lparr> row_Pair = base @ ''USDT'', row_Side = side, row_Price = Fin p, row_Executed = Fin a,
       row_Amount = Fin (p * a),
       row_Date = \<lparr>ts_year = 2024, ts_month = 1, ts_day = 1, ts_time = t\<rparr>,
       row_Quote_Currency = ''USDT'', row_Base_Currency = base \<rparr>"

definition v_trade :: "string \<Rightarrow> string \<Rightarrow> real \<Rightarrow> real \<Rightarrow> nat \<Rightarrow> v_row" where
  "v_trade base side p a t =
     \<lparr> v_row_Pair = base @ ''USDT'', v_row_Side = side, v_row_Price = Fin p, v_row_Executed = Fin a,
       v_row_Amount = Fin (p * a),
       v_row_Date = \<lparr>ts_year = 2024, ts_month = 1, ts_day = 1, ts_time = t\<rparr>,
       v_row_Base_Currency = base \<rparr>"

definition csv_trade :: "string \<Rightarrow> string \<Rightarrow> real \<Rightarrow> string \<Rightarrow> nat \<Rightarrow> csv_row" where
  "csv_trade pair side p executed t =
     \<lparr> csv_Pair = pair, csv_Side = side, csv_Price = Some (Fin p), csv_Executed = Text executed,
       csv_Amount = Text executed,
       csv_Date = Some \<lparr>ts_year = 2024, ts_month = 1, ts_day = 1, ts_time = t\<rparr> \<rparr>"

text \<open>
  A closed lot of BTC with amount \<open>a\<close>, open price \<open>p\<close> and profit \<open>g\<close>, closed on day 2
  of month \<open>m\<close> of 2024.
\<close>

definition closed_lot :: "real \<Rightarrow> real \<Rightarrow> real \<Rightarrow> nat \<Rightarrow> closed_position" where
  "closed_lot a p g m =
     \<lparr> Base_Currency = ''BTC'', Open_Price = Fin p, Close_Price = Fin (p + g / a), Amount = Fin a,
       Open_Date = \<lparr>ts_year = 2024, ts_month = m, ts_day = 1, ts_time = 0\<rparr>,
       Close_Date = \<lparr>ts_year = 2024, ts_month = m, ts_day = 2, ts_time = 0\<rparr>,
       Profit_Loss_USDT = Fin g \<rparr>"

section \<open>Verification\<close>

subsection \<open>Rounding to a double\<close>

lemma round_half_even_int: "round_half_even (of_int z) = z"
  by (simp add: round_half_even_def)

lemma round_half_even_neg: "y < 0 \<Longrightarrow> round_half_even y \<le> 0"
  unfolding round_half_even_def Let_def
  by (smt (verit) floor_less_zero)

lemma ulp_exponent_eq:
  assumes "x \<noteq> 0" "2 powr of_int k \<le> \<bar>x\<bar>" "\<bar>x\<bar> < 2 powr of_int (k + 1)"
  shows "ulp_exponent x = max (k - 52) (- 1074)"
proof -
  have "\<lfloor>log 2 \<bar>x\<bar>\<rfloor> = k"
    using assms by (subst floor_log_eq_powr_iff) auto
  then show ?thesis by (simp add: ulp_exponent_def)
qed

text \<open>
  The rounding of \<open>x\<close> once the binary exponent \<open>k\<close> of \<open>x\<close> is known: this is how
  \<open>round64\<close> is evaluated on a given number.
\<close>

lemma round64_eval:
  assumes "x \<noteq> 0" "2 powr of_int k \<le> \<bar>x\<bar>" "\<bar>x\<bar> < 2 powr of_int (k + 1)"
  shows "round64 x =
     (let e = max (k - 52) (- 1074);
          r = of_int (round_half_even (x / 2 powr of_int e)) * 2 powr of_int e
      in if 2 ^ 1024 \<le> \<bar>r\<bar> then (if 0 < x then PInf else NInf) else Fin r)"
  using assms(1) by (simp add: round64_def ulp_exponent_eq[OF assms])

lemma round64_neg:
  assumes "x < 0"
  shows "round64 x = NInf \<or> (\<exists>r\<le>0. round64 x = Fin r)"
proof -
  let ?e = "ulp_exponent x"
  have "x / 2 powr of_int ?e < 0" using assms by (simp add: divide_neg_pos)
  then have "round_half_even (x / 2 powr of_int ?e) \<le> 0" by (rule round_half_even_neg)
  then have "real_of_int (round_half_even (x / 2 powr of_int ?e)) * 2 powr of_int ?e \<le> 0"
    by (simp add: mult_le_0_iff)
  then show ?thesis using assms by (auto simp: round64_def Let_def)
qed

text \<open>A number with at most 53 significant bits and an exponent in range is a double.\<close>

lemma round64_exact:
  assumes x: "x = of_int m * 2 powr of_int e" and m: "\<bar>m\<bar> < 2 ^ 53"
    and e: "- 1074 \<le> e" "e \<le> 971"
  shows "round64 x = Fin x"
proof (cases "x = 0")
  case True
  then show ?thesis by (simp add: round64_def)
next
  case False
  define u where "u = ulp_exponent x"
  have ax: "\<bar>x\<bar> = of_int \<bar>m\<bar> * 2 powr of_int e" using x by (simp add: abs_mult)
  have "of_int \<bar>m\<bar> < (2::real) ^ 53" using m by (metis of_int_less_numeral_power_cancel_iff)
  then have "\<bar>x\<bar> < 2 ^ 53 * 2 powr of_int e" unfolding ax by simp
  also have "\<dots> = 2 powr of_int (53 + e)" by (simp add: powr_add)
  finally have lt: "\<bar>x\<bar> < 2 powr of_int (53 + e)" .
  have "log 2 \<bar>x\<bar> < of_int (53 + e)"
    using lt False by (subst log_less_iff) auto
  then have "\<lfloor>log 2 \<bar>x\<bar>\<rfloor> < 53 + e" by linarith
  then have ue: "u \<le> e" using e by (simp add: ulp_exponent_def u_def)
  define d where "d = nat (e - u)"
  have de: "e = u + int d" using ue by (simp add: d_def)
  have p: "(2::real) powr of_int e = 2 powr of_int u * 2 ^ d"
    by (subst de) (simp add: powr_add powr_realpow)
  have q: "x / 2 powr of_int u = of_int (m * 2 ^ d)"
    by (simp add: x p)
  have r: "of_int (round_half_even (x / 2 powr of_int u)) * 2 powr of_int u = x"
    unfolding q round_half_even_int by (simp add: x p)
  have "2 powr of_int (53 + e) \<le> (2::real) powr 1024" using e by (intro powr_mono) auto
  then have "\<bar>x\<bar> < 2 ^ 1024" using lt by simp
  then show ?thesis using False r by (simp add: round64_def Let_def u_def)
qed

lemma round64_of_nat:
  assumes "n < 2 ^ 53"
  shows "round64 (real n) = Fin (real n)"
proof -
  have "\<bar>int n\<bar> < 2 ^ 53" using assms by (simp add: of_nat_less_numeral_power_cancel_iff)
  then show ?thesis by (intro round64_exact[of _ "int n" 0]) simp_all
qed

lemma round64_minus_of_nat:
  assumes "n < 2 ^ 53"
  shows "round64 (- real n) = Fin (- real n)"
proof -
  have "\<bar>- int n\<bar> < 2 ^ 53" using assms by (simp add: of_nat_less_numeral_power_cancel_iff)
  then show ?thesis by (intro round64_exact[of _ "- int n" 0]) simp_all
qed

lemma round64_0 [simp]: "round64 0 = Fin 0"
  by (simp add: round64_def)

lemma round64_1 [simp]: "round64 1 = Fin 1"
  using round64_of_nat[of 1] by simp

lemma round64_numeral [simp]:
  "(numeral n :: nat) < 2 ^ 53 \<Longrightarrow> round64 (numeral n) = Fin (numeral n)"
  using round64_of_nat[of "numeral n"] by simp

lemma round64_minus_1 [simp]: "round64 (- 1) = Fin (- 1)"
  using round64_minus_of_nat[of 1] by simp

lemma round64_minus_numeral [simp]:
  "(numeral n :: nat) < 2 ^ 53 \<Longrightarrow> round64 (- numeral n) = Fin (- numeral n)"
  using round64_minus_of_nat[of "numeral n"] by simp

text \<open>
  The difference of two amounts on a grid is exact: with \<open>a = z / 2^j\<close> and
  \<open>b = w / 2^j\<close> for whole numbers \<open>w \<le> z < 2^53\<close>, the difference is
  \<open>(z - w) / 2^j\<close>, a double.
\<close>

lemma on_grid_diff:
  assumes a: "on_grid j (Fin a)" and b: "on_grid j (Fin b)" and le: "b \<le> a"
  shows "round64 (a - b) = Fin (a - b) \<and> on_grid j (Fin (a - b))"
proof -
  from a obtain z where z: "a * 2 ^ j = of_int z" by (auto simp: on_grid_def elim: Ints_cases)
  from b obtain w where w: "b * 2 ^ j = of_int w" by (auto simp: on_grid_def elim: Ints_cases)
  have j: "j \<le> 1074" using a by (simp add: on_grid_def)
  have d: "(a - b) * 2 ^ j = of_int (z - w)" using z w by (simp add: algebra_simps)
  have nn: "0 \<le> (a - b) * 2 ^ j" using le by simp
  have b0: "0 \<le> b" using b by (simp add: on_grid_def)
  have "(a - b) * 2 ^ j \<le> a * 2 ^ j" using b0 by simp
  moreover have "a * 2 ^ j < 2 ^ 53" using a by (simp add: on_grid_def)
  ultimately have lt: "(a - b) * 2 ^ j < 2 ^ 53" by linarith
  have zw0: "0 \<le> z - w" using nn unfolding d by simp
  have "real_of_int (z - w) < 2 ^ 53" using lt unfolding d .
  then have zw: "\<bar>z - w\<bar> < 2 ^ 53" using zw0 by (simp add: of_int_less_numeral_power_cancel_iff)
  have "a - b = of_int (z - w) / 2 ^ j" using d by (simp add: field_simps)
  also have "\<dots> = of_int (z - w) * 2 powr of_int (- int j)"
    by (simp add: powr_minus powr_realpow divide_inverse)
  finally have x: "a - b = of_int (z - w) * 2 powr of_int (- int j)" .
  have "round64 (a - b) = Fin (a - b)"
    using j by (intro round64_exact[OF x zw]) simp_all
  moreover have "(a - b) * 2 ^ j \<in> \<int>" unfolding d by simp
  then have "on_grid j (Fin (a - b))"
    using j le lt by (simp add: on_grid_def)
  ultimately show ?thesis by simp
qed

text \<open>
  The doubles nearest to 0.1, 0.3 and 0.7. The difference of the doubles for 0.3 and 0.1 is
  a double, \<open>0.19999999999999998\<close>; the difference of the double for 0.7 and this one
  is not, and rounds to \<open>0.5\<close>.
\<close>

lemma round64_tenth: "round64 (1 / 10) = Fin (3602879701896397 / 36028797018963968)"
  by (subst round64_eval[where k = "- 4"]) (simp_all add: round_half_even_def Let_def powr_neg_numeral)

lemma round64_three_tenths: "round64 (3 / 10) = Fin (5404319552844595 / 18014398509481984)"
  by (subst round64_eval[where k = "- 2"]) (simp_all add: round_half_even_def Let_def powr_neg_numeral)

lemma round64_seven_tenths: "round64 (7 / 10) = Fin (3152519739159347 / 4503599627370496)"
  by (subst round64_eval[where k = "- 1"]) (simp_all add: round_half_even_def Let_def powr_neg_numeral)

lemma three_tenths_less_tenth:
  "(5404319552844595 / 18014398509481984 - 3602879701896397 / 36028797018963968 :: real) =
   7205759403792793 / 36028797018963968"
  by simp

lemma round64_diff_1:
  "round64 (7205759403792793 / 36028797018963968) = Fin (7205759403792793 / 36028797018963968)"
  by (subst round64_eval[where k = "- 3"]) (simp_all add: round_half_even_def Let_def powr_neg_numeral)

lemma seven_tenths_less_rest:
  "(3152519739159347 / 4503599627370496 - 7205759403792793 / 36028797018963968 :: real) =
   18014398509481983 / 36028797018963968"
  by simp

lemma round64_diff_2:
  "round64 (18014398509481983 / 36028797018963968) = Fin (1 / 2)"
  by (subst round64_eval[where k = "- 2"]) (simp_all add: round_half_even_def Let_def powr_neg_numeral)

lemma round64_fifth: "round64 (1 / 5) = Fin (3602879701896397 / 18014398509481984)"
  by (subst round64_eval[where k = "- 3"]) (simp_all add: round_half_even_def Let_def powr_neg_numeral)

lemma fifth_less_rest:
  "(3602879701896397 / 18014398509481984 - 7205759403792793 / 36028797018963968 :: real) =
   1 / 36028797018963968"
  by simp

lemma round64_diff_3: "round64 (1 / 36028797018963968) = Fin (1 / 36028797018963968)"
  by (subst round64_eval[where k = "- 55"]) (simp_all add: round_half_even_def Let_def powr_neg_numeral)

subsection \<open>The matching loop of app.py\<close>

declare close_fifo.simps [simp del]

lemma fin_cases: "is_fin x \<Longrightarrow> \<exists>a. x = Fin a"
  by (cases x) auto

lemma close_fifo_stop:
  "\<not> fgt A (Fin 0) \<or> q = [] \<Longrightarrow> close_fifo b P T A q acc = (q, acc)"
  by (subst close_fifo.simps) auto

lemma close_fifo_full:
  "fgt A (Fin 0) \<Longrightarrow> fle (amount h) A \<Longrightarrow>
   close_fifo b P T A (h # t) acc =
   close_fifo b P T (dsub A (amount h)) t (acc @ [close_slice b P T h (amount h)])"
  by (subst close_fifo.simps) (simp add: Let_def)

lemma close_fifo_part:
  "fgt A (Fin 0) \<Longrightarrow> \<not> fle (amount h) A \<Longrightarrow>
   close_fifo b P T A (h # t) acc =
   (h\<lparr>amount := dsub (amount h) A\<rparr> # t, acc @ [close_slice b P T h A])"
  by (subst close_fifo.simps) (simp add: Let_def close_fifo_stop fgt_def)

text \<open>
  A lot that holds more than what is left of the sell ends the sell: had the loop
  subtracted the lot from the remaining amount, nothing above zero would be left.
\<close>

lemma nothing_left_behind:
  assumes "fgt A (Fin 0)" and "\<not> fle a A"
  shows "\<not> fgt (dsub A a) (Fin 0)"
proof (cases a)
  case (Fin x)
  from assms Fin obtain r where r: "A = Fin r" "0 < r" "r < x"
    by (cases A) (auto simp: fgt_def)
  from round64_neg[of "r - x"] r show ?thesis
    by (auto simp: Fin fgt_def)
next
  case NaN
  then show ?thesis by (cases A) (simp_all add: fgt_def fsub_def)
next
  case PInf
  then show ?thesis using assms by (cases A) (simp_all add: fgt_def fsub_def)
next
  case NInf
  then show ?thesis using assms by (cases A) (simp_all add: fgt_def fsub_def)
qed

lemma remaining_before_0: "remaining_before A xs 0 = A"
  by (simp add: remaining_before_def)

lemma remaining_before_Suc: "remaining_before A (a # xs) (Suc i) = remaining_before (dsub A a) xs i"
  by (simp add: remaining_before_def)

lemma fifo_take_0: "fifo_take A (a # xs) 0 = (if fle a A then a else A)"
  by (simp add: fifo_take_def remaining_before_0)

lemma fifo_take_Suc: "fifo_take A (a # xs) (Suc i) = fifo_take (dsub A a) xs i"
  by (simp add: fifo_take_def remaining_before_Suc)

lemma slices_taken_Nil: "slices_taken A [] = 0"
  by (simp add: slices_taken_def)

lemma slices_taken_Cons:
  "slices_taken A (a # xs) = (if fgt A (Fin 0) then Suc (slices_taken (dsub A a) xs) else 0)"
proof -
  have u: "[0..<length (a # xs)] = 0 # map Suc [0..<length xs]"
    by (simp add: upt_conv_Cons map_Suc_upt del: upt_Suc)
  show ?thesis
    unfolding slices_taken_def u
    by (simp add: takeWhile_map comp_def remaining_before_0 remaining_before_Suc)
qed

lemma slices_taken_stop: "\<not> fgt A (Fin 0) \<Longrightarrow> slices_taken A xs = 0"
  by (cases xs) (simp_all add: slices_taken_Nil slices_taken_Cons)

lemma slices_taken_le: "slices_taken A xs \<le> length xs"
  using length_takeWhile_le[of _ "[0..<length xs]"] by (simp add: slices_taken_def)

text \<open>
  The condition on which the loop goes on and the one on which it ends: every lot the sell
  takes a slice from is reached with a remaining amount above zero; the sell ends at the
  end of the queue or at the first lot it reaches with nothing left; and a lot that holds
  more than what is left is the last one it takes from.
\<close>

lemma slices_taken_exit:
  "(\<forall>i<slices_taken A xs. fgt (remaining_before A xs i) (Fin 0)) \<and>
   (slices_taken A xs = length xs \<or>
    \<not> fgt (remaining_before A xs (slices_taken A xs)) (Fin 0)) \<and>
   (\<forall>i<slices_taken A xs. \<not> fle (xs ! i) (remaining_before A xs i) \<longrightarrow> Suc i = slices_taken A xs)"
proof (induction xs arbitrary: A)
  case Nil
  then show ?case by (simp add: slices_taken_Nil)
next
  case (Cons a xs)
  show ?case
  proof (cases "fgt A (Fin 0)")
    case False
    then show ?thesis by (simp add: slices_taken_Cons remaining_before_0)
  next
    case True
    have n: "slices_taken A (a # xs) = Suc (slices_taken (dsub A a) xs)"
      using True by (simp add: slices_taken_Cons)
    have 1: "\<forall>i<Suc (slices_taken (dsub A a) xs). fgt (remaining_before A (a # xs) i) (Fin 0)"
    proof (intro allI impI)
      fix i assume "i < Suc (slices_taken (dsub A a) xs)"
      then show "fgt (remaining_before A (a # xs) i) (Fin 0)"
        using True Cons.IH[of "dsub A a"]
        by (cases i) (simp_all add: remaining_before_0 remaining_before_Suc)
    qed
    have 2: "Suc (slices_taken (dsub A a) xs) = length (a # xs) \<or>
        \<not> fgt (remaining_before A (a # xs) (Suc (slices_taken (dsub A a) xs))) (Fin 0)"
      using Cons.IH[of "dsub A a"] by (auto simp: remaining_before_Suc)
    have 3: "\<forall>i<Suc (slices_taken (dsub A a) xs).
        \<not> fle ((a # xs) ! i) (remaining_before A (a # xs) i) \<longrightarrow>
        Suc i = Suc (slices_taken (dsub A a) xs)"
    proof (intro allI impI)
      fix i assume i: "i < Suc (slices_taken (dsub A a) xs)"
        and nf: "\<not> fle ((a # xs) ! i) (remaining_before A (a # xs) i)"
      show "Suc i = Suc (slices_taken (dsub A a) xs)"
      proof (cases i)
        case 0
        then have "\<not> fle a A" using nf by (simp add: remaining_before_0)
        then have "slices_taken (dsub A a) xs = 0"
          using True by (intro slices_taken_stop nothing_left_behind)
        then show ?thesis using 0 by simp
      next
        case (Suc k)
        then show ?thesis
          using i nf Cons.IH[of "dsub A a"] by (simp add: remaining_before_Suc)
      qed
    qed
    show ?thesis unfolding n using 1 2 3 by blast
  qed
qed

lemma map_upt_Suc_shift: "map f [0..<Suc n] = f 0 # map (\<lambda>i. f (Suc i)) [0..<n]"
  by (simp add: upt_conv_Cons map_Suc_upt[symmetric] del: upt_Suc)

lemma queue_after_0: "queue_after A q 0 = q"
  by (simp add: queue_after_def)

lemma queue_after_Suc:
  "fle (amount h) A \<Longrightarrow> queue_after A (h # t) (Suc n) = queue_after (dsub A (amount h)) t n"
  by (cases n) (simp_all add: queue_after_def lot_amounts_def remaining_before_0 remaining_before_Suc)

lemma close_fifo_slices:
  "close_fifo b P T A q acc =
     (queue_after A q (slices_taken A (lot_amounts q)),
      acc @ map (\<lambda>i. close_slice b P T (q ! i) (fifo_take A (lot_amounts q) i))
              [0..<slices_taken A (lot_amounts q)])"
proof (induction q arbitrary: A acc)
  case Nil
  then show ?case
    by (simp add: close_fifo_stop lot_amounts_def slices_taken_Nil queue_after_0)
next
  case (Cons h t)
  have la: "lot_amounts (h # t) = amount h # lot_amounts t" by (simp add: lot_amounts_def)
  show ?case
  proof (cases "fgt A (Fin 0)")
    case False
    then show ?thesis
      by (simp add: close_fifo_stop slices_taken_stop queue_after_0)
  next
    case pos: True
    show ?thesis
    proof (cases "fle (amount h) A")
      case True
      show ?thesis
        using pos True
        by (simp add: close_fifo_full Cons.IH la slices_taken_Cons map_upt_Suc_shift
              fifo_take_0 fifo_take_Suc queue_after_Suc del: upt_Suc)
    next
      case False
      have n: "slices_taken (dsub A (amount h)) (lot_amounts t) = 0"
        using pos False by (intro slices_taken_stop nothing_left_behind)
      show ?thesis
        using pos False
        by (simp add: close_fifo_part la slices_taken_Cons n fifo_take_0 queue_after_def
              remaining_before_0)
    qed
  qed
qed

lemma slice_at_close_slice:
  "close_slice X P T (q ! i) (fifo_take A (lot_amounts q) i) = slice_at X P T A q i"
  by (simp add: close_slice_def slice_at_def Let_def)

text \<open>
  For numbers, the amount of a slice is the minimum and its profit the product of the
  specification.
\<close>

lemma fifo_take_numbers:
  "xs ! i = Fin a \<Longrightarrow> remaining_before A xs i = Fin r \<Longrightarrow> fifo_take A xs i = Fin (min a r)"
  by (simp add: fifo_take_def min_def)

lemma slice_profit_numbers:
  "fifo_take A (lot_amounts q) i = Fin t \<Longrightarrow> price (q ! i) = Fin p \<Longrightarrow>
   Profit_Loss_USDT (slice_at X (Fin P) T A q i) = Fin (t * (P - p))"
  by (simp add: slice_at_def Let_def fsub_def)

lemma queue_of_update:
  "queue_of (AList.update k v al) k' = (if k' = k then v else queue_of al k')"
  by (simp add: queue_of_def update_conv')

lemma process_row_buy:
  "row_Side r = ''BUY'' \<Longrightarrow>
   process_row st r =
     st\<lparr>open_positions :=
          AList.update (row_Base_Currency r)
            (queue_of (open_positions st) (row_Base_Currency r) @
               [\<lparr>price = row_Price r, amount = row_Executed r, date = row_Date r\<rparr>])
            (open_positions st)\<rparr>"
  by (simp add: process_row_def queue_of_def Let_def)

lemma process_row_orphan:
  "row_Side r = ''SELL'' \<Longrightarrow> queue_of (open_positions st) (row_Base_Currency r) = [] \<Longrightarrow>
   process_row st r = st\<lparr>orphan_sell_orders := orphan_sell_orders st @ [r]\<rparr>"
  by (auto simp: process_row_def queue_of_def Let_def split: option.splits list.splits)

lemma process_row_sell:
  "row_Side r = ''SELL'' \<Longrightarrow> queue_of (open_positions st) (row_Base_Currency r) \<noteq> [] \<Longrightarrow>
   process_row st r =
     st\<lparr>open_positions :=
          AList.update (row_Base_Currency r)
            (fst (close_fifo (row_Base_Currency r) (row_Price r) (row_Date r) (row_Executed r)
                   (queue_of (open_positions st) (row_Base_Currency r)) (closed_positions st)))
            (open_positions st),
        closed_positions :=
          snd (close_fifo (row_Base_Currency r) (row_Price r) (row_Date r) (row_Executed r)
                 (queue_of (open_positions st) (row_Base_Currency r)) (closed_positions st))\<rparr>"
  by (auto simp: process_row_def queue_of_def Let_def split: option.splits list.splits prod.splits)

lemma process_row_skip:
  "row_Side r \<noteq> ''BUY'' \<Longrightarrow> row_Side r \<noteq> ''SELL'' \<Longrightarrow> process_row st r = st"
  by (simp add: process_row_def Let_def)

lemma match_rows_snoc: "match_rows (rows @ [r]) = process_row (match_rows rows) r"
  by (simp add: match_rows_def)

lemma app_sell_slices:
  assumes side: "row_Side r = ''SELL''"
  shows "(let q = queue_of (open_positions (match_rows rows)) (row_Base_Currency r);
              n = slices_taken (row_Executed r) (lot_amounts q)
          in closed_positions (match_rows (rows @ [r])) =
               closed_positions (match_rows rows) @
               map (slice_at (row_Base_Currency r) (row_Price r) (row_Date r) (row_Executed r) q) [0..<n] \<and>
             queue_of (open_positions (match_rows (rows @ [r]))) (row_Base_Currency r) =
               queue_after (row_Executed r) q n)"
proof -
  let ?st = "match_rows rows"
  let ?X = "row_Base_Currency r"
  let ?q = "queue_of (open_positions ?st) ?X"
  show ?thesis
  proof (cases "?q = []")
    case True
    then show ?thesis using side
      by (simp add: match_rows_snoc process_row_orphan lot_amounts_def slices_taken_Nil
            queue_after_0 Let_def)
  next
    case False
    then show ?thesis using side
      by (simp add: match_rows_snoc process_row_sell close_fifo_slices slice_at_close_slice
            queue_of_update Let_def)
  qed
qed

lemma on_grid_fin: "on_grid j x \<Longrightarrow> \<exists>a. x = Fin a \<and> 0 \<le> a"
  by (cases x) (auto simp: on_grid_def)

lemma close_fifo_conserve:
  assumes "\<forall>l\<in>set q. on_grid j (amount l)" and "on_grid j A"
  shows "\<exists>new. snd (close_fifo b P T A q acc) = acc @ new
     \<and> (\<forall>c\<in>set new. Base_Currency c = b \<and> is_fin (Amount c))
     \<and> (\<forall>l\<in>set (fst (close_fifo b P T A q acc)). on_grid j (amount l))
     \<and> sum_list (map (\<lambda>c. fin_val (Amount c)) new)
         + sum_list (map (\<lambda>l. fin_val (amount l)) (fst (close_fifo b P T A q acc)))
       = sum_list (map (\<lambda>l. fin_val (amount l)) q)"
  using assms
proof (induction q arbitrary: A acc)
  case Nil
  then show ?case by (simp add: close_fifo_stop)
next
  case (Cons h t)
  obtain a where a: "amount h = Fin a" using Cons.prems(1) on_grid_fin by fastforce
  obtain r where r: "A = Fin r" using Cons.prems(2) on_grid_fin by blast
  have ga: "on_grid j (Fin a)" using Cons.prems(1) a by auto
  have gr: "on_grid j (Fin r)" using Cons.prems(2) r by simp
  show ?case
  proof (cases "0 < r")
    case False
    then have "close_fifo b P T A (h # t) acc = (h # t, acc)"
      by (simp add: close_fifo_stop fgt_def r)
    then show ?thesis using Cons.prems by simp
  next
    case pos: True
    show ?thesis
    proof (cases "a \<le> r")
      case True
      let ?acc = "acc @ [close_slice b P T h (Fin a)]"
      from on_grid_diff[OF gr ga True]
      have d: "round64 (r - a) = Fin (r - a)" and gd: "on_grid j (Fin (r - a))" by simp_all
      have step: "close_fifo b P T A (h # t) acc = close_fifo b P T (Fin (r - a)) t ?acc"
        using pos True by (simp add: close_fifo_full fgt_def r a d)
      from Cons.IH[of "Fin (r - a)" ?acc] Cons.prems(1) gd
      obtain new where new: "snd (close_fifo b P T (Fin (r - a)) t ?acc) = ?acc @ new"
        "\<forall>c\<in>set new. Base_Currency c = b \<and> is_fin (Amount c)"
        "\<forall>l\<in>set (fst (close_fifo b P T (Fin (r - a)) t ?acc)). on_grid j (amount l)"
        "sum_list (map (\<lambda>c. fin_val (Amount c)) new)
           + sum_list (map (\<lambda>l. fin_val (amount l)) (fst (close_fifo b P T (Fin (r - a)) t ?acc)))
         = sum_list (map (\<lambda>l. fin_val (amount l)) t)"
        by auto
      show ?thesis
        using new
        by (intro exI[of _ "close_slice b P T h (Fin a) # new"])
           (simp add: step a close_slice_def)
    next
      case False
      then have le: "r \<le> a" by simp
      from on_grid_diff[OF ga gr le]
      have d: "round64 (a - r) = Fin (a - r)" and gd: "on_grid j (Fin (a - r))" by simp_all
      have step: "close_fifo b P T A (h # t) acc =
            (h\<lparr>amount := Fin (a - r)\<rparr> # t, acc @ [close_slice b P T h (Fin r)])"
        using pos False by (simp add: close_fifo_part fgt_def r a d)
      show ?thesis
        using Cons.prems(1) gd
        by (intro exI[of _ "[close_slice b P T h (Fin r)]"])
           (simp add: step a close_slice_def)
    qed
  qed
qed

lemma closed_amount_append:
  "closed_amount (cl @ new) X = closed_amount cl X + closed_amount new X"
  by (simp add: closed_amount_def)

lemma closed_amount_same:
  "\<forall>c\<in>set new. Base_Currency c = b \<Longrightarrow>
   closed_amount new X = (if X = b then sum_list (map (\<lambda>c. fin_val (Amount c)) new) else 0)"
  by (induction new) (auto simp: closed_amount_def)

lemma bought_snoc:
  "bought (rows @ [r]) X =
     bought rows X + (if row_Side r = ''BUY'' \<and> row_Base_Currency r = X then fin_val (row_Executed r) else 0)"
  by (simp add: bought_def)

lemma conserved_step:
  assumes inv: "conserved j st rows" and grid: "on_grid j (row_Executed r)"
  shows "conserved j (process_row st r) (rows @ [r])"
proof -
  let ?X = "row_Base_Currency r"
  let ?q = "queue_of (open_positions st) ?X"
  have q: "\<forall>l\<in>set ?q. on_grid j (amount l)"
    using inv by (simp add: conserved_def list_all_iff)
  consider (buy) "row_Side r = ''BUY''"
    | (orphan) "row_Side r = ''SELL''" "?q = []"
    | (sell) "row_Side r = ''SELL''" "?q \<noteq> []"
    | (skip) "row_Side r \<noteq> ''BUY''" "row_Side r \<noteq> ''SELL''" by blast
  then show ?thesis
  proof cases
    case buy
    then show ?thesis using inv grid
      by (auto simp: process_row_buy conserved_def queue_of_update open_amount_def bought_snoc)
  next
    case orphan
    then show ?thesis using inv
      by (simp add: process_row_orphan conserved_def bought_snoc)
  next
    case sell
    let ?res = "close_fifo ?X (row_Price r) (row_Date r) (row_Executed r) ?q (closed_positions st)"
    from close_fifo_conserve[OF q grid, of ?X "row_Price r" "row_Date r" "closed_positions st"]
    obtain new where new: "snd ?res = closed_positions st @ new"
      "\<forall>c\<in>set new. Base_Currency c = ?X \<and> is_fin (Amount c)"
      "\<forall>l\<in>set (fst ?res). on_grid j (amount l)"
      "sum_list (map (\<lambda>c. fin_val (Amount c)) new) + sum_list (map (\<lambda>l. fin_val (amount l)) (fst ?res))
         = sum_list (map (\<lambda>l. fin_val (amount l)) ?q)"
      by auto
    have ca: "\<And>Y. closed_amount new Y = (if Y = ?X then sum_list (map (\<lambda>c. fin_val (Amount c)) new) else 0)"
      using new(2) closed_amount_same[of new ?X] by simp
    have side: "row_Side r \<noteq> ''BUY''" using sell(1) by simp
    have invX: "closed_amount (closed_positions st) ?X + sum_list (map (\<lambda>l. fin_val (amount l)) ?q)
          = bought rows ?X"
      using inv by (simp add: conserved_def open_amount_def)
    have tot: "closed_amount (closed_positions st) ?X + sum_list (map (\<lambda>c. fin_val (Amount c)) new)
          + sum_list (map (\<lambda>l. fin_val (amount l)) (fst ?res)) = bought rows ?X"
      using invX new(4) by linarith
    show ?thesis
      using inv new(2,3) side tot
      by (auto simp: process_row_sell[OF sell] new(1) conserved_def queue_of_update
            open_amount_def bought_snoc closed_amount_append ca list_all_iff)
  next
    case skip
    then show ?thesis using inv by (simp add: process_row_skip conserved_def bought_snoc)
  qed
qed

lemma conserved_match_rows:
  "list_all (\<lambda>x. on_grid j (row_Executed x)) rows \<Longrightarrow> conserved j (match_rows rows) rows"
proof (induction rows rule: rev_induct)
  case Nil
  then show ?case
    by (simp add: match_rows_def no_positions_def conserved_def queue_of_def closed_amount_def
          open_amount_def bought_def)
next
  case (snoc r rows)
  then show ?case by (simp add: match_rows_snoc conserved_step)
qed

lemma bought_as_mset:
  "bought rows X =
     sum_mset (image_mset (\<lambda>r. fin_val (row_Executed r))
                (filter_mset (\<lambda>r. row_Side r = ''BUY'' \<and> row_Base_Currency r = X) (mset rows)))"
  unfolding bought_def by (simp flip: sum_mset_sum_list)

lemma bought_mset: "mset rows = mset rows' \<Longrightarrow> bought rows X = bought rows' X"
  by (simp add: bought_as_mset)

subsection \<open>The matching loop of visualizer.py\<close>

declare v_close_fifo.simps [simp del]

lemma v_close_fifo_stop:
  "\<not> fgt A (Fin 0) \<or> q = [] \<Longrightarrow> v_close_fifo b pair P T A q acc = Inr (q, acc)"
  by (subst v_close_fifo.simps) auto

lemma v_close_fifo_full:
  "fgt A (Fin 0) \<Longrightarrow> fle (v_amount h) A \<Longrightarrow>
   v_close_fifo b pair P T A (h # t) acc =
   (case v_close_slice b P T (v_quote_of pair) h (v_amount h) acc of
      Inl e \<Rightarrow> Inl e
    | Inr acc' \<Rightarrow> v_close_fifo b pair P T (dsub A (v_amount h)) t acc')"
  by (subst v_close_fifo.simps) (simp add: Let_def split: sum.splits)

lemma v_close_fifo_part:
  "fgt A (Fin 0) \<Longrightarrow> \<not> fle (v_amount h) A \<Longrightarrow>
   v_close_fifo b pair P T A (h # t) acc =
   (case v_close_slice b P T (Inr (drop (length pair - 4) pair)) h A acc of
      Inl e \<Rightarrow> Inl e
    | Inr acc' \<Rightarrow> Inr (h\<lparr>v_amount := dsub (v_amount h) A\<rparr> # t, acc'))"
  by (subst v_close_fifo.simps)
     (simp add: Let_def v_close_fifo_stop fgt_def split: sum.splits)

lemma v_close_slice_priced:
  "v_price h \<noteq> Fin 0 \<Longrightarrow>
   v_close_slice b P T (Inr cq) h amt (acc, u, p) =
   Inr (acc @ [\<lparr> v_Base_Currency = b, v_Open_Price = v_price h, v_Close_Price = P,
                  v_Amount = amt, v_Open_Date = v_date h, v_Close_Date = T,
                  v_Quote_Currency_Open = v_quote h, v_Quote_Currency_Close = cq,
                  v_Profit_Loss_USDT = fmul amt (fsub P (v_price h)),
                  v_Profit_Loss_pct = fmul (fdiv (fsub P (v_price h)) (v_price h)) (Fin 100) \<rparr>],
        fadd u (fmul amt (fsub P (v_price h))),
        fadd p (fmul (fdiv (fsub P (v_price h)) (v_price h)) (Fin 100)))"
  by (simp add: v_close_slice_def py_truediv_def Let_def)

lemma v_queue_after_0: "v_queue_after A q 0 = q"
  by (simp add: v_queue_after_def)

lemma v_queue_after_Suc:
  "fle (v_amount h) A \<Longrightarrow> v_queue_after A (h # t) (Suc n) = v_queue_after (dsub A (v_amount h)) t n"
  by (cases n) (simp_all add: v_queue_after_def v_lot_amounts_def remaining_before_0 remaining_before_Suc)

lemma v_slice_at_0_full:
  "fle (v_amount h) A \<Longrightarrow>
   v_slice_at X pair P T A (h # t) 0 =
     \<lparr> v_Base_Currency = X, v_Open_Price = v_price h, v_Close_Price = P,
       v_Amount = v_amount h, v_Open_Date = v_date h, v_Close_Date = T,
       v_Quote_Currency_Open = v_quote h, v_Quote_Currency_Close = str_remove X pair,
       v_Profit_Loss_USDT = fmul (v_amount h) (fsub P (v_price h)),
       v_Profit_Loss_pct = fmul (fdiv (fsub P (v_price h)) (v_price h)) (Fin 100) \<rparr>"
  by (simp add: v_slice_at_def v_lot_amounts_def fifo_take_0 remaining_before_0 Let_def)

lemma v_slice_at_0_part:
  "\<not> fle (v_amount h) A \<Longrightarrow>
   v_slice_at X pair P T A (h # t) 0 =
     \<lparr> v_Base_Currency = X, v_Open_Price = v_price h, v_Close_Price = P,
       v_Amount = A, v_Open_Date = v_date h, v_Close_Date = T,
       v_Quote_Currency_Open = v_quote h, v_Quote_Currency_Close = drop (length pair - 4) pair,
       v_Profit_Loss_USDT = fmul A (fsub P (v_price h)),
       v_Profit_Loss_pct = fmul (fdiv (fsub P (v_price h)) (v_price h)) (Fin 100) \<rparr>"
  by (simp add: v_slice_at_def v_lot_amounts_def fifo_take_0 remaining_before_0 Let_def)

lemma v_slice_at_Suc:
  "v_slice_at X pair P T A (h # t) (Suc i) = v_slice_at X pair P T (dsub A (v_amount h)) t i"
  by (simp add: v_slice_at_def v_lot_amounts_def fifo_take_Suc remaining_before_Suc Let_def)

lemma v_close_fifo_slices:
  assumes "\<forall>l\<in>set q. v_price l \<noteq> Fin 0"
    and "v_quote_of pair = Inr (str_remove b pair)"
  shows "\<exists>u' p'.
     v_close_fifo b pair P T A q (acc, u, p) =
       Inr (v_queue_after A q (slices_taken A (v_lot_amounts q)),
            acc @ map (v_slice_at b pair P T A q) [0..<slices_taken A (v_lot_amounts q)], u', p')"
  using assms
proof (induction q arbitrary: A acc u p)
  case Nil
  then show ?case
    by (simp add: v_close_fifo_stop v_lot_amounts_def slices_taken_Nil v_queue_after_0)
next
  case (Cons h t)
  have ph: "v_price h \<noteq> Fin 0" using Cons.prems(1) by simp
  have la: "v_lot_amounts (h # t) = v_amount h # v_lot_amounts t" by (simp add: v_lot_amounts_def)
  show ?case
  proof (cases "fgt A (Fin 0)")
    case False
    then show ?thesis
      by (simp add: v_close_fifo_stop slices_taken_stop v_queue_after_0)
  next
    case pos: True
    show ?thesis
    proof (cases "fle (v_amount h) A")
      case True
      let ?acc = "acc @ [v_slice_at b pair P T A (h # t) 0]"
      let ?u = "fadd u (fmul (v_amount h) (fsub P (v_price h)))"
      let ?p = "fadd p (fmul (fdiv (fsub P (v_price h)) (v_price h)) (Fin 100))"
      have step: "v_close_fifo b pair P T A (h # t) (acc, u, p) =
            v_close_fifo b pair P T (dsub A (v_amount h)) t (?acc, ?u, ?p)"
        using pos True ph Cons.prems(2)
        by (simp add: v_close_fifo_full v_close_slice_priced v_slice_at_0_full)
      from Cons.IH[of "dsub A (v_amount h)" ?acc ?u ?p] Cons.prems
      obtain u' p' where n:
        "v_close_fifo b pair P T (dsub A (v_amount h)) t (?acc, ?u, ?p) =
           Inr (v_queue_after (dsub A (v_amount h)) t (slices_taken (dsub A (v_amount h)) (v_lot_amounts t)),
                ?acc @ map (v_slice_at b pair P T (dsub A (v_amount h)) t)
                         [0..<slices_taken (dsub A (v_amount h)) (v_lot_amounts t)], u', p')"
        by auto
      show ?thesis
        using pos True
        by (simp add: step n la slices_taken_Cons map_upt_Suc_shift v_slice_at_Suc v_queue_after_Suc
              del: upt_Suc)
    next
      case False
      have n: "slices_taken (dsub A (v_amount h)) (v_lot_amounts t) = 0"
        using pos False by (intro slices_taken_stop nothing_left_behind)
      have step: "v_close_fifo b pair P T A (h # t) (acc, u, p) =
            Inr (h\<lparr>v_amount := dsub (v_amount h) A\<rparr> # t, acc @ [v_slice_at b pair P T A (h # t) 0],
                 fadd u (fmul A (fsub P (v_price h))),
                 fadd p (fmul (fdiv (fsub P (v_price h)) (v_price h)) (Fin 100)))"
        using pos False ph
        by (simp add: v_close_fifo_part v_close_slice_priced v_slice_at_0_part)
      show ?thesis
        using pos False
        by (simp add: step la slices_taken_Cons n v_queue_after_def remaining_before_0)
    qed
  qed
qed

lemma v_queue_of_update:
  "v_queue_of (AList.update k v al) k' = (if k' = k then v else v_queue_of al k')"
  by (simp add: v_queue_of_def update_conv')

lemma v_process_row_buy:
  "v_row_Side r = ''BUY'' \<Longrightarrow> v_get_base_currency (v_row_Pair r) = Inr base \<Longrightarrow>
   v_process_row st r =
     Inr (st\<lparr>v_open_positions :=
          AList.update (v_row_Base_Currency r)
            (v_queue_of (v_open_positions st) (v_row_Base_Currency r) @
               [\<lparr>v_price = v_row_Price r, v_amount = v_row_Executed r,
                 v_quote = str_remove base (v_row_Pair r), v_date = v_row_Date r\<rparr>])
            (v_open_positions st)\<rparr>)"
  by (simp add: v_process_row_def v_queue_of_def v_quote_of_def Let_def)

lemma v_process_row_orphan:
  "v_row_Side r = ''SELL'' \<Longrightarrow> v_queue_of (v_open_positions st) (v_row_Base_Currency r) = [] \<Longrightarrow>
   v_process_row st r = Inr st"
  by (auto simp: v_process_row_def v_queue_of_def Let_def split: option.splits list.splits)

lemma v_process_row_sell:
  "v_row_Side r = ''SELL'' \<Longrightarrow> v_queue_of (v_open_positions st) (v_row_Base_Currency r) \<noteq> [] \<Longrightarrow>
   v_process_row st r =
     (case v_close_fifo (v_row_Base_Currency r) (v_row_Pair r) (v_row_Price r) (v_row_Date r)
             (v_row_Executed r) (v_queue_of (v_open_positions st) (v_row_Base_Currency r))
             (v_closed_positions st, total_profit_usdt st, total_profit_percentage st) of
        Inl e \<Rightarrow> Inl e
      | Inr (queue', emitted, usdt, pct) \<Rightarrow>
          Inr (st\<lparr>v_open_positions := AList.update (v_row_Base_Currency r) queue' (v_open_positions st),
                  v_closed_positions := emitted,
                  total_profit_usdt := usdt,
                  total_profit_percentage := pct\<rparr>))"
  by (auto simp: v_process_row_def v_queue_of_def Let_def split: option.splits list.splits)

lemma v_process_row_skip:
  "v_row_Side r \<noteq> ''BUY'' \<Longrightarrow> v_row_Side r \<noteq> ''SELL'' \<Longrightarrow> v_process_row st r = Inr st"
  by (simp add: v_process_row_def Let_def)

lemma v_match_rows_append:
  "v_match_rows st (rows @ rest) =
     (case v_match_rows st rows of Inl e \<Rightarrow> Inl e | Inr st' \<Rightarrow> v_match_rows st' rest)"
  by (induction rows arbitrary: st) (auto split: sum.splits)

lemma v_match_rows_snoc:
  "v_match_rows st (rows @ [r]) =
     (case v_match_rows st rows of Inl e \<Rightarrow> Inl e | Inr st' \<Rightarrow> v_process_row st' r)"
  by (simp add: v_match_rows_append split: sum.splits)

lemma v_queue_after_set:
  assumes "\<forall>l\<in>set q. v_price l \<noteq> Fin 0" "n \<le> length q"
  shows "\<forall>l\<in>set (v_queue_after A q n). v_price l \<noteq> Fin 0"
proof -
  have d: "\<forall>l\<in>set (drop n q). v_price l \<noteq> Fin 0"
    using assms(1) by (meson in_set_dropD)
  show ?thesis
  proof (cases "0 < n")
    case True
    then have "n - 1 < length q" using assms(2) by linarith
    then have "v_price (q ! (n - 1)) \<noteq> Fin 0"
      using assms(1) nth_mem by blast
    then show ?thesis using d by (simp add: v_queue_after_def)
  next
    case False
    then show ?thesis using d by (simp add: v_queue_after_def)
  qed
qed

lemma v_sell_step:
  assumes fl: "v_priced_lots st" and side: "v_row_Side r = ''SELL''"
    and base: "v_get_base_currency (v_row_Pair r) = Inr (v_row_Base_Currency r)"
  shows "\<exists>st'.
     v_process_row st r = Inr st' \<and>
     v_closed_positions st' =
       v_closed_positions st @
       map (v_slice_at (v_row_Base_Currency r) (v_row_Pair r) (v_row_Price r) (v_row_Date r)
              (v_row_Executed r) (v_queue_of (v_open_positions st) (v_row_Base_Currency r)))
         [0..<slices_taken (v_row_Executed r)
                (v_lot_amounts (v_queue_of (v_open_positions st) (v_row_Base_Currency r)))] \<and>
     v_open_positions st' =
       (if v_queue_of (v_open_positions st) (v_row_Base_Currency r) = [] then v_open_positions st
        else AList.update (v_row_Base_Currency r)
               (v_queue_after (v_row_Executed r)
                  (v_queue_of (v_open_positions st) (v_row_Base_Currency r))
                  (slices_taken (v_row_Executed r)
                     (v_lot_amounts (v_queue_of (v_open_positions st) (v_row_Base_Currency r)))))
               (v_open_positions st))"
proof -
  let ?X = "v_row_Base_Currency r"
  let ?q = "v_queue_of (v_open_positions st) ?X"
  have q: "\<forall>l\<in>set ?q. v_price l \<noteq> Fin 0"
    using fl by (simp add: v_priced_lots_def)
  show ?thesis
  proof (cases "?q = []")
    case True
    then show ?thesis using side
      by (simp add: v_process_row_orphan v_lot_amounts_def slices_taken_Nil)
  next
    case False
    have cq: "v_quote_of (v_row_Pair r) = Inr (str_remove ?X (v_row_Pair r))"
      using base by (simp add: v_quote_of_def)
    from v_close_fifo_slices[OF q cq, of "v_row_Price r" "v_row_Date r" "v_row_Executed r"
        "v_closed_positions st" "total_profit_usdt st" "total_profit_percentage st"]
    obtain u' p' where n:
      "v_close_fifo ?X (v_row_Pair r) (v_row_Price r) (v_row_Date r) (v_row_Executed r) ?q
          (v_closed_positions st, total_profit_usdt st, total_profit_percentage st) =
        Inr (v_queue_after (v_row_Executed r) ?q (slices_taken (v_row_Executed r) (v_lot_amounts ?q)),
             v_closed_positions st @
               map (v_slice_at ?X (v_row_Pair r) (v_row_Price r) (v_row_Date r) (v_row_Executed r) ?q)
                 [0..<slices_taken (v_row_Executed r) (v_lot_amounts ?q)],
             u', p')"
      by auto
    show ?thesis
      using False by (simp add: v_process_row_sell[OF side False] n)
  qed
qed

lemma v_slices_taken_le: "slices_taken A (v_lot_amounts q) \<le> length q"
  using slices_taken_le[of A "v_lot_amounts q"] by (simp add: v_lot_amounts_def)

lemma v_priced_lots_step:
  assumes "v_priced_lots st" "v_well_formed r"
  shows "\<exists>st'. v_process_row st r = Inr st' \<and> v_priced_lots st'"
proof -
  let ?X = "v_row_Base_Currency r"
  let ?q = "v_queue_of (v_open_positions st) ?X"
  have wf: "v_row_Price r \<noteq> Fin 0" "v_get_base_currency (v_row_Pair r) = Inr ?X"
    using assms(2) by (simp_all add: v_well_formed_def)
  have q: "\<forall>l\<in>set ?q. v_price l \<noteq> Fin 0"
    using assms(1) by (simp add: v_priced_lots_def)
  consider (buy) "v_row_Side r = ''BUY''"
    | (sell) "v_row_Side r = ''SELL''"
    | (skip) "v_row_Side r \<noteq> ''BUY''" "v_row_Side r \<noteq> ''SELL''" by blast
  then show ?thesis
  proof cases
    case buy
    then show ?thesis using assms(1) wf
      by (auto simp: v_process_row_buy[OF buy wf(2)] v_priced_lots_def v_queue_of_update)
  next
    case sell
    from v_sell_step[OF assms(1) sell wf(2)]
    obtain st' where n: "v_process_row st r = Inr st'"
      "v_open_positions st' =
         (if ?q = [] then v_open_positions st
          else AList.update ?X
                 (v_queue_after (v_row_Executed r) ?q (slices_taken (v_row_Executed r) (v_lot_amounts ?q)))
                 (v_open_positions st))"
      by blast
    have "\<forall>l\<in>set (v_queue_after (v_row_Executed r) ?q (slices_taken (v_row_Executed r) (v_lot_amounts ?q))).
            v_price l \<noteq> Fin 0"
      using v_queue_after_set[OF q v_slices_taken_le] .
    then have "v_priced_lots st'"
      using assms(1) n(2) by (auto simp: v_priced_lots_def v_queue_of_update)
    then show ?thesis using n(1) by simp
  next
    case skip
    then show ?thesis using assms(1) by (simp add: v_process_row_skip)
  qed
qed

lemma v_priced_lots_match_rows:
  "list_all v_well_formed rows \<Longrightarrow>
   \<exists>st. v_match_rows v_no_positions rows = Inr st \<and> v_priced_lots st"
proof (induction rows rule: rev_induct)
  case Nil
  then show ?case by (simp add: v_no_positions_def v_priced_lots_def v_queue_of_def)
next
  case (snoc r rows)
  then obtain st where st: "v_match_rows v_no_positions rows = Inr st" "v_priced_lots st" by auto
  from snoc.prems have "v_well_formed r" by simp
  from v_priced_lots_step[OF st(2) this] show ?case
    by (simp add: v_match_rows_snoc st(1))
qed

lemma vis_sell_slices:
  assumes rows: "list_all v_well_formed rows"
    and wf: "v_well_formed r"
    and side: "v_row_Side r = ''SELL''"
  shows "\<exists>st st'. v_match_rows v_no_positions rows = Inr st \<and>
     v_match_rows v_no_positions (rows @ [r]) = Inr st' \<and>
     (let q = v_queue_of (v_open_positions st) (v_row_Base_Currency r);
          n = slices_taken (v_row_Executed r) (v_lot_amounts q)
      in v_closed_positions st' =
           v_closed_positions st @
           map (v_slice_at (v_row_Base_Currency r) (v_row_Pair r) (v_row_Price r) (v_row_Date r)
                  (v_row_Executed r) q) [0..<n] \<and>
         v_queue_of (v_open_positions st') (v_row_Base_Currency r) = v_queue_after (v_row_Executed r) q n)"
proof -
  from v_priced_lots_match_rows[OF rows]
  obtain st where st: "v_match_rows v_no_positions rows = Inr st" "v_priced_lots st" by blast
  let ?q = "v_queue_of (v_open_positions st) (v_row_Base_Currency r)"
  let ?n = "slices_taken (v_row_Executed r) (v_lot_amounts ?q)"
  have base: "v_get_base_currency (v_row_Pair r) = Inr (v_row_Base_Currency r)"
    using wf by (simp add: v_well_formed_def)
  from v_sell_step[OF st(2) side base]
  obtain st' where n: "v_process_row st r = Inr st'"
    "v_closed_positions st' =
       v_closed_positions st @
       map (v_slice_at (v_row_Base_Currency r) (v_row_Pair r) (v_row_Price r) (v_row_Date r)
              (v_row_Executed r) ?q) [0..<?n]"
    "v_open_positions st' =
       (if ?q = [] then v_open_positions st
        else AList.update (v_row_Base_Currency r) (v_queue_after (v_row_Executed r) ?q ?n)
               (v_open_positions st))"
    by blast
  have q': "v_queue_of (v_open_positions st') (v_row_Base_Currency r) = v_queue_after (v_row_Executed r) ?q ?n"
    using n(3) by (auto simp: v_queue_of_update v_queue_after_def v_lot_amounts_def slices_taken_Nil)
  have "v_match_rows v_no_positions (rows @ [r]) = Inr st'"
    by (simp add: v_match_rows_snoc st(1) n(1))
  then show ?thesis using st(1) n(2) q' by (simp add: Let_def)
qed

lemmas app_eval =
  match_rows_def no_positions_def trade_def process_row_def Let_def
  close_fifo_full close_fifo_part close_fifo_stop fgt_def fsub_def close_slice_def

lemmas vis_eval =
  v_no_positions_def v_trade_def v_process_row_def Let_def v_quote_of_def
  v_get_base_currency_def quote_currencies_def endswith_def
  v_close_fifo_full v_close_fifo_part v_close_fifo_stop fgt_def fsub_def v_close_slice_def
  py_truediv_def

lemmas csv_eval =
  normalize_def normalize_row_def v_normalize_def v_normalize_row_def csv_trade_def
  str_accessible_def is_text_def extract_cell_def
  List.map_filter_def str_extract_def is_digit_def astype_float_def digits_val_def
  get_quote_currency_def get_base_currency_def quote_currencies_def endswith_def
  v_get_base_currency_def sort_values_by_date_def v_sort_values_by_date_def ts_key_def

subsection \<open>Claims about the matching loop\<close>

text \<open>
  C1. A SELL of amount \<open>A\<close> at price \<open>P\<close> closes lots from the head of the queue of its
  base asset, oldest first. It takes one slice from each of the first \<open>n\<close> lots of the
  queue as it stood before the sell, in that order, and from no other lot; \<open>n\<close> is the
  number of lots the sell reaches with something left of \<open>A\<close>: each of these lots is reached
  with a remaining amount above zero, and behind them the queue ends or nothing is left.
  Slice \<open>i\<close> has the amount \<open>min (amount of lot i) (what is left of A when lot i comes to
  the head)\<close>, the open price and the open date of lot \<open>i\<close>, and the profit
  \<open>take * (P - open price of lot i)\<close>. After the sell the lots behind are as they were,
  and lot \<open>n - 1\<close> stays at the head, with what the sell left of it, when it held more than
  what was left of the sell. This holds in app.py for all rows, and in visualizer.py for
  rows on which the script does not raise (prices other than zero, pairs with a known
  quote).
\<close>

theorem sell_closes_fifo_slices:
  assumes "row_Side r = ''SELL''"
    and "list_all v_well_formed vrows" and "v_well_formed x" and "v_row_Side x = ''SELL''"
  shows "(let q = queue_of (open_positions (match_rows rows)) (row_Base_Currency r);
              n = slices_taken (row_Executed r) (lot_amounts q)
          in closed_positions (match_rows (rows @ [r])) =
               closed_positions (match_rows rows) @
               map (slice_at (row_Base_Currency r) (row_Price r) (row_Date r) (row_Executed r) q) [0..<n] \<and>
             queue_of (open_positions (match_rows (rows @ [r]))) (row_Base_Currency r) =
               queue_after (row_Executed r) q n \<and>
             (\<forall>i<n. fgt (remaining_before (row_Executed r) (lot_amounts q) i) (Fin 0)) \<and>
             (n = length q \<or> \<not> fgt (remaining_before (row_Executed r) (lot_amounts q) n) (Fin 0)))
     \<and> (\<exists>st st'. v_match_rows v_no_positions vrows = Inr st \<and>
          v_match_rows v_no_positions (vrows @ [x]) = Inr st' \<and>
          (let q = v_queue_of (v_open_positions st) (v_row_Base_Currency x);
               n = slices_taken (v_row_Executed x) (v_lot_amounts q)
           in v_closed_positions st' =
                v_closed_positions st @
                map (v_slice_at (v_row_Base_Currency x) (v_row_Pair x) (v_row_Price x) (v_row_Date x)
                       (v_row_Executed x) q) [0..<n] \<and>
              v_queue_of (v_open_positions st') (v_row_Base_Currency x) =
                v_queue_after (v_row_Executed x) q n \<and>
              (\<forall>i<n. fgt (remaining_before (v_row_Executed x) (v_lot_amounts q) i) (Fin 0)) \<and>
              (n = length q \<or> \<not> fgt (remaining_before (v_row_Executed x) (v_lot_amounts q) n) (Fin 0))))"
proof -
  let ?q = "queue_of (open_positions (match_rows rows)) (row_Base_Currency r)"
  have e: "slices_taken (row_Executed r) (lot_amounts ?q) = length ?q \<or>
        \<not> fgt (remaining_before (row_Executed r) (lot_amounts ?q)
                 (slices_taken (row_Executed r) (lot_amounts ?q))) (Fin 0)"
    using slices_taken_exit[of "row_Executed r" "lot_amounts ?q"] by (simp add: lot_amounts_def)
  have app: "(let q = ?q; n = slices_taken (row_Executed r) (lot_amounts q)
          in closed_positions (match_rows (rows @ [r])) =
               closed_positions (match_rows rows) @
               map (slice_at (row_Base_Currency r) (row_Price r) (row_Date r) (row_Executed r) q) [0..<n] \<and>
             queue_of (open_positions (match_rows (rows @ [r]))) (row_Base_Currency r) =
               queue_after (row_Executed r) q n \<and>
             (\<forall>i<n. fgt (remaining_before (row_Executed r) (lot_amounts q) i) (Fin 0)) \<and>
             (n = length q \<or> \<not> fgt (remaining_before (row_Executed r) (lot_amounts q) n) (Fin 0)))"
    using app_sell_slices[OF assms(1), of rows] e
      slices_taken_exit[of "row_Executed r" "lot_amounts ?q"]
    by (simp add: Let_def)
  from vis_sell_slices[OF assms(2-4)]
  obtain st st' where v: "v_match_rows v_no_positions vrows = Inr st"
    "v_match_rows v_no_positions (vrows @ [x]) = Inr st'"
    "(let q = v_queue_of (v_open_positions st) (v_row_Base_Currency x);
          n = slices_taken (v_row_Executed x) (v_lot_amounts q)
      in v_closed_positions st' =
           v_closed_positions st @
           map (v_slice_at (v_row_Base_Currency x) (v_row_Pair x) (v_row_Price x) (v_row_Date x)
                  (v_row_Executed x) q) [0..<n] \<and>
         v_queue_of (v_open_positions st') (v_row_Base_Currency x) = v_queue_after (v_row_Executed x) q n)"
    by blast
  let ?vq = "v_queue_of (v_open_positions st) (v_row_Base_Currency x)"
  have ve: "slices_taken (v_row_Executed x) (v_lot_amounts ?vq) = length ?vq \<or>
        \<not> fgt (remaining_before (v_row_Executed x) (v_lot_amounts ?vq)
                 (slices_taken (v_row_Executed x) (v_lot_amounts ?vq))) (Fin 0)"
    using slices_taken_exit[of "v_row_Executed x" "v_lot_amounts ?vq"] by (simp add: v_lot_amounts_def)
  have vis: "(let q = ?vq; n = slices_taken (v_row_Executed x) (v_lot_amounts q)
           in v_closed_positions st' =
                v_closed_positions st @
                map (v_slice_at (v_row_Base_Currency x) (v_row_Pair x) (v_row_Price x) (v_row_Date x)
                       (v_row_Executed x) q) [0..<n] \<and>
              v_queue_of (v_open_positions st') (v_row_Base_Currency x) =
                v_queue_after (v_row_Executed x) q n \<and>
              (\<forall>i<n. fgt (remaining_before (v_row_Executed x) (v_lot_amounts q) i) (Fin 0)) \<and>
              (n = length q \<or> \<not> fgt (remaining_before (v_row_Executed x) (v_lot_amounts q) n) (Fin 0)))"
    using v(3) ve slices_taken_exit[of "v_row_Executed x" "v_lot_amounts ?vq"]
    by (simp add: Let_def)
  show ?thesis using app v(1,2) vis by blast
qed

text \<open>
  Buys of 1 at 10, of 2 at 20 and of 1 at 30, then a sell of 2 at 25. The sell takes from
  two lots: it closes the lot bought at 10 in full, with profit 15, and one unit of the lot
  bought at 20, with profit 5 (not 2 units at the average price); what is left of that lot
  stays at the head of the queue, and the lot bought at 30 is untouched. The same in both
  scripts.
\<close>

theorem sell_closes_fifo_slices_witness:
  "slices_taken (Fin 2) [Fin 1, Fin 2, Fin 1] = 2
   \<and> closed_positions
       (match_rows ([trade ''BTC'' ''BUY'' 10 1 0, trade ''BTC'' ''BUY'' 20 2 1,
                     trade ''BTC'' ''BUY'' 30 1 2] @ [trade ''BTC'' ''SELL'' 25 2 3])) =
     [\<lparr> Base_Currency = ''BTC'', Open_Price = Fin 10, Close_Price = Fin 25, Amount = Fin 1,
        Open_Date = \<lparr>ts_year = 2024, ts_month = 1, ts_day = 1, ts_time = 0\<rparr>,
        Close_Date = \<lparr>ts_year = 2024, ts_month = 1, ts_day = 1, ts_time = 3\<rparr>,
        Profit_Loss_USDT = Fin 15 \<rparr>,
      \<lparr> Base_Currency = ''BTC'', Open_Price = Fin 20, Close_Price = Fin 25, Amount = Fin 1,
        Open_Date = \<lparr>ts_year = 2024, ts_month = 1, ts_day = 1, ts_time = 1\<rparr>,
        Close_Date = \<lparr>ts_year = 2024, ts_month = 1, ts_day = 1, ts_time = 3\<rparr>,
        Profit_Loss_USDT = Fin 5 \<rparr>]
   \<and> queue_of (open_positions
       (match_rows ([trade ''BTC'' ''BUY'' 10 1 0, trade ''BTC'' ''BUY'' 20 2 1,
                     trade ''BTC'' ''BUY'' 30 1 2] @ [trade ''BTC'' ''SELL'' 25 2 3]))) ''BTC'' =
     [\<lparr>price = Fin 20, amount = Fin 1, date = \<lparr>ts_year = 2024, ts_month = 1, ts_day = 1, ts_time = 1\<rparr>\<rparr>,
      \<lparr>price = Fin 30, amount = Fin 1, date = \<lparr>ts_year = 2024, ts_month = 1, ts_day = 1, ts_time = 2\<rparr>\<rparr>]
   \<and> (\<exists>st'. v_match_rows v_no_positions
               ([v_trade ''BTC'' ''BUY'' 10 1 0, v_trade ''BTC'' ''BUY'' 20 2 1,
                 v_trade ''BTC'' ''BUY'' 30 1 2] @ [v_trade ''BTC'' ''SELL'' 25 2 3]) = Inr st' \<and>
             map v_Open_Price (v_closed_positions st') = [Fin 10, Fin 20] \<and>
             map v_Amount (v_closed_positions st') = [Fin 1, Fin 1] \<and>
             map v_Profit_Loss_USDT (v_closed_positions st') = [Fin 15, Fin 5] \<and>
             map v_amount (v_queue_of (v_open_positions st') ''BTC'') = [Fin 1, Fin 1])"
proof -
  let ?rows = "[trade ''BTC'' ''BUY'' 10 1 0, trade ''BTC'' ''BUY'' 20 2 1, trade ''BTC'' ''BUY'' 30 1 2]"
  let ?r = "trade ''BTC'' ''SELL'' 25 2 3"
  let ?vrows = "[v_trade ''BTC'' ''BUY'' 10 1 0, v_trade ''BTC'' ''BUY'' 20 2 1, v_trade ''BTC'' ''BUY'' 30 1 2]"
  let ?x = "v_trade ''BTC'' ''SELL'' 25 2 3"
  let ?l0 = "\<lparr>price = Fin 10, amount = Fin 1, date = \<lparr>ts_year = 2024, ts_month = 1, ts_day = 1, ts_time = 0\<rparr>\<rparr>"
  let ?l1 = "\<lparr>price = Fin 20, amount = Fin 2, date = \<lparr>ts_year = 2024, ts_month = 1, ts_day = 1, ts_time = 1\<rparr>\<rparr>"
  let ?l2 = "\<lparr>price = Fin 30, amount = Fin 1, date = \<lparr>ts_year = 2024, ts_month = 1, ts_day = 1, ts_time = 2\<rparr>\<rparr>"
  have h1: "row_Side ?r = ''SELL''" by (simp add: trade_def)
  have h2: "list_all v_well_formed ?vrows"
    by (simp add: v_well_formed_def v_trade_def v_get_base_currency_def quote_currencies_def
          endswith_def)
  have h3: "v_well_formed ?x"
    by (simp add: v_well_formed_def v_trade_def v_get_base_currency_def quote_currencies_def
          endswith_def)
  have h4: "v_row_Side ?x = ''SELL''" by (simp add: v_trade_def)
  have q: "queue_of (open_positions (match_rows ?rows)) (row_Base_Currency ?r) = [?l0, ?l1, ?l2]"
    by (simp add: app_eval queue_of_def)
  have c: "closed_positions (match_rows ?rows) = []"
    by (simp add: app_eval)
  have n: "slices_taken (Fin 2) [Fin 1, Fin 2, Fin 1] = 2"
    by (simp add: slices_taken_Cons slices_taken_Nil fgt_def)
  have r: "row_Executed ?r = Fin 2" "row_Base_Currency ?r = ''BTC''" "row_Price ?r = Fin 25"
    "row_Date ?r = \<lparr>ts_year = 2024, ts_month = 1, ts_day = 1, ts_time = 3\<rparr>"
    by (simp_all add: trade_def)
  have la: "lot_amounts [?l0, ?l1, ?l2] = [Fin 1, Fin 2, Fin 1]" by (simp add: lot_amounts_def)
  have s: "map (slice_at ''BTC'' (Fin 25) \<lparr>ts_year = 2024, ts_month = 1, ts_day = 1, ts_time = 3\<rparr>
                 (Fin 2) [?l0, ?l1, ?l2]) [0..<2] =
     [\<lparr> Base_Currency = ''BTC'', Open_Price = Fin 10, Close_Price = Fin 25, Amount = Fin 1,
        Open_Date = \<lparr>ts_year = 2024, ts_month = 1, ts_day = 1, ts_time = 0\<rparr>,
        Close_Date = \<lparr>ts_year = 2024, ts_month = 1, ts_day = 1, ts_time = 3\<rparr>,
        Profit_Loss_USDT = Fin 15 \<rparr>,
      \<lparr> Base_Currency = ''BTC'', Open_Price = Fin 20, Close_Price = Fin 25, Amount = Fin 1,
        Open_Date = \<lparr>ts_year = 2024, ts_month = 1, ts_day = 1, ts_time = 1\<rparr>,
        Close_Date = \<lparr>ts_year = 2024, ts_month = 1, ts_day = 1, ts_time = 3\<rparr>,
        Profit_Loss_USDT = Fin 5 \<rparr>]"
    by (simp add: slice_at_def lot_amounts_def fifo_take_def remaining_before_def fsub_def Let_def
          upt_conv_Cons numeral_2_eq_2)
  have qa: "queue_after (Fin 2) [?l0, ?l1, ?l2] 2 = [?l1\<lparr>amount := Fin 1\<rparr>, ?l2]"
    by (simp add: queue_after_def lot_amounts_def remaining_before_def numeral_2_eq_2)
  note t = sell_closes_fifo_slices[OF h1 h2 h3 h4, of ?rows]
  have app: "closed_positions (match_rows (?rows @ [?r])) =
        map (slice_at ''BTC'' (Fin 25) \<lparr>ts_year = 2024, ts_month = 1, ts_day = 1, ts_time = 3\<rparr>
               (Fin 2) [?l0, ?l1, ?l2]) [0..<2]
      \<and> queue_of (open_positions (match_rows (?rows @ [?r]))) ''BTC'' =
        queue_after (Fin 2) [?l0, ?l1, ?l2] 2"
    using t[THEN conjunct1] unfolding Let_def q unfolding c r la n by simp
  have v: "\<exists>st'. v_match_rows v_no_positions (?vrows @ [?x]) = Inr st' \<and>
             map v_Open_Price (v_closed_positions st') = [Fin 10, Fin 20] \<and>
             map v_Amount (v_closed_positions st') = [Fin 1, Fin 1] \<and>
             map v_Profit_Loss_USDT (v_closed_positions st') = [Fin 15, Fin 5] \<and>
             map v_amount (v_queue_of (v_open_positions st') ''BTC'') = [Fin 1, Fin 1]"
    by (simp add: vis_eval v_queue_of_def)
  show ?thesis using app n v unfolding s qa by simp
qed

lemma match_rows_append: "match_rows (rows @ rest) = foldl process_row (match_rows rows) rest"
  by (simp add: match_rows_def)

text \<open>
  C10. A row whose \<open>Side\<close> is neither \<open>BUY\<close> nor \<open>SELL\<close> changes nothing: the loop body
  returns the state it was given (open lots, closed lots and unmatched sells in app.py;
  open lots, closed lots and totals in visualizer.py) and raises nothing, so the whole loop
  gives the same result as on the frame without that row.
\<close>

theorem other_side_is_skipped:
  assumes "row_Side r \<noteq> ''BUY''" and "row_Side r \<noteq> ''SELL''"
    and "v_row_Side x \<noteq> ''BUY''" and "v_row_Side x \<noteq> ''SELL''"
  shows "process_row st r = st \<and>
         match_rows (rows @ r # rest) = match_rows (rows @ rest) \<and>
         v_process_row vst x = Inr vst \<and>
         v_match_rows vst (vrows @ x # vrest) = v_match_rows vst (vrows @ vrest)"
proof -
  have a: "process_row st' r = st'" for st'
    using assms(1,2) by (rule process_row_skip)
  have b: "v_process_row vst' x = Inr vst'" for vst'
    using assms(3,4) by (rule v_process_row_skip)
  have "match_rows (rows @ r # rest) = match_rows (rows @ rest)"
    by (simp add: match_rows_def a)
  moreover have "v_match_rows vst (vrows @ x # vrest) = v_match_rows vst (vrows @ vrest)"
    by (simp add: v_match_rows_append b split: sum.splits)
  ultimately show ?thesis using a b by simp
qed

theorem other_side_is_skipped_witness:
  "process_row no_positions (trade ''BTC'' ''HOLD'' 10 1 0) = no_positions \<and>
   v_process_row v_no_positions (v_trade ''BTC'' ''HOLD'' 10 1 0) = Inr v_no_positions"
proof -
  have h: "row_Side (trade ''BTC'' ''HOLD'' 10 1 0) \<noteq> ''BUY''"
       "row_Side (trade ''BTC'' ''HOLD'' 10 1 0) \<noteq> ''SELL''"
       "v_row_Side (v_trade ''BTC'' ''HOLD'' 10 1 0) \<noteq> ''BUY''"
       "v_row_Side (v_trade ''BTC'' ''HOLD'' 10 1 0) \<noteq> ''SELL''"
    by (simp_all add: trade_def v_trade_def)
  from other_side_is_skipped[OF h, of no_positions "[]" "[]" v_no_positions "[]" "[]"]
  show ?thesis by simp
qed

text \<open>
  C3, as the code has it. In app.py a SELL whose base asset has no queue, or an empty one,
  appends exactly that row to the list of unmatched sells, leaves the open and the closed
  positions as they were, raises nothing, and the loop goes on with the next row. In
  visualizer.py there is no list of unmatched sells: the same SELL leaves the whole state
  as it was, raises nothing, and the loop goes on with the next row.
\<close>

theorem unmatched_sell:
  assumes "row_Side r = ''SELL''"
    and "map_of (open_positions st) (row_Base_Currency r) = None \<or>
         map_of (open_positions st) (row_Base_Currency r) = Some []"
    and "v_row_Side x = ''SELL''"
    and "map_of (v_open_positions vst) (v_row_Base_Currency x) = None \<or>
         map_of (v_open_positions vst) (v_row_Base_Currency x) = Some []"
  shows "process_row st r = st\<lparr>orphan_sell_orders := orphan_sell_orders st @ [r]\<rparr> \<and>
         foldl process_row st (r # rest) =
           foldl process_row (st\<lparr>orphan_sell_orders := orphan_sell_orders st @ [r]\<rparr>) rest \<and>
         v_process_row vst x = Inr vst \<and>
         v_match_rows vst (x # vrest) = v_match_rows vst vrest"
proof -
  have q: "queue_of (open_positions st) (row_Base_Currency r) = []"
    using assms(2) by (auto simp: queue_of_def)
  have vq: "v_queue_of (v_open_positions vst) (v_row_Base_Currency x) = []"
    using assms(4) by (auto simp: v_queue_of_def)
  have a: "process_row st r = st\<lparr>orphan_sell_orders := orphan_sell_orders st @ [r]\<rparr>"
    using assms(1) q by (rule process_row_orphan)
  have b: "v_process_row vst x = Inr vst"
    using assms(3) vq by (rule v_process_row_orphan)
  show ?thesis by (simp add: a b)
qed

theorem unmatched_sell_witness:
  "match_rows [trade ''BTC'' ''SELL'' 25 1 0] =
     \<lparr>open_positions = [], closed_positions = [],
      orphan_sell_orders = [trade ''BTC'' ''SELL'' 25 1 0]\<rparr> \<and>
   v_match_rows v_no_positions [v_trade ''BTC'' ''SELL'' 25 1 0] = Inr v_no_positions"
proof -
  have h1: "row_Side (trade ''BTC'' ''SELL'' 25 1 0) = ''SELL''" by (simp add: trade_def)
  have h2: "map_of (open_positions no_positions) (row_Base_Currency (trade ''BTC'' ''SELL'' 25 1 0)) = None \<or>
        map_of (open_positions no_positions) (row_Base_Currency (trade ''BTC'' ''SELL'' 25 1 0)) = Some []"
    by (simp add: no_positions_def)
  have h3: "v_row_Side (v_trade ''BTC'' ''SELL'' 25 1 0) = ''SELL''" by (simp add: v_trade_def)
  have h4: "map_of (v_open_positions v_no_positions) (v_row_Base_Currency (v_trade ''BTC'' ''SELL'' 25 1 0)) = None \<or>
        map_of (v_open_positions v_no_positions) (v_row_Base_Currency (v_trade ''BTC'' ''SELL'' 25 1 0)) = Some []"
    by (simp add: v_no_positions_def)
  from unmatched_sell[OF h1 h2 h3 h4, of "[]" "[]"]
  show ?thesis by (simp add: match_rows_def no_positions_def)
qed

text \<open>
  The claim as stated fails on visualizer.py: for a frame that holds one SELL and nothing
  else, \<open>process_orders\<close> returns what it returns for the empty frame: no open position,
  no closed position, both totals zero, and no record of the sell.
\<close>

theorem unmatched_sell_counterexample:
  "v_process_orders v_sort_values_by_date [csv_trade ''BTCUSDT'' ''SELL'' 25 ''1BTC'' 0] =
     Inr ([], [], Fin 0, Fin 0) \<and>
   v_process_orders v_sort_values_by_date [] = Inr ([], [], Fin 0, Fin 0)"
  by (simp add: v_process_orders_def csv_eval vis_eval v_first_quote.simps)

lemma sorts_by_date_sort_key: "sorts_by_date sort_values_by_date"
  by (simp add: sorts_by_date_def sort_values_by_date_def)

lemma normalize_rows:
  "normalize df = Inr rows \<Longrightarrow> rows = List.map_filter normalize_row df"
  by (simp add: normalize_def split: if_splits)

text \<open>
  C2, as the code has it. The amounts are doubles and the loop subtracts them as doubles:
  of a lot that is closed in part, the rounded difference stays open, so the closed and
  the open amounts of an asset need not add up to the amount bought. They do when the
  subtractions are exact, which is the case when all executed amounts lie on one binary
  grid (whole multiples of \<open>2^(-j)\<close> that are not negative and below \<open>2^53\<close> steps; for
  \<open>j = 0\<close>, whole numbers below \<open>2^53\<close>): then \<open>process_orders\<close> (app.py) returns, and
  for every base asset the amounts of its closed positions plus the amounts of its open
  lots are the amounts of its BUY rows; all these amounts are numbers. An unmatched sell
  changes neither side of the equation and a sell larger than the open lots closes what is
  there, so the equation needs neither of the claim's two provisos.
\<close>

theorem amounts_conserved:
  assumes "sorts_by_date sort_values"
    and "normalize df = Inr rows"
    and "list_all (\<lambda>x. on_grid j (row_Executed x)) rows"
  shows "\<exists>closed_df open_dict orphans.
     process_orders sort_values df = Inr (closed_df, open_dict, orphans) \<and>
     list_all (\<lambda>c. is_fin (Amount c)) closed_df \<and>
     (\<forall>X. list_all (\<lambda>l. is_fin (amount l)) (queue_of open_dict X) \<and>
          closed_amount closed_df X + open_amount open_dict X = bought rows X)"
proof -
  have perm: "mset (sort_values rows) = mset rows"
    using assms(1) by (simp add: sorts_by_date_def)
  have "list_all (\<lambda>x. on_grid j (row_Executed x)) (sort_values rows)"
    using assms(3) perm by (metis list_all_iff mset_eq_setD)
  then have c: "conserved j (match_rows (sort_values rows)) (sort_values rows)"
    by (rule conserved_match_rows)
  have f: "list_all (\<lambda>l. is_fin (amount l)) (queue_of (open_positions (match_rows (sort_values rows))) X)" for X
    using c by (auto simp: conserved_def list_all_iff on_grid_def)
  have b: "bought (sort_values rows) X = bought rows X" for X
    using perm by (rule bought_mset)
  show ?thesis
    using c f b by (simp add: process_orders_def assms(2) conserved_def Let_def)
qed

text \<open>
  The split example of the specification: buy 3 at 10, sell 1 at 15. One unit is closed,
  two stay open, three were bought.
\<close>

theorem amounts_conserved_witness:
  "process_orders sort_values_by_date
     [csv_trade ''BTCUSDT'' ''BUY'' 10 ''3BTC'' 0, csv_trade ''BTCUSDT'' ''SELL'' 15 ''1BTC'' 1] =
   Inr ([\<lparr> Base_Currency = ''BTC'', Open_Price = Fin 10, Close_Price = Fin 15, Amount = Fin 1,
            Open_Date = \<lparr>ts_year = 2024, ts_month = 1, ts_day = 1, ts_time = 0\<rparr>,
            Close_Date = \<lparr>ts_year = 2024, ts_month = 1, ts_day = 1, ts_time = 1\<rparr>,
            Profit_Loss_USDT = Fin 5 \<rparr>],
        [(''BTC'', [\<lparr>price = Fin 10, amount = Fin 2,
                     date = \<lparr>ts_year = 2024, ts_month = 1, ts_day = 1, ts_time = 0\<rparr>\<rparr>])],
        [])
   \<and> bought (List.map_filter normalize_row
        [csv_trade ''BTCUSDT'' ''BUY'' 10 ''3BTC'' 0, csv_trade ''BTCUSDT'' ''SELL'' 15 ''1BTC'' 1])
        ''BTC'' = 3"
proof -
  let ?df = "[csv_trade ''BTCUSDT'' ''BUY'' 10 ''3BTC'' 0, csv_trade ''BTCUSDT'' ''SELL'' 15 ''1BTC'' 1]"
  have h2: "normalize ?df = Inr (List.map_filter normalize_row ?df)"
    by (simp add: normalize_def csv_trade_def str_accessible_def is_text_def)
  have h3: "list_all (\<lambda>x. on_grid 0 (row_Executed x)) (List.map_filter normalize_row ?df)"
    by (simp add: csv_eval on_grid_def)
  have run: "process_orders sort_values_by_date ?df =
   Inr ([\<lparr> Base_Currency = ''BTC'', Open_Price = Fin 10, Close_Price = Fin 15, Amount = Fin 1,
            Open_Date = \<lparr>ts_year = 2024, ts_month = 1, ts_day = 1, ts_time = 0\<rparr>,
            Close_Date = \<lparr>ts_year = 2024, ts_month = 1, ts_day = 1, ts_time = 1\<rparr>,
            Profit_Loss_USDT = Fin 5 \<rparr>],
        [(''BTC'', [\<lparr>price = Fin 10, amount = Fin 2,
                     date = \<lparr>ts_year = 2024, ts_month = 1, ts_day = 1, ts_time = 0\<rparr>\<rparr>])],
        [])"
    by (simp add: process_orders_def csv_eval app_eval)
  from amounts_conserved[OF sorts_by_date_sort_key h2 h3]
  obtain c opn orph where r: "process_orders sort_values_by_date ?df = Inr (c, opn, orph)"
    and eq: "closed_amount c ''BTC'' + open_amount opn ''BTC'' =
             bought (List.map_filter normalize_row ?df) ''BTC''"
    by blast
  from r have c: "c = [\<lparr> Base_Currency = ''BTC'', Open_Price = Fin 10, Close_Price = Fin 15, Amount = Fin 1,
            Open_Date = \<lparr>ts_year = 2024, ts_month = 1, ts_day = 1, ts_time = 0\<rparr>,
            Close_Date = \<lparr>ts_year = 2024, ts_month = 1, ts_day = 1, ts_time = 1\<rparr>,
            Profit_Loss_USDT = Fin 5 \<rparr>]"
    and opn: "opn = [(''BTC'', [\<lparr>price = Fin 10, amount = Fin 2,
                     date = \<lparr>ts_year = 2024, ts_month = 1, ts_day = 1, ts_time = 0\<rparr>\<rparr>])]"
    unfolding run by simp_all
  have "closed_amount c ''BTC'' + open_amount opn ''BTC'' = 3"
    unfolding c opn by (simp add: closed_amount_def open_amount_def queue_of_def)
  then have "bought (List.map_filter normalize_row ?df) ''BTC'' = 3"
    using eq by simp
  then show ?thesis using run by blast
qed

text \<open>
  The claim as stated fails: buys of 0.1 and of 0.7, then a sell of 0.3, all at the price
  10. No sell is unmatched and none exceeds the open lots. The sell closes the first lot
  (0.1, as a double) and then, with the double \<open>0.3 - 0.1 = 0.19999999999999998\<close> left,
  a part of the second; of the second lot the double \<open>0.7 - 0.19999999999999998 = 0.5\<close>
  stays open. The closed and the open amounts add up to \<open>2^(-55)\<close> more than was bought.
\<close>

theorem amounts_conserved_counterexample:
  "process_orders sort_values_by_date
     [csv_trade ''BTCUSDT'' ''BUY'' 10 ''0.1BTC'' 0,
      csv_trade ''BTCUSDT'' ''BUY'' 10 ''0.7BTC'' 1,
      csv_trade ''BTCUSDT'' ''SELL'' 10 ''0.3BTC'' 2] =
   Inr ([\<lparr> Base_Currency = ''BTC'', Open_Price = Fin 10, Close_Price = Fin 10,
            Amount = Fin (3602879701896397 / 36028797018963968),
            Open_Date = \<lparr>ts_year = 2024, ts_month = 1, ts_day = 1, ts_time = 0\<rparr>,
            Close_Date = \<lparr>ts_year = 2024, ts_month = 1, ts_day = 1, ts_time = 2\<rparr>,
            Profit_Loss_USDT = Fin 0 \<rparr>,
         \<lparr> Base_Currency = ''BTC'', Open_Price = Fin 10, Close_Price = Fin 10,
            Amount = Fin (7205759403792793 / 36028797018963968),
            Open_Date = \<lparr>ts_year = 2024, ts_month = 1, ts_day = 1, ts_time = 1\<rparr>,
            Close_Date = \<lparr>ts_year = 2024, ts_month = 1, ts_day = 1, ts_time = 2\<rparr>,
            Profit_Loss_USDT = Fin 0 \<rparr>],
        [(''BTC'', [\<lparr>price = Fin 10, amount = Fin (1 / 2),
                     date = \<lparr>ts_year = 2024, ts_month = 1, ts_day = 1, ts_time = 1\<rparr>\<rparr>])],
        [])
   \<and> closed_amount
        [\<lparr> Base_Currency = ''BTC'', Open_Price = Fin 10, Close_Price = Fin 10,
            Amount = Fin (3602879701896397 / 36028797018963968),
            Open_Date = \<lparr>ts_year = 2024, ts_month = 1, ts_day = 1, ts_time = 0\<rparr>,
            Close_Date = \<lparr>ts_year = 2024, ts_month = 1, ts_day = 1, ts_time = 2\<rparr>,
            Profit_Loss_USDT = Fin 0 \<rparr>,
         \<lparr> Base_Currency = ''BTC'', Open_Price = Fin 10, Close_Price = Fin 10,
            Amount = Fin (7205759403792793 / 36028797018963968),
            Open_Date = \<lparr>ts_year = 2024, ts_month = 1, ts_day = 1, ts_time = 1\<rparr>,
            Close_Date = \<lparr>ts_year = 2024, ts_month = 1, ts_day = 1, ts_time = 2\<rparr>,
            Profit_Loss_USDT = Fin 0 \<rparr>] ''BTC''
     + open_amount
        [(''BTC'', [\<lparr>price = Fin 10, amount = Fin (1 / 2),
                     date = \<lparr>ts_year = 2024, ts_month = 1, ts_day = 1, ts_time = 1\<rparr>\<rparr>])] ''BTC''
     - bought (List.map_filter normalize_row
        [csv_trade ''BTCUSDT'' ''BUY'' 10 ''0.1BTC'' 0,
         csv_trade ''BTCUSDT'' ''BUY'' 10 ''0.7BTC'' 1,
         csv_trade ''BTCUSDT'' ''SELL'' 10 ''0.3BTC'' 2]) ''BTC''
     = 1 / 36028797018963968"
proof -
  have rows: "List.map_filter normalize_row
        [csv_trade ''BTCUSDT'' ''BUY'' 10 ''0.1BTC'' 0,
         csv_trade ''BTCUSDT'' ''BUY'' 10 ''0.7BTC'' 1,
         csv_trade ''BTCUSDT'' ''SELL'' 10 ''0.3BTC'' 2] =
     [\<lparr> row_Pair = ''BTCUSDT'', row_Side = ''BUY'', row_Price = Fin 10,
        row_Executed = Fin (3602879701896397 / 36028797018963968),
        row_Amount = Fin (3602879701896397 / 36028797018963968),
        row_Date = \<lparr>ts_year = 2024, ts_month = 1, ts_day = 1, ts_time = 0\<rparr>,
        row_Quote_Currency = ''USDT'', row_Base_Currency = ''BTC'' \<rparr>,
      \<lparr> row_Pair = ''BTCUSDT'', row_Side = ''BUY'', row_Price = Fin 10,
        row_Executed = Fin (3152519739159347 / 4503599627370496),
        row_Amount = Fin (3152519739159347 / 4503599627370496),
        row_Date = \<lparr>ts_year = 2024, ts_month = 1, ts_day = 1, ts_time = 1\<rparr>,
        row_Quote_Currency = ''USDT'', row_Base_Currency = ''BTC'' \<rparr>,
      \<lparr> row_Pair = ''BTCUSDT'', row_Side = ''SELL'', row_Price = Fin 10,
        row_Executed = Fin (5404319552844595 / 18014398509481984),
        row_Amount = Fin (5404319552844595 / 18014398509481984),
        row_Date = \<lparr>ts_year = 2024, ts_month = 1, ts_day = 1, ts_time = 2\<rparr>,
        row_Quote_Currency = ''USDT'', row_Base_Currency = ''BTC'' \<rparr>]"
    by (simp add: csv_eval round64_tenth round64_seven_tenths round64_three_tenths)
  have n: "normalize
        [csv_trade ''BTCUSDT'' ''BUY'' 10 ''0.1BTC'' 0,
         csv_trade ''BTCUSDT'' ''BUY'' 10 ''0.7BTC'' 1,
         csv_trade ''BTCUSDT'' ''SELL'' 10 ''0.3BTC'' 2] =
       Inr (List.map_filter normalize_row
        [csv_trade ''BTCUSDT'' ''BUY'' 10 ''0.1BTC'' 0,
         csv_trade ''BTCUSDT'' ''BUY'' 10 ''0.7BTC'' 1,
         csv_trade ''BTCUSDT'' ''SELL'' 10 ''0.3BTC'' 2])"
    by (simp add: normalize_def csv_trade_def str_accessible_def is_text_def)
  show ?thesis
    unfolding process_orders_def n sum.case rows
    by (simp add: sort_values_by_date_def ts_key_def match_rows_def no_positions_def Let_def
          process_row_def close_fifo_full close_fifo_part close_fifo_stop fgt_def fsub_def
          close_slice_def round64_diff_1 round64_diff_2
          closed_amount_def open_amount_def queue_of_def bought_def)
qed

text \<open>
  The rounding also decides the branch the loop takes: buys of 0.1 and of 0.2, then a sell
  of 0.3. After the first lot the double \<open>0.19999999999999998\<close> is left of the sell,
  which is less than the double for 0.2: the second lot is closed in part, and \<open>2^(-55)\<close>
  of it stays open.
\<close>

lemma rounding_decides_branch:
  "process_orders sort_values_by_date
     [csv_trade ''BTCUSDT'' ''BUY'' 10 ''0.1BTC'' 0,
      csv_trade ''BTCUSDT'' ''BUY'' 10 ''0.2BTC'' 1,
      csv_trade ''BTCUSDT'' ''SELL'' 10 ''0.3BTC'' 2] =
   Inr ([\<lparr> Base_Currency = ''BTC'', Open_Price = Fin 10, Close_Price = Fin 10,
            Amount = Fin (3602879701896397 / 36028797018963968),
            Open_Date = \<lparr>ts_year = 2024, ts_month = 1, ts_day = 1, ts_time = 0\<rparr>,
            Close_Date = \<lparr>ts_year = 2024, ts_month = 1, ts_day = 1, ts_time = 2\<rparr>,
            Profit_Loss_USDT = Fin 0 \<rparr>,
         \<lparr> Base_Currency = ''BTC'', Open_Price = Fin 10, Close_Price = Fin 10,
            Amount = Fin (7205759403792793 / 36028797018963968),
            Open_Date = \<lparr>ts_year = 2024, ts_month = 1, ts_day = 1, ts_time = 1\<rparr>,
            Close_Date = \<lparr>ts_year = 2024, ts_month = 1, ts_day = 1, ts_time = 2\<rparr>,
            Profit_Loss_USDT = Fin 0 \<rparr>],
        [(''BTC'', [\<lparr>price = Fin 10, amount = Fin (1 / 36028797018963968),
                     date = \<lparr>ts_year = 2024, ts_month = 1, ts_day = 1, ts_time = 1\<rparr>\<rparr>])],
        [])"
  by (simp add: process_orders_def csv_eval app_eval
        round64_tenth round64_fifth round64_three_tenths round64_diff_1 round64_diff_3)

subsection \<open>Claims about normalization\<close>

lemma str_extract_None: "str_extract s = None \<longleftrightarrow> list_all (\<lambda>c. \<not> is_digit c) s"
proof (cases "dropWhile (\<lambda>c. \<not> is_digit c) s = []")
  case True
  then have "str_extract s = None" by (simp add: str_extract_def del: dropWhile_eq_Nil_conv)
  moreover have "list_all (\<lambda>c. \<not> is_digit c) s"
    using True by (simp add: dropWhile_eq_Nil_conv list_all_iff)
  ultimately show ?thesis by simp
next
  case False
  obtain rest where rest: "rest = dropWhile is_digit (dropWhile (\<lambda>c. \<not> is_digit c) s)" by simp
  have "str_extract s \<noteq> None"
  proof (cases rest)
    case Nil
    then show ?thesis using False rest
      by (simp add: str_extract_def Let_def del: dropWhile_eq_Nil_conv)
  next
    case (Cons d rest')
    then show ?thesis using False rest
      by (cases rest') (simp_all add: str_extract_def Let_def del: dropWhile_eq_Nil_conv)
  qed
  moreover have "\<not> list_all (\<lambda>c. \<not> is_digit c) s"
    using False by (simp add: dropWhile_eq_Nil_conv list_all_iff)
  ultimately show ?thesis by simp
qed

lemma str_accessible_mem: "r \<in> set df \<Longrightarrow> is_text (f r) \<Longrightarrow> str_accessible (map f df)"
  by (auto simp: str_accessible_def list_ex_iff)

lemma normalize_ok:
  assumes "list_all (\<lambda>x. csv_Price x \<noteq> None \<and> csv_Date x \<noteq> None) df"
    and "str_accessible (map csv_Executed df)" and "str_accessible (map csv_Amount df)"
  shows "normalize df = Inr (List.map_filter normalize_row df)"
  using assms by (auto simp: normalize_def list_ex_iff list_all_iff)

lemma normalize_row_Some:
  assumes "csv_Price r \<noteq> None" "csv_Date r \<noteq> None"
  shows "\<exists>x. normalize_row r = Some x \<and>
             row_Executed x = astype_float (extract_cell (csv_Executed r))"
  using assms by (auto simp: normalize_row_def)

lemma map_filter_mem: "r \<in> set df \<Longrightarrow> f r = Some x \<Longrightarrow> x \<in> set (List.map_filter f df)"
  by (force simp: List.map_filter_def)

lemma v_first_error_None:
  "v_first_error df = None \<Longrightarrow> r \<in> set df \<Longrightarrow> \<exists>b. v_get_base_currency (csv_Pair r) = Inr b"
  by (induction df) (auto split: sum.splits)

lemma v_normalize_ok:
  assumes "list_all (\<lambda>x. csv_Price x \<noteq> None \<and> csv_Date x \<noteq> None) df"
    and "str_accessible (map csv_Executed df)" and "str_accessible (map csv_Amount df)"
    and "v_first_error df = None"
  shows "v_normalize df = Inr (List.map_filter v_normalize_row df)"
  using assms by (auto simp: v_normalize_def list_ex_iff list_all_iff)

lemma v_normalize_row_Some:
  assumes "csv_Price r \<noteq> None" "csv_Date r \<noteq> None" "v_get_base_currency (csv_Pair r) = Inr b"
  shows "\<exists>x. v_normalize_row r = Some x \<and>
             v_row_Executed x = astype_float (extract_cell (csv_Executed r))"
  using assms by (auto simp: v_normalize_row_def)

text \<open>
  C6, as the code has it. A row whose \<open>Executed\<close> cell is a text that holds no digit does
  not make normalization fail: the column has the accessor \<open>.str\<close> (it has a text cell),
  \<open>str.extract\<close> finds no match in the text, the cell becomes \<open>NaN\<close>, and
  \<open>astype(float)\<close> keeps it. When the other columns of the frame convert (the \<open>Price\<close>
  and \<open>Date(UTC)\<close> cells, and an \<open>Amount\<close> column that has a text cell), normalization
  returns a frame in which that row has the executed amount \<open>NaN\<close>, in both scripts (in
  visualizer.py when every pair has a known quote), and \<open>process_orders\<close> of app.py
  returns its three collections: no error is raised for the row.
\<close>

theorem missing_number_becomes_nan:
  assumes "csv_Executed r = Text s" and "list_all (\<lambda>c. \<not> is_digit c) s"
    and "r \<in> set df"
    and "list_all (\<lambda>x. csv_Price x \<noteq> None \<and> csv_Date x \<noteq> None) df"
    and "str_accessible (map csv_Amount df)"
  shows "(\<exists>rows x. normalize df = Inr rows \<and> normalize_row r = Some x \<and> x \<in> set rows \<and>
            row_Executed x = NaN) \<and>
         (\<exists>closed_df open_dict orphans.
            process_orders sort_values df = Inr (closed_df, open_dict, orphans)) \<and>
         (v_first_error df = None \<longrightarrow>
            (\<exists>vrows y. v_normalize df = Inr vrows \<and> v_normalize_row r = Some y \<and> y \<in> set vrows \<and>
               v_row_Executed y = NaN))"
proof -
  have none: "extract_cell (csv_Executed r) = None"
    using assms(1,2) by (simp add: extract_cell_def str_extract_None)
  have ex: "str_accessible (map csv_Executed df)"
    using assms(1,3) by (intro str_accessible_mem[of r]) (simp_all add: is_text_def)
  have cells: "csv_Price r \<noteq> None" "csv_Date r \<noteq> None"
    using assms(3,4) by (auto simp: list_all_iff)
  have n: "normalize df = Inr (List.map_filter normalize_row df)"
    using assms(4) ex assms(5) by (rule normalize_ok)
  from normalize_row_Some[OF cells]
  obtain x where x: "normalize_row r = Some x" "row_Executed x = NaN"
    by (auto simp: none astype_float_def)
  have 1: "\<exists>rows x. normalize df = Inr rows \<and> normalize_row r = Some x \<and> x \<in> set rows \<and>
            row_Executed x = NaN"
    using n x map_filter_mem[of r df normalize_row x, OF assms(3) x(1)] by blast
  have 2: "\<exists>closed_df open_dict orphans.
            process_orders sort_values df = Inr (closed_df, open_dict, orphans)"
    by (simp add: process_orders_def n Let_def)
  have 3: "\<exists>vrows y. v_normalize df = Inr vrows \<and> v_normalize_row r = Some y \<and> y \<in> set vrows \<and>
               v_row_Executed y = NaN" if fe: "v_first_error df = None"
  proof -
    from v_first_error_None[OF fe assms(3)]
    obtain b where b: "v_get_base_currency (csv_Pair r) = Inr b" by blast
    from v_normalize_row_Some[OF cells b]
    obtain y where y: "v_normalize_row r = Some y" "v_row_Executed y = NaN"
      by (auto simp: none astype_float_def)
    show ?thesis
      using v_normalize_ok[OF assms(4) ex assms(5) fe] y
        map_filter_mem[of r df v_normalize_row y, OF assms(3) y(1)] by blast
  qed
  show ?thesis using 1 2 3 by blast
qed

theorem missing_number_becomes_nan_witness:
  "normalize [csv_trade ''BTCUSDT'' ''BUY'' 10 ''BTC'' 0] =
     Inr [\<lparr> row_Pair = ''BTCUSDT'', row_Side = ''BUY'', row_Price = Fin 10, row_Executed = NaN,
            row_Amount = NaN,
            row_Date = \<lparr>ts_year = 2024, ts_month = 1, ts_day = 1, ts_time = 0\<rparr>,
            row_Quote_Currency = ''USDT'', row_Base_Currency = ''BTC'' \<rparr>]"
proof -
  let ?r = "csv_trade ''BTCUSDT'' ''BUY'' 10 ''BTC'' 0"
  have h0: "csv_Executed ?r = Text ''BTC''" by (simp add: csv_trade_def)
  have h1: "list_all (\<lambda>c. \<not> is_digit c) ''BTC''" by (simp add: is_digit_def)
  have h2: "?r \<in> set [?r]" by simp
  have h3: "list_all (\<lambda>x. csv_Price x \<noteq> None \<and> csv_Date x \<noteq> None) [?r]"
    by (simp add: csv_trade_def)
  have h4: "str_accessible (map csv_Amount [?r])"
    by (simp add: csv_trade_def str_accessible_def is_text_def)
  have e: "normalize [?r] =
     Inr [\<lparr> row_Pair = ''BTCUSDT'', row_Side = ''BUY'', row_Price = Fin 10, row_Executed = NaN,
            row_Amount = NaN,
            row_Date = \<lparr>ts_year = 2024, ts_month = 1, ts_day = 1, ts_time = 0\<rparr>,
            row_Quote_Currency = ''USDT'', row_Base_Currency = ''BTC'' \<rparr>]"
    by (simp add: csv_eval)
  from missing_number_becomes_nan[OF h0 h1 h2 h3 h4, of sort_values_by_date]
  show ?thesis by (simp only: e)
qed

text \<open>
  The claim as stated fails: a buy, a sell whose \<open>Executed\<close> text has no number, and a
  well-formed sell. \<open>process_orders\<close> of app.py raises nothing and returns a matching
  result: the row without a number closes nothing, the last row closes the lot.
\<close>

theorem missing_number_counterexample:
  "process_orders sort_values_by_date
     [csv_trade ''BTCUSDT'' ''BUY'' 10 ''1BTC'' 0,
      csv_trade ''BTCUSDT'' ''SELL'' 15 ''BTC'' 1,
      csv_trade ''BTCUSDT'' ''SELL'' 15 ''1BTC'' 2] =
   Inr ([\<lparr> Base_Currency = ''BTC'', Open_Price = Fin 10, Close_Price = Fin 15, Amount = Fin 1,
            Open_Date = \<lparr>ts_year = 2024, ts_month = 1, ts_day = 1, ts_time = 0\<rparr>,
            Close_Date = \<lparr>ts_year = 2024, ts_month = 1, ts_day = 1, ts_time = 2\<rparr>,
            Profit_Loss_USDT = Fin 5 \<rparr>],
        [(''BTC'', [])],
        [])"
  by (simp add: process_orders_def csv_eval app_eval)

text \<open>
  A file in which no \<open>Executed\<close> cell is a text (every cell empty, or every cell a bare
  number) is another matter: \<open>read_csv\<close> converts the column, and the accessor \<open>.str\<close>
  raises \<open>AttributeError\<close> in both scripts, whatever the cells hold.
\<close>

lemma numeric_column_raises:
  assumes "df \<noteq> []" and "list_all (\<lambda>x. csv_Price x \<noteq> None) df"
    and "list_all (\<lambda>x. \<not> is_text (csv_Executed x)) df"
  shows "process_orders sort_values df = Inl AttributeError \<and>
         v_process_orders v_sort_values df = Inl AttributeError"
proof -
  have "\<not> str_accessible (map csv_Executed df)"
    using assms(1,3) by (auto simp: str_accessible_def list_ex_iff list_all_iff)
  moreover have "\<not> list_ex (\<lambda>r. csv_Price r = None) df"
    using assms(2) by (auto simp: list_ex_iff list_all_iff)
  ultimately show ?thesis
    by (simp add: process_orders_def v_process_orders_def normalize_def v_normalize_def)
qed

subsection \<open>Claims about the page\<close>

lemmas stats_eval =
  calculate_statistics_def unpack_two_def nansum_def nanmean_def nanstd_def dropna_def
  cumsum_def groupby_def to_period_M_def to_period_Q_def dt_year_def replace_zero_def
  cost_basis_def profit_loss_pct_def plot_monthly_percentage_bar_def open_positions_to_df_def
  manual_closed_op_def time_column_def profit_column_def fgt_def fsub_def Let_def

lemma submitted_ops_Nil: "submitted_ops forms i [] = []"
  by (simp add: submitted_ops_def List.map_filter_simps)

lemma submitted_ops_Cons:
  "submitted_ops forms i (sell_order # rest) =
     (case forms i of
        None \<Rightarrow> submitted_ops forms (Suc i) rest
      | Some (p, d) \<Rightarrow> manual_closed_op sell_order p d # submitted_ops forms (Suc i) rest)"
proof -
  have e: "[i..<i + length (sell_order # rest)] = i # [Suc i..<Suc i + length rest]"
    by (simp add: upt_conv_Cons del: upt_Suc)
  show ?thesis
    unfolding submitted_ops_def e
    by (simp add: List.map_filter_simps split: option.splits)
qed

lemma submit_forms_ops:
  "manual_missing_operations (submit_forms forms i orphans ss) =
     (if submitted_ops forms i orphans = [] then manual_missing_operations ss
      else Some ((case manual_missing_operations ss of None \<Rightarrow> [] | Some ops \<Rightarrow> ops) @
                 submitted_ops forms i orphans))"
  by (induction orphans arbitrary: i ss)
     (auto simp: submitted_ops_Nil submitted_ops_Cons split: option.splits)

lemma calculate_statistics_frame:
  "calculate_statistics closed_df = Stats_and_frame s frame \<Longrightarrow> map position frame = closed_df"
  by (auto simp: calculate_statistics_def Let_def comp_def split: if_splits)

text \<open>
  C4. On the empty trade set \<open>process_orders\<close> returns three empty collections, as the
  claim says. The statistics stage does not yield "no statistics available":
  \<open>calculate_statistics\<close> returns the empty dict alone for an empty frame of closed
  positions, and \<open>main\<close> unpacks what it returns into two names, which raises
  \<open>ValueError\<close>. So does every run whose matching closes nothing.
\<close>

theorem no_closed_positions_raises:
  assumes "process_orders sort_values df = Inr ([], open_dict, orphans)"
  shows "snd (app_main sort_values (Some df) forms tp pt ss) =
           Inl (ValueError ''not enough values to unpack (expected 2, got 0)'')"
  using assms by (simp add: app_main_def calculate_statistics_def unpack_two_def Let_def)

theorem no_closed_positions_raises_witness:
  "process_orders sort_values_by_date [] = Inr ([], [], []) \<and>
   snd (app_main sort_values_by_date (Some []) (\<lambda>i. None) Month Absolute
          \<lparr>manual_missing_operations = None\<rparr>) =
     Inl (ValueError ''not enough values to unpack (expected 2, got 0)'')"
proof -
  have h: "process_orders sort_values_by_date [] = Inr ([], [], [])"
    by (simp add: process_orders_def csv_eval app_eval)
  from no_closed_positions_raises[OF h] h show ?thesis by simp
qed

lemma submitted_ops_mem:
  "i < length orphans \<Longrightarrow> forms (k + i) = Some (p, d) \<Longrightarrow>
   manual_closed_op (orphans ! i) p d \<in> set (submitted_ops forms k orphans)"
proof (induction orphans arbitrary: i k)
  case Nil
  then show ?case by simp
next
  case (Cons sell_order rest)
  show ?case
  proof (cases i)
    case 0
    then show ?thesis using Cons.prems by (simp add: submitted_ops_Cons)
  next
    case (Suc m)
    then have "manual_closed_op (rest ! m) p d \<in> set (submitted_ops forms (Suc k) rest)"
      using Cons.prems Cons.IH[of m "Suc k"] by simp
    then show ?thesis using Suc by (auto simp: submitted_ops_Cons split: option.splits)
  qed
qed

lemma manual_operations_table_submit:
  "manual_operations_table (submit_forms forms i orphans ss) =
     (if submitted_ops forms i orphans = [] then manual_operations_table ss
      else Some ((case manual_missing_operations ss of None \<Rightarrow> [] | Some ops \<Rightarrow> ops) @
                 submitted_ops forms i orphans))"
  by (simp add: manual_operations_table_def submit_forms_ops)

lemma app_main_state:
  "process_orders sort_values df = Inr (closed_df, open_dict, orphans) \<Longrightarrow>
   fst (app_main sort_values (Some df) forms tp pt ss) = submit_forms forms 0 orphans ss"
  by (simp add: app_main_def Let_def split: sum.splits prod.splits)

text \<open>
  C5, as the code has it. A submitted form appends the manual closed operation of its
  unmatched sell (amount: the executed amount of the sell; open price: the submitted buy
  price; profit: amount times close price minus open price) to the list
  \<open>manual_missing_operations\<close> of the session state, and \<open>main\<close> writes that list in
  a table of its own. This is so in every run in which \<open>process_orders\<close> returns, whatever
  the statistics do afterwards. The closed positions are not touched: when matching has
  closed at least one position, the statistics, the summary by period, the cumulative
  series and the monthly percentages are computed from the frame that
  \<open>calculate_statistics\<close> returns for the closed positions \<open>process_orders\<close> returned,
  the positions of that frame are these closed positions, and the manual operations are
  shown beside them, in their own table.
\<close>

theorem manual_operations_kept_apart:
  assumes "process_orders sort_values df = Inr (closed_df, open_dict, orphans)"
  shows "manual_missing_operations (fst (app_main sort_values (Some df) forms tp pt ss)) =
       (if submitted_ops forms 0 orphans = [] then manual_missing_operations ss
        else Some ((case manual_missing_operations ss of None \<Rightarrow> [] | Some ops \<Rightarrow> ops) @
                   submitted_ops forms 0 orphans)) \<and>
     (\<forall>i<length orphans. \<forall>p d. forms i = Some (p, d) \<longrightarrow>
        manual_closed_op (orphans ! i) p d \<in> set (submitted_ops forms 0 orphans)) \<and>
     manual_operations_table (fst (app_main sort_values (Some df) forms tp pt ss)) =
       (if submitted_ops forms 0 orphans = [] then manual_operations_table ss
        else Some ((case manual_missing_operations ss of None \<Rightarrow> [] | Some ops \<Rightarrow> ops) @
                   submitted_ops forms 0 orphans)) \<and>
     (closed_df \<noteq> [] \<longrightarrow>
        (\<exists>s frame page.
           calculate_statistics closed_df = Stats_and_frame s frame \<and>
           map position frame = closed_df \<and>
           snd (app_main sort_values (Some df) forms tp pt ss) = Inr (Some page) \<and>
           shown_closed_positions page = take 50 closed_df \<and>
           shown_manual_operations page =
             manual_operations_table (fst (app_main sort_values (Some df) forms tp pt ss)) \<and>
           shown_statistics page = Some s \<and>
           profit_summary page =
             map (\<lambda>(k, g). (k, \<lparr> Sum_col = nansum (map (profit_column pt) g),
                                  Mean_col = nanmean (map (profit_column pt) g),
                                  Std_Dev = nanstd (map (profit_column pt) g) \<rparr>))
               (groupby (time_column tp) frame) \<and>
           cumulative_profit page =
             zip (map (\<lambda>r. Close_Date (position r)) frame) (cumsum (map (profit_column pt) frame)) \<and>
           monthly_profit_pct page = plot_monthly_percentage_bar frame)) \<and>
     Amount (manual_closed_op sell_order p d) = row_Executed sell_order \<and>
     Open_Price (manual_closed_op sell_order p d) = p \<and>
     Profit_Loss_USDT (manual_closed_op sell_order p d) =
       fmul (row_Executed sell_order) (fsub (row_Price sell_order) p)"
proof -
  have st: "fst (app_main sort_values (Some df) forms tp pt ss) = submit_forms forms 0 orphans ss"
    using assms by (rule app_main_state)
  have 1: "manual_missing_operations (fst (app_main sort_values (Some df) forms tp pt ss)) =
       (if submitted_ops forms 0 orphans = [] then manual_missing_operations ss
        else Some ((case manual_missing_operations ss of None \<Rightarrow> [] | Some ops \<Rightarrow> ops) @
                   submitted_ops forms 0 orphans))"
    unfolding st by (rule submit_forms_ops)
  have 2: "\<forall>i<length orphans. \<forall>p d. forms i = Some (p, d) \<longrightarrow>
        manual_closed_op (orphans ! i) p d \<in> set (submitted_ops forms 0 orphans)"
    using submitted_ops_mem[of _ orphans forms 0] by simp
  have 3: "manual_operations_table (fst (app_main sort_values (Some df) forms tp pt ss)) =
       (if submitted_ops forms 0 orphans = [] then manual_operations_table ss
        else Some ((case manual_missing_operations ss of None \<Rightarrow> [] | Some ops \<Rightarrow> ops) @
                   submitted_ops forms 0 orphans))"
    unfolding st by (rule manual_operations_table_submit)
  have 4: "closed_df \<noteq> [] \<longrightarrow>
        (\<exists>s frame page.
           calculate_statistics closed_df = Stats_and_frame s frame \<and>
           map position frame = closed_df \<and>
           snd (app_main sort_values (Some df) forms tp pt ss) = Inr (Some page) \<and>
           shown_closed_positions page = take 50 closed_df \<and>
           shown_manual_operations page =
             manual_operations_table (fst (app_main sort_values (Some df) forms tp pt ss)) \<and>
           shown_statistics page = Some s \<and>
           profit_summary page =
             map (\<lambda>(k, g). (k, \<lparr> Sum_col = nansum (map (profit_column pt) g),
                                  Mean_col = nanmean (map (profit_column pt) g),
                                  Std_Dev = nanstd (map (profit_column pt) g) \<rparr>))
               (groupby (time_column tp) frame) \<and>
           cumulative_profit page =
             zip (map (\<lambda>r. Close_Date (position r)) frame) (cumsum (map (profit_column pt) frame)) \<and>
           monthly_profit_pct page = plot_monthly_percentage_bar frame)"
  proof
    assume ne: "closed_df \<noteq> []"
    obtain s frame where c: "calculate_statistics closed_df = Stats_and_frame s frame"
      using ne by (simp add: calculate_statistics_def Let_def)
    have p: "map position frame = closed_df"
      using c by (rule calculate_statistics_frame)
    show "\<exists>s frame page.
           calculate_statistics closed_df = Stats_and_frame s frame \<and>
           map position frame = closed_df \<and>
           snd (app_main sort_values (Some df) forms tp pt ss) = Inr (Some page) \<and>
           shown_closed_positions page = take 50 closed_df \<and>
           shown_manual_operations page =
             manual_operations_table (fst (app_main sort_values (Some df) forms tp pt ss)) \<and>
           shown_statistics page = Some s \<and>
           profit_summary page =
             map (\<lambda>(k, g). (k, \<lparr> Sum_col = nansum (map (profit_column pt) g),
                                  Mean_col = nanmean (map (profit_column pt) g),
                                  Std_Dev = nanstd (map (profit_column pt) g) \<rparr>))
               (groupby (time_column tp) frame) \<and>
           cumulative_profit page =
             zip (map (\<lambda>r. Close_Date (position r)) frame) (cumsum (map (profit_column pt) frame)) \<and>
           monthly_profit_pct page = plot_monthly_percentage_bar frame"
      unfolding st
      using c p by (simp add: app_main_def assms unpack_two_def Let_def)
  qed
  have 5: "Amount (manual_closed_op sell_order p d) = row_Executed sell_order"
    and 6: "Open_Price (manual_closed_op sell_order p d) = p"
    and 7: "Profit_Loss_USDT (manual_closed_op sell_order p d) =
       fmul (row_Executed sell_order) (fsub (row_Price sell_order) p)"
    by (simp_all add: manual_closed_op_def)
  from 1 2 3 4 5 6 7 show ?thesis by (intro conjI) assumption+
qed

lemma example_orders:
  "process_orders sort_values_by_date
     [csv_trade ''BTCUSDT'' ''BUY'' 10 ''1BTC'' 0,
      csv_trade ''BTCUSDT'' ''SELL'' 15 ''1BTC'' 1,
      csv_trade ''ETHUSDT'' ''SELL'' 100 ''2ETH'' 2] =
   Inr ([\<lparr> Base_Currency = ''BTC'', Open_Price = Fin 10, Close_Price = Fin 15, Amount = Fin 1,
            Open_Date = \<lparr>ts_year = 2024, ts_month = 1, ts_day = 1, ts_time = 0\<rparr>,
            Close_Date = \<lparr>ts_year = 2024, ts_month = 1, ts_day = 1, ts_time = 1\<rparr>,
            Profit_Loss_USDT = Fin 5 \<rparr>],
        [(''BTC'', [])],
        [\<lparr> row_Pair = ''ETHUSDT'', row_Side = ''SELL'', row_Price = Fin 100,
           row_Executed = Fin 2, row_Amount = Fin 2,
           row_Date = \<lparr>ts_year = 2024, ts_month = 1, ts_day = 1, ts_time = 2\<rparr>,
           row_Quote_Currency = ''USDT'', row_Base_Currency = ''ETH'' \<rparr>])"
  by (simp add: process_orders_def csv_eval app_eval)

lemma example_statistics:
  "calculate_statistics
     [\<lparr> Base_Currency = ''BTC'', Open_Price = Fin 10, Close_Price = Fin 15, Amount = Fin 1,
        Open_Date = \<lparr>ts_year = 2024, ts_month = 1, ts_day = 1, ts_time = 0\<rparr>,
        Close_Date = \<lparr>ts_year = 2024, ts_month = 1, ts_day = 1, ts_time = 1\<rparr>,
        Profit_Loss_USDT = Fin 5 \<rparr>] =
   Stats_and_frame
     \<lparr> Total_Closed_Trades = 1, Total_PnL_USDT = Fin 5, Winning_Trades = 1, Losing_Trades = 0,
       Win_Rate = Fin 100, Average_PnL_USDT = Fin 5, Average_PnL_pct = Fin 50,
       Operations_per_Month = [((2024, 1), 1)] \<rparr>
     [\<lparr> position =
          \<lparr> Base_Currency = ''BTC'', Open_Price = Fin 10, Close_Price = Fin 15, Amount = Fin 1,
            Open_Date = \<lparr>ts_year = 2024, ts_month = 1, ts_day = 1, ts_time = 0\<rparr>,
            Close_Date = \<lparr>ts_year = 2024, ts_month = 1, ts_day = 1, ts_time = 1\<rparr>,
            Profit_Loss_USDT = Fin 5 \<rparr>,
        Profit_Loss_pct = Fin 50, Month_col = (2024, 1) \<rparr>]"
  by (simp add: stats_eval)

theorem manual_operations_kept_apart_witness:
  "manual_missing_operations
     (fst (app_main sort_values_by_date
        (Some [csv_trade ''BTCUSDT'' ''BUY'' 10 ''1BTC'' 0,
               csv_trade ''BTCUSDT'' ''SELL'' 15 ''1BTC'' 1,
               csv_trade ''ETHUSDT'' ''SELL'' 100 ''2ETH'' 2])
        (\<lambda>i. if i = 0 then Some (Fin 80, \<lparr>ts_year = 2023, ts_month = 12, ts_day = 1, ts_time = 0\<rparr>)
              else None)
        Month Absolute \<lparr>manual_missing_operations = None\<rparr>)) =
   Some [\<lparr> Base_Currency = ''ETH'', Open_Price = Fin 80, Close_Price = Fin 100, Amount = Fin 2,
           Open_Date = \<lparr>ts_year = 2023, ts_month = 12, ts_day = 1, ts_time = 0\<rparr>,
           Close_Date = \<lparr>ts_year = 2024, ts_month = 1, ts_day = 1, ts_time = 2\<rparr>,
           Profit_Loss_USDT = Fin 40 \<rparr>]
   \<and> manual_operations_table
     (fst (app_main sort_values_by_date
        (Some [csv_trade ''BTCUSDT'' ''BUY'' 10 ''1BTC'' 0,
               csv_trade ''BTCUSDT'' ''SELL'' 15 ''1BTC'' 1,
               csv_trade ''ETHUSDT'' ''SELL'' 100 ''2ETH'' 2])
        (\<lambda>i. if i = 0 then Some (Fin 80, \<lparr>ts_year = 2023, ts_month = 12, ts_day = 1, ts_time = 0\<rparr>)
              else None)
        Month Absolute \<lparr>manual_missing_operations = None\<rparr>)) =
   Some [\<lparr> Base_Currency = ''ETH'', Open_Price = Fin 80, Close_Price = Fin 100, Amount = Fin 2,
           Open_Date = \<lparr>ts_year = 2023, ts_month = 12, ts_day = 1, ts_time = 0\<rparr>,
           Close_Date = \<lparr>ts_year = 2024, ts_month = 1, ts_day = 1, ts_time = 2\<rparr>,
           Profit_Loss_USDT = Fin 40 \<rparr>]
   \<and> (\<exists>page. snd (app_main sort_values_by_date
        (Some [csv_trade ''BTCUSDT'' ''BUY'' 10 ''1BTC'' 0,
               csv_trade ''BTCUSDT'' ''SELL'' 15 ''1BTC'' 1,
               csv_trade ''ETHUSDT'' ''SELL'' 100 ''2ETH'' 2])
        (\<lambda>i. if i = 0 then Some (Fin 80, \<lparr>ts_year = 2023, ts_month = 12, ts_day = 1, ts_time = 0\<rparr>)
              else None)
        Month Absolute \<lparr>manual_missing_operations = None\<rparr>) = Inr (Some page) \<and>
      map_option (\<lambda>s. (Total_Closed_Trades s, Total_PnL_USDT s)) (shown_statistics page) = Some (1, Fin 5))"
proof -
  let ?forms = "\<lambda>i::nat. if i = 0 then Some (Fin 80, \<lparr>ts_year = 2023, ts_month = 12, ts_day = 1, ts_time = 0\<rparr>)
            else None"
  let ?ss = "\<lparr>manual_missing_operations = None\<rparr>"
  let ?btc = "\<lparr> Base_Currency = ''BTC'', Open_Price = Fin 10, Close_Price = Fin 15, Amount = Fin 1,
            Open_Date = \<lparr>ts_year = 2024, ts_month = 1, ts_day = 1, ts_time = 0\<rparr>,
            Close_Date = \<lparr>ts_year = 2024, ts_month = 1, ts_day = 1, ts_time = 1\<rparr>,
            Profit_Loss_USDT = Fin 5 \<rparr>"
  have e: "submitted_ops ?forms 0
      [\<lparr> row_Pair = ''ETHUSDT'', row_Side = ''SELL'', row_Price = Fin 100,
         row_Executed = Fin 2, row_Amount = Fin 2,
         row_Date = \<lparr>ts_year = 2024, ts_month = 1, ts_day = 1, ts_time = 2\<rparr>,
         row_Quote_Currency = ''USDT'', row_Base_Currency = ''ETH'' \<rparr>] =
     [\<lparr> Base_Currency = ''ETH'', Open_Price = Fin 80, Close_Price = Fin 100, Amount = Fin 2,
        Open_Date = \<lparr>ts_year = 2023, ts_month = 12, ts_day = 1, ts_time = 0\<rparr>,
        Close_Date = \<lparr>ts_year = 2024, ts_month = 1, ts_day = 1, ts_time = 2\<rparr>,
        Profit_Loss_USDT = Fin 40 \<rparr>]"
    by (simp add: submitted_ops_Cons submitted_ops_Nil manual_closed_op_def fsub_def)
  have ne: "[?btc] \<noteq> []" by simp
  note t = manual_operations_kept_apart[OF example_orders, of ?forms Month Absolute ?ss]
  have 1: "manual_missing_operations
     (fst (app_main sort_values_by_date
        (Some [csv_trade ''BTCUSDT'' ''BUY'' 10 ''1BTC'' 0,
               csv_trade ''BTCUSDT'' ''SELL'' 15 ''1BTC'' 1,
               csv_trade ''ETHUSDT'' ''SELL'' 100 ''2ETH'' 2]) ?forms Month Absolute ?ss)) =
     Some [\<lparr> Base_Currency = ''ETH'', Open_Price = Fin 80, Close_Price = Fin 100, Amount = Fin 2,
        Open_Date = \<lparr>ts_year = 2023, ts_month = 12, ts_day = 1, ts_time = 0\<rparr>,
        Close_Date = \<lparr>ts_year = 2024, ts_month = 1, ts_day = 1, ts_time = 2\<rparr>,
        Profit_Loss_USDT = Fin 40 \<rparr>]"
    using t[THEN conjunct1] unfolding e by simp
  have 2: "manual_operations_table
     (fst (app_main sort_values_by_date
        (Some [csv_trade ''BTCUSDT'' ''BUY'' 10 ''1BTC'' 0,
               csv_trade ''BTCUSDT'' ''SELL'' 15 ''1BTC'' 1,
               csv_trade ''ETHUSDT'' ''SELL'' 100 ''2ETH'' 2]) ?forms Month Absolute ?ss)) =
     Some [\<lparr> Base_Currency = ''ETH'', Open_Price = Fin 80, Close_Price = Fin 100, Amount = Fin 2,
        Open_Date = \<lparr>ts_year = 2023, ts_month = 12, ts_day = 1, ts_time = 0\<rparr>,
        Close_Date = \<lparr>ts_year = 2024, ts_month = 1, ts_day = 1, ts_time = 2\<rparr>,
        Profit_Loss_USDT = Fin 40 \<rparr>]"
    using t[THEN conjunct2, THEN conjunct2, THEN conjunct1] unfolding e by simp
  from t[THEN conjunct2, THEN conjunct2, THEN conjunct2, THEN conjunct1] ne
  obtain s frame page where p: "calculate_statistics [?btc] = Stats_and_frame s frame"
    "snd (app_main sort_values_by_date
        (Some [csv_trade ''BTCUSDT'' ''BUY'' 10 ''1BTC'' 0,
               csv_trade ''BTCUSDT'' ''SELL'' 15 ''1BTC'' 1,
               csv_trade ''ETHUSDT'' ''SELL'' 100 ''2ETH'' 2]) ?forms Month Absolute ?ss) = Inr (Some page)"
    "shown_statistics page = Some s"
    by blast
  have "Total_Closed_Trades s = 1 \<and> Total_PnL_USDT s = Fin 5"
    using p(1) unfolding example_statistics by auto
  then have 3: "\<exists>page. snd (app_main sort_values_by_date
        (Some [csv_trade ''BTCUSDT'' ''BUY'' 10 ''1BTC'' 0,
               csv_trade ''BTCUSDT'' ''SELL'' 15 ''1BTC'' 1,
               csv_trade ''ETHUSDT'' ''SELL'' 100 ''2ETH'' 2]) ?forms Month Absolute ?ss) = Inr (Some page) \<and>
      map_option (\<lambda>s. (Total_Closed_Trades s, Total_PnL_USDT s)) (shown_statistics page) = Some (1, Fin 5)"
    using p(2,3) by auto
  show ?thesis using 1 2 3 by blast
qed

text \<open>
  A file with an unmatched sell and nothing else: the form is submitted, the manual
  operation is stored in the session state, and then the statistics raise, for want of a
  closed position.
\<close>

lemma manual_operation_stored_before_statistics:
  "app_main sort_values_by_date
     (Some [csv_trade ''ETHUSDT'' ''SELL'' 100 ''2ETH'' 0])
     (\<lambda>i. if i = 0 then Some (Fin 80, \<lparr>ts_year = 2023, ts_month = 12, ts_day = 1, ts_time = 0\<rparr>)
           else None)
     Month Absolute \<lparr>manual_missing_operations = None\<rparr> =
   (\<lparr>manual_missing_operations =
       Some [\<lparr> Base_Currency = ''ETH'', Open_Price = Fin 80, Close_Price = Fin 100, Amount = Fin 2,
               Open_Date = \<lparr>ts_year = 2023, ts_month = 12, ts_day = 1, ts_time = 0\<rparr>,
               Close_Date = \<lparr>ts_year = 2024, ts_month = 1, ts_day = 1, ts_time = 0\<rparr>,
               Profit_Loss_USDT = Fin 40 \<rparr>]\<rparr>,
    Inl (ValueError ''not enough values to unpack (expected 2, got 0)''))"
  by (simp add: app_main_def process_orders_def csv_eval app_eval stats_eval)

text \<open>
  The claim as stated fails on this run: the collection the statistics, the summary, the
  cumulative series and the monthly percentages are computed over holds the BTC lot alone;
  the manual ETH lot is in the session state and in its own table only.
\<close>

theorem manual_operations_counterexample:
  "app_main sort_values_by_date
     (Some [csv_trade ''BTCUSDT'' ''BUY'' 10 ''1BTC'' 0,
            csv_trade ''BTCUSDT'' ''SELL'' 15 ''1BTC'' 1,
            csv_trade ''ETHUSDT'' ''SELL'' 100 ''2ETH'' 2])
     (\<lambda>i. if i = 0 then Some (Fin 80, \<lparr>ts_year = 2023, ts_month = 12, ts_day = 1, ts_time = 0\<rparr>)
           else None)
     Month Absolute \<lparr>manual_missing_operations = None\<rparr> =
   (\<lparr>manual_missing_operations =
       Some [\<lparr> Base_Currency = ''ETH'', Open_Price = Fin 80, Close_Price = Fin 100, Amount = Fin 2,
               Open_Date = \<lparr>ts_year = 2023, ts_month = 12, ts_day = 1, ts_time = 0\<rparr>,
               Close_Date = \<lparr>ts_year = 2024, ts_month = 1, ts_day = 1, ts_time = 2\<rparr>,
               Profit_Loss_USDT = Fin 40 \<rparr>]\<rparr>,
    Inr (Some
      \<lparr> shown_open_positions = [],
        shown_closed_positions =
          [\<lparr> Base_Currency = ''BTC'', Open_Price = Fin 10, Close_Price = Fin 15, Amount = Fin 1,
             Open_Date = \<lparr>ts_year = 2024, ts_month = 1, ts_day = 1, ts_time = 0\<rparr>,
             Close_Date = \<lparr>ts_year = 2024, ts_month = 1, ts_day = 1, ts_time = 1\<rparr>,
             Profit_Loss_USDT = Fin 5 \<rparr>],
        shown_manual_operations =
          Some [\<lparr> Base_Currency = ''ETH'', Open_Price = Fin 80, Close_Price = Fin 100, Amount = Fin 2,
                  Open_Date = \<lparr>ts_year = 2023, ts_month = 12, ts_day = 1, ts_time = 0\<rparr>,
                  Close_Date = \<lparr>ts_year = 2024, ts_month = 1, ts_day = 1, ts_time = 2\<rparr>,
                  Profit_Loss_USDT = Fin 40 \<rparr>],
        shown_statistics =
          Some \<lparr> Total_Closed_Trades = 1, Total_PnL_USDT = Fin 5, Winning_Trades = 1,
                 Losing_Trades = 0, Win_Rate = Fin 100, Average_PnL_USDT = Fin 5,
                 Average_PnL_pct = Fin 50, Operations_per_Month = [((2024, 1), 1)] \<rparr>,
        profit_summary = [((2024, 1), \<lparr>Sum_col = Fin 5, Mean_col = Fin 5, Std_Dev = NaN\<rparr>)],
        cumulative_profit = [(\<lparr>ts_year = 2024, ts_month = 1, ts_day = 1, ts_time = 1\<rparr>, Fin 5)],
        monthly_profit_pct = Some [((2024, 1), Fin 50)] \<rparr>))"
  unfolding app_main_def option.case example_orders sum.case prod.case example_statistics
    unpack_two_def stats_return.case
  by (simp add: stats_eval manual_operations_table_def)

subsection \<open>Claims about the statistics\<close>

lemma foldl_fadd_fin:
  "list_all is_fin xs \<Longrightarrow> foldl fadd (Fin a) xs = Fin (a + sum_list (map fin_val xs))"
proof (induction xs arbitrary: a)
  case Nil
  then show ?case by simp
next
  case (Cons x xs)
  then obtain b where "x = Fin b" using fin_cases by auto
  then show ?case using Cons by (simp add: add.assoc)
qed

lemma dropna_fin: "list_all is_fin xs \<Longrightarrow> dropna xs = xs"
  by (induction xs) (auto simp: dropna_def)

lemma nansum_fin: "list_all is_fin xs \<Longrightarrow> nansum xs = Fin (sum_list (map fin_val xs))"
  by (simp add: nansum_def dropna_fin foldl_fadd_fin)

lemma cost_basis_fin:
  "is_fin (Open_Price c) \<Longrightarrow> is_fin (Amount c) \<Longrightarrow>
   cost_basis c = Fin (fin_val (Open_Price c) * fin_val (Amount c))"
  by (cases "Open_Price c"; cases "Amount c") (simp_all add: cost_basis_def)

lemma bucket_percent:
  assumes "list_all (\<lambda>r. fin_position (position r)) g"
  shows "(if nansum (map (\<lambda>r. cost_basis (position r)) g) \<noteq> Fin 0
          then fmul (fdiv (nansum (map (\<lambda>r. Profit_Loss_USDT (position r)) g))
                       (nansum (map (\<lambda>r. cost_basis (position r)) g))) (Fin 100)
          else Fin 0) = weighted_percent g"
proof -
  have p: "nansum (map (\<lambda>r. Profit_Loss_USDT (position r)) g) =
           Fin (\<Sum>r\<leftarrow>g. fin_val (Profit_Loss_USDT (position r)))"
    using assms by (subst nansum_fin) (auto simp: list_all_iff fin_position_def comp_def)
  have cb: "map (\<lambda>r. cost_basis (position r)) g =
            map (\<lambda>r. Fin (fin_val (Open_Price (position r)) * fin_val (Amount (position r)))) g"
    using assms by (auto simp: list_all_iff fin_position_def cost_basis_fin)
  have c: "nansum (map (\<lambda>r. cost_basis (position r)) g) =
           Fin (\<Sum>r\<leftarrow>g. fin_val (Open_Price (position r)) * fin_val (Amount (position r)))"
    unfolding cb by (subst nansum_fin) (auto simp: list_all_iff comp_def)
  show ?thesis
    unfolding p c by (simp add: weighted_percent_def Let_def)
qed

text \<open>
  C9. The bar of a month is the cost-basis-weighted ratio of its bucket,
  \<open>\<Sum> profit / \<Sum> (open price \<times> amount) \<times> 100\<close>, and \<open>0\<close> for a bucket whose cost basis
  is zero; there is one bar for each month in which a lot was closed, in ascending order.
  (Closed lots whose profit, open price and amount are numbers; the sums and the quotient
  are the exact ones.)
\<close>

theorem monthly_percent_is_weighted:
  assumes "frame \<noteq> []"
    and "list_all (\<lambda>r. fin_position (position r)) frame"
  shows "plot_monthly_percentage_bar frame =
     Some (map (\<lambda>m. (m, weighted_percent
                          (filter (\<lambda>r. to_period_M (Close_Date (position r)) = m) frame)))
             (sort (remdups (map (\<lambda>r. to_period_M (Close_Date (position r))) frame))))"
proof -
  have b: "list_all (\<lambda>r. fin_position (position r))
             (filter (\<lambda>r. to_period_M (Close_Date (position r)) = m) frame)" for m
    using assms(2) by (simp add: list_all_iff)
  show ?thesis
    using assms(1) by (simp add: plot_monthly_percentage_bar_def groupby_def Let_def bucket_percent[OF b])
qed

text \<open>
  The example of the specification: two lots closed in the same month, amount 1 and
  amount 10, both bought at 10 with profit 5. The bar is \<open>10 / 110 \<times> 100\<close>; the plain
  average of the two percentages (50 and 5) is 27.5.
\<close>

theorem monthly_percent_is_weighted_witness:
  "plot_monthly_percentage_bar (frame_of [closed_lot 1 10 5 1, closed_lot 10 10 5 1]) =
     Some [((2024, 1), Fin (100 / 11))] \<and>
   nanmean (map Profit_Loss_pct (frame_of [closed_lot 1 10 5 1, closed_lot 10 10 5 1])) = Fin 27.5"
proof -
  let ?frame = "frame_of [closed_lot 1 10 5 1, closed_lot 10 10 5 1]"
  have h1: "?frame \<noteq> []" by (simp add: frame_of_def)
  have h2: "list_all (\<lambda>r. fin_position (position r)) ?frame"
    by (simp add: frame_of_def closed_lot_def fin_position_def)
  have w: "map (\<lambda>m. (m, weighted_percent
                          (filter (\<lambda>r. to_period_M (Close_Date (position r)) = m) ?frame)))
             (sort (remdups (map (\<lambda>r. to_period_M (Close_Date (position r))) ?frame))) =
           [((2024, 1), Fin (100 / 11))]"
    by (simp add: frame_of_def closed_lot_def to_period_M_def weighted_percent_def)
  have m: "nanmean (map Profit_Loss_pct ?frame) = Fin 27.5"
    by (simp add: frame_of_def closed_lot_def stats_eval)
  from monthly_percent_is_weighted[OF h1 h2] show ?thesis
    unfolding w using m by simp
qed

lemma profit_loss_pct_fin: "fin_position c \<Longrightarrow> profit_loss_pct c = percent_return c"
  by (cases "Profit_Loss_USDT c"; cases "Open_Price c"; cases "Amount c")
     (simp_all add: fin_position_def profit_loss_pct_def percent_return_def cost_basis_def
        replace_zero_def Let_def)

lemma percent_return_cases: "percent_return c = NaN \<or> is_fin (percent_return c)"
  by (simp add: percent_return_def Let_def)

lemma nanmean_defined:
  assumes "list_all (\<lambda>v. v = NaN \<or> is_fin v) xs"
  shows "nanmean xs = mean_of_defined xs"
proof -
  have f: "list_all is_fin (dropna xs)"
    using assms by (auto simp: dropna_def list_all_iff)
  have d: "dropna (dropna xs) = dropna xs" by (simp add: dropna_def)
  have "nansum xs = Fin (sum_list (map fin_val (dropna xs)))"
    using foldl_fadd_fin[OF f, of 0] by (simp add: nansum_def)
  then show ?thesis
    by (simp add: nanmean_def mean_of_defined_def Let_def dropna_def)
qed

lemma calculate_statistics_frame_of:
  "calculate_statistics closed_df = Stats_and_frame s frame \<Longrightarrow>
   frame = frame_of closed_df \<and> Average_PnL_pct s = nanmean (map Profit_Loss_pct frame)"
  by (auto simp: calculate_statistics_def frame_of_def Let_def split: if_splits)

text \<open>
  C8, as the code has it. In app.py (\<open>calculate_statistics\<close>) the percentage of a closed
  lot is \<open>profit / (open price \<times> amount) \<times> 100\<close> when the cost basis is not zero and \<open>NaN\<close>
  when it is zero (a number or \<open>NaN\<close>, never an infinity), and the average percentage is
  the mean of the entries that are not \<open>NaN\<close>. In visualizer.py (\<open>process_orders\<close>) the
  percentage of a slice is \<open>(close price - open price) / open price \<times> 100\<close> for an open
  price other than zero, whatever the amount of the slice, and the script adds these
  percentages up in \<open>total_profit_percentage\<close>.
\<close>

theorem percentage_return:
  assumes "list_all fin_position closed_df"
    and "calculate_statistics closed_df = Stats_and_frame s frame"
    and "v_price h = Fin q" and "q \<noteq> 0"
  shows "map Profit_Loss_pct frame = map percent_return closed_df \<and>
     Average_PnL_pct s = mean_of_defined (map percent_return closed_df) \<and>
     (\<exists>slice. v_close_slice b (Fin P) T (Inr cq) h amt (acc, u, t) =
                 Inr (acc @ [slice], fadd u (v_Profit_Loss_USDT slice),
                      fadd t (v_Profit_Loss_pct slice)) \<and>
              v_Amount slice = amt \<and>
              v_Profit_Loss_pct slice = Fin ((P - q) / q * 100))"
proof -
  from calculate_statistics_frame_of[OF assms(2)]
  have fr: "frame = frame_of closed_df"
    and av: "Average_PnL_pct s = nanmean (map Profit_Loss_pct frame)" by simp_all
  have 1: "map Profit_Loss_pct frame = map percent_return closed_df"
    using assms(1) unfolding fr
    by (auto simp: frame_of_def list_all_iff profit_loss_pct_fin)
  have "list_all (\<lambda>v. v = NaN \<or> is_fin v) (map percent_return closed_df)"
    using percent_return_cases by (simp add: list_all_iff)
  then have 2: "Average_PnL_pct s = mean_of_defined (map percent_return closed_df)"
    unfolding av 1 by (rule nanmean_defined)
  have 3: "\<exists>slice. v_close_slice b (Fin P) T (Inr cq) h amt (acc, u, t) =
                 Inr (acc @ [slice], fadd u (v_Profit_Loss_USDT slice),
                      fadd t (v_Profit_Loss_pct slice)) \<and>
              v_Amount slice = amt \<and>
              v_Profit_Loss_pct slice = Fin ((P - q) / q * 100)"
    using assms(3,4) by (simp add: v_close_slice_def py_truediv_def fsub_def Let_def)
  show ?thesis using 1 2 3 by blast
qed

theorem percentage_return_witness:
  "\<exists>s frame. calculate_statistics [closed_lot 1 10 5 1, closed_lot 1 0 5 1] = Stats_and_frame s frame \<and>
     map Profit_Loss_pct frame = [Fin 50, NaN] \<and> Average_PnL_pct s = Fin 50"
proof -
  let ?df = "[closed_lot 1 10 5 1, closed_lot 1 0 5 1]"
  obtain s frame where c: "calculate_statistics ?df = Stats_and_frame s frame"
    by (simp add: calculate_statistics_def Let_def)
  have h1: "list_all fin_position ?df" by (simp add: fin_position_def closed_lot_def)
  have h3: "v_price \<lparr>v_price = Fin 10, v_amount = Fin 1, v_quote = ''USDT'',
                     v_date = \<lparr>ts_year = 2024, ts_month = 1, ts_day = 1, ts_time = 0\<rparr>\<rparr> = Fin 10"
    by simp
  have h4: "(10::real) \<noteq> 0" by simp
  have p: "map percent_return ?df = [Fin 50, NaN]"
    by (simp add: percent_return_def closed_lot_def)
  have m: "mean_of_defined [Fin 50, NaN] = Fin 50"
    by (simp add: mean_of_defined_def)
  from percentage_return[OF h1 c h3 h4]
  have "map Profit_Loss_pct frame = [Fin 50, NaN] \<and> Average_PnL_pct s = Fin 50"
    unfolding p m by blast
  then show ?thesis using c by (intro exI[of _ s] exI[of _ frame]) simp
qed

text \<open>
  The claim as stated fails on visualizer.py: a buy of amount 0 at price 10 and a sell of
  one unit at 15. The slice closed has amount 0, so its cost basis is zero, and its
  percentage is 50, not \<open>NaN\<close>; the total of the percentages is 50.
\<close>

theorem percentage_return_counterexample:
  "v_match_rows v_no_positions [v_trade ''BTC'' ''BUY'' 10 0 0, v_trade ''BTC'' ''SELL'' 15 1 1] =
   Inr \<lparr> v_open_positions = [(''BTC'', [])],
          v_closed_positions =
            [\<lparr> v_Base_Currency = ''BTC'', v_Open_Price = Fin 10, v_Close_Price = Fin 15,
               v_Amount = Fin 0,
               v_Open_Date = \<lparr>ts_year = 2024, ts_month = 1, ts_day = 1, ts_time = 0\<rparr>,
               v_Close_Date = \<lparr>ts_year = 2024, ts_month = 1, ts_day = 1, ts_time = 1\<rparr>,
               v_Quote_Currency_Open = ''USDT'', v_Quote_Currency_Close = ''USDT'',
               v_Profit_Loss_USDT = Fin 0, v_Profit_Loss_pct = Fin 50 \<rparr>],
          total_profit_usdt = Fin 0, total_profit_percentage = Fin 50 \<rparr>"
  by (simp add: vis_eval)

text \<open>
  With an open price of zero the division of visualizer.py raises: the run ends with
  \<open>ZeroDivisionError\<close>, where \<open>calculate_statistics\<close> of app.py replaces the zero cost
  basis by \<open>NaN\<close> first.
\<close>

lemma vis_zero_open_price_raises:
  "v_match_rows v_no_positions [v_trade ''BTC'' ''BUY'' 0 1 0, v_trade ''BTC'' ''SELL'' 5 1 1] =
   Inl ZeroDivisionError"
  by (simp add: vis_eval)

subsection \<open>The sort before matching\<close>

text \<open>
  The order in which \<open>sort_values\<close> leaves two rows of the same instant is not fixed by
  the model (the sort is a parameter), and the result of matching depends on it: a buy
  and a sell of the same instant give a closed position when the buy comes first, and an
  unmatched sell with an open lot when the sell comes first. Both orders are ascending
  in the date.
\<close>

lemma tie_order_matters:
  "closed_positions (match_rows [trade ''BTC'' ''BUY'' 10 1 0, trade ''BTC'' ''SELL'' 15 1 0]) \<noteq> [] \<and>
   closed_positions (match_rows [trade ''BTC'' ''SELL'' 15 1 0, trade ''BTC'' ''BUY'' 10 1 0]) = [] \<and>
   orphan_sell_orders (match_rows [trade ''BTC'' ''SELL'' 15 1 0, trade ''BTC'' ''BUY'' 10 1 0]) =
     [trade ''BTC'' ''SELL'' 15 1 0] \<and>
   sorted (map (\<lambda>r. ts_key (row_Date r)) [trade ''BTC'' ''BUY'' 10 1 0, trade ''BTC'' ''SELL'' 15 1 0]) \<and>
   sorted (map (\<lambda>r. ts_key (row_Date r)) [trade ''BTC'' ''SELL'' 15 1 0, trade ''BTC'' ''BUY'' 10 1 0])"
  by (simp add: app_eval ts_key_def)

text \<open>
  Without ties there is nothing to choose: two sorts that fit the description of
  \<open>sort_values\<close> return the same frame when no two rows have the same instant.
\<close>

lemma sort_determined_without_ties:
  assumes "sorts_by_date sv" and "sorts_by_date sv'"
    and "distinct (map (\<lambda>r. ts_key (row_Date r)) rows)"
  shows "sv rows = sv' rows"
proof -
  let ?f = "\<lambda>r. ts_key (row_Date r)"
  have m: "mset (sv rows) = mset rows" "mset (sv' rows) = mset rows"
    and s: "sorted (map ?f (sv rows))" "sorted (map ?f (sv' rows))"
    using assms(1,2) by (simp_all add: sorts_by_date_def)
  have sets: "set (sv rows) = set rows" "set (sv' rows) = set rows"
    using m by (metis set_mset_mset)+
  have inj: "inj_on ?f (set (sv rows) \<union> set (sv' rows))"
    using assms(3) unfolding sets by (simp add: distinct_map)
  have "mset (map ?f (sv rows)) = mset (map ?f rows)" "mset (map ?f (sv' rows)) = mset (map ?f rows)"
    using m by (metis mset_map)+
  then have d: "distinct (map ?f (sv rows))" "distinct (map ?f (sv' rows))"
    using assms(3) by (metis mset_eq_imp_distinct_iff)+
  show ?thesis
    using map_sorted_distinct_set_unique[OF inj s(1) d(1) s(2) d(2)] sets by simp
qed

end
